theory Spec2Isabelle
  imports Main
begin

unbundle bit_operations_syntax

section \<open>Decoded JSON values and Python's view of them\<close>

text \<open>
  Everything the client receives is a value built by \<^verbatim>\<open>json.loads\<close>: Python's
  \<^verbatim>\<open>None\<close>, booleans, integers, strings, lists and dicts. A dict is kept as the list
  of its entries in insertion order; an entry further to the right overrides one with the
  same key to its left, as a later insertion does. Numbers with a fraction do not occur in
  the protocol and are not modelled.
\<close>

datatype json =
    JNull
  | JBool bool
  | JInt int
  | JStr string
  | JList "json list"
  | JObj "(string \<times> json) list"

definition dict_get :: "(string \<times> json) list \<Rightarrow> string \<Rightarrow> json option" where
  "dict_get d k = map_of (rev d) k"

definition get_or_none :: "(string \<times> json) list \<Rightarrow> string \<Rightarrow> json" where
  \<comment> \<open>\<^verbatim>\<open>d.get(k)\<close>\<close>
  "get_or_none d k = (case dict_get d k of None \<Rightarrow> JNull | Some v \<Rightarrow> v)"

fun truthy :: "json \<Rightarrow> bool" where
  "truthy JNull = False"
| "truthy (JBool b) = b"
| "truthy (JInt n) = (n \<noteq> 0)"
| "truthy (JStr s) = (s \<noteq> [])"
| "truthy (JList xs) = (xs \<noteq> [])"
| "truthy (JObj d) = (d \<noteq> [])"

fun as_int :: "json \<Rightarrow> int option" where
  \<comment> \<open>the integer a value counts as in arithmetic and comparison: \<^verbatim>\<open>True\<close> is 1\<close>
  "as_int (JInt n) = Some n"
| "as_int (JBool b) = Some (if b then 1 else 0)"
| "as_int _ = None"

definition eq_int :: "json \<Rightarrow> int \<Rightarrow> bool" where
  \<comment> \<open>\<^verbatim>\<open>v == n\<close> for an integer literal or enumeration value \<open>n\<close>\<close>
  "eq_int v n = (as_int v = Some n)"

datatype error =
    VkLongPollError int string "string"
  | KeyError
  | IndexError
  | TypeError
  | AttributeError
  | ValueError
  | RecursionError
  | OtherError string

section \<open>The long-poll session (\<^verbatim>\<open>BaseLongPoll\<close> and its two subclasses)\<close>

record base_params =
  version :: int
  wait_secs :: int
  mode :: "int option"

record session =
  params :: base_params
  timeout :: json
  pts :: json
  ts :: json
  key :: json
  base_url :: "string option"

definition init_session :: "base_params \<Rightarrow> json \<Rightarrow> session" where
  \<comment> \<open>\<^verbatim>\<open>BaseLongPoll.__init__\<close>, lines 41 to 44: all four coordinates start as \<^verbatim>\<open>None\<close>\<close>
  "init_session bp t =
     \<lparr>params = bp, timeout = t, pts = JNull, ts = JNull, key = JNull, base_url = None\<rparr>"

datatype subscription =
    UserLongPoll bool      \<comment> \<open>the class attribute \<^verbatim>\<open>use_https\<close>\<close>
  | BotsLongPoll json      \<comment> \<open>\<^verbatim>\<open>group_id\<close>\<close>

datatype call =
    ApiCall string "(string \<times> json) list"
  | GetText "string option" "(string \<times> json) list" int

datatype 'a result = Returned 'a | Raised error | Blocked

definition py_str :: "(json \<Rightarrow> string) \<Rightarrow> json \<Rightarrow> string" where
  \<comment> \<open>\<^verbatim>\<open>str(v)\<close>: a string is itself; the rendering of the other values is the
      parameter \<open>fmt\<close>\<close>
  "py_str fmt v = (case v of JStr s \<Rightarrow> s | _ \<Rightarrow> fmt v)"

definition handoff_call :: "subscription \<Rightarrow> bool \<Rightarrow> session \<Rightarrow> call" where
  "handoff_call k need_pts s =
     (case k of
        UserLongPoll _ \<Rightarrow>
          ApiCall ''messages.getLongPollServer''
            [(''need_pts'', JInt (if need_pts then 1 else 0)), (''timeout'', timeout s)]
      | BotsLongPoll g \<Rightarrow> ApiCall ''groups.getLongPollServer'' [(''group_id'', g)])"

definition server_url :: "subscription \<Rightarrow> (json \<Rightarrow> string) \<Rightarrow> json \<Rightarrow> string" where
  "server_url k fmt server =
     (case k of
        UserLongPoll use_https \<Rightarrow>
          ''http'' @ (if use_https then ''s'' else '''') @ ''://'' @ py_str fmt server
      | BotsLongPoll _ \<Rightarrow> py_str fmt server)"

definition get_long_poll_server ::
  "subscription \<Rightarrow> (json \<Rightarrow> string) \<Rightarrow> session \<Rightarrow> error + json \<Rightarrow> (error + unit) \<times> session"
where
  \<comment> \<open>\<^verbatim>\<open>_get_long_poll_server\<close>, given what the API call answers (\<open>Inl\<close>: it raised).
      The four assignments happen in order, so a missing field leaves the earlier
      ones done.\<close>
  "get_long_poll_server k fmt s answer =
     (case answer of
        Inl e \<Rightarrow> (Inl e, s)
      | Inr (JObj d) \<Rightarrow>
          (let s1 = s\<lparr>pts := get_or_none d ''pts''\<rparr> in
           case dict_get d ''ts'' of
             None \<Rightarrow> (Inl KeyError, s1)
           | Some t \<Rightarrow>
               (let s2 = s1\<lparr>ts := t\<rparr> in
                case dict_get d ''key'' of
                  None \<Rightarrow> (Inl KeyError, s2)
                | Some ky \<Rightarrow>
                    (let s3 = s2\<lparr>key := ky\<rparr> in
                     case dict_get d ''server'' of
                       None \<Rightarrow> (Inl KeyError, s3)
                     | Some srv \<Rightarrow> (Inr (), s3\<lparr>base_url := Some (server_url k fmt srv)\<rparr>))))
      | Inr _ \<Rightarrow> (Inl AttributeError, s))"

definition url_set :: "session \<Rightarrow> bool" where
  \<comment> \<open>the test \<^verbatim>\<open>self.base_url\<close>: neither \<^verbatim>\<open>None\<close> nor the empty string\<close>
  "url_set s = (case base_url s of None \<Rightarrow> False | Some u \<Rightarrow> u \<noteq> [])"

definition get_params :: "session \<Rightarrow> (string \<times> json) list" where
  "get_params s =
     [(''ts'', ts s), (''key'', key s),
      (''version'', JInt (version (params s))), (''wait'', JInt (wait_secs (params s))),
      (''act'', JStr ''a_check'')]
     @ (case mode (params s) of None \<Rightarrow> [] | Some m \<Rightarrow> [(''mode'', JInt m)])"

definition get_call :: "session \<Rightarrow> call" where
  "get_call s = GetText (base_url s) (get_params s) (2 * wait_secs (params s))"

record run =
  result :: "json result"
  final :: session
  calls :: "call list"
  depth :: nat

definition handoff ::
  "subscription \<Rightarrow> (json \<Rightarrow> string) \<Rightarrow> bool \<Rightarrow> session \<Rightarrow> (error + json) list
     \<Rightarrow> unit result \<times> session \<times> call list \<times> (error + json) list"
where
  \<comment> \<open>\<^verbatim>\<open>await self._get_long_poll_server(need_pts)\<close>: it consumes one answer of the
      API, and does not return when there is none\<close>
  "handoff k fmt need_pts s hs =
     (case hs of
        [] \<Rightarrow> (Blocked, s, [handoff_call k need_pts s], [])
      | h # hs' \<Rightarrow>
          (case get_long_poll_server k fmt s h of
             (Inl e, s') \<Rightarrow> (Raised e, s', [handoff_call k need_pts s], hs')
           | (Inr _, s') \<Rightarrow> (Returned (), s', [handoff_call k need_pts s], hs')))"

definition ensure_server ::
  "subscription \<Rightarrow> (json \<Rightarrow> string) \<Rightarrow> bool \<Rightarrow> session \<Rightarrow> (error + json) list
     \<Rightarrow> unit result \<times> session \<times> call list \<times> (error + json) list"
where
  \<comment> \<open>lines 58 and 59: the handoff, only when no endpoint is set\<close>
  "ensure_server k fmt need_pts s hs =
     (if url_set s then (Returned (), s, [], hs) else handoff k fmt need_pts s hs)"

definition stop :: "json result \<Rightarrow> session \<Rightarrow> call list \<Rightarrow> run" where
  "stop r s cs = \<lparr>result = r, final = s, calls = cs, depth = 1\<rparr>"

definition nested :: "call list \<Rightarrow> run \<Rightarrow> run" where
  \<comment> \<open>\<^verbatim>\<open>return await self.wait()\<close>: the caller's frame stays below the callee's\<close>
  "nested cs r = r\<lparr>calls := cs @ calls r, depth := Suc (depth r)\<rparr>"

fun wait ::
  "subscription \<Rightarrow> (json \<Rightarrow> string) \<Rightarrow> bool \<Rightarrow> session \<Rightarrow> (error + json) list
     \<Rightarrow> (error + int \<times> (error + json)) list \<Rightarrow> run"
where
  "wait k fmt need_pts s hs gs =
     (case ensure_server k fmt need_pts s hs of
        (Raised e, s1, cs, hs1) \<Rightarrow> stop (Raised e) s1 cs
      | (Blocked, s1, cs, hs1) \<Rightarrow> stop Blocked s1 cs
      | (Returned _, s1, cs, hs1) \<Rightarrow>
          (let cs1 = cs @ [get_call s1] in
           case gs of
             [] \<Rightarrow> stop Blocked s1 cs1
           | Inl e # gs' \<Rightarrow> stop (Raised e) s1 cs1
           | Inr (status, body) # gs' \<Rightarrow>
               if status = 403 then
                 (case base_url s1 of
                    None \<Rightarrow> stop (Raised TypeError) s1 cs1
                  | Some u \<Rightarrow>
                      stop (Raised (VkLongPollError 403 ''smth weth wrong'' (u @ ''/''))) s1 cs1)
               else
                 (case body of
                    Inl e \<Rightarrow> stop (Raised e) s1 cs1
                  | Inr (JObj d) \<Rightarrow>
                      (let failed = get_or_none d ''failed'' in
                       if \<not> truthy failed then
                         (case dict_get d ''ts'' of
                            None \<Rightarrow> stop (Raised KeyError) s1 cs1
                          | Some t \<Rightarrow> stop (Returned (JObj d)) (s1\<lparr>ts := t\<rparr>) cs1)
                       else if eq_int failed 1 then
                         (case dict_get d ''ts'' of
                            None \<Rightarrow> stop (Raised KeyError) s1 cs1
                          | Some t \<Rightarrow> nested cs1 (wait k fmt False (s1\<lparr>ts := t\<rparr>) hs1 gs'))
                       else if eq_int failed 4 then
                         (case base_url s1 of
                            None \<Rightarrow> stop (Raised TypeError) s1 cs1
                          | Some u \<Rightarrow>
                              stop (Raised (VkLongPollError 4
                                ''An invalid version number was passed in the version parameter''
                                (u @ ''/''))) s1 cs1)
                       else nested cs1 (wait k fmt False (s1\<lparr>base_url := None\<rparr>) hs1 gs'))
                  | Inr _ \<Rightarrow> stop (Raised AttributeError) s1 cs1)))"

declare wait.simps [simp del]




definition get_pts ::
  "subscription \<Rightarrow> (json \<Rightarrow> string) \<Rightarrow> bool \<Rightarrow> session \<Rightarrow> (error + json) list
     \<Rightarrow> json result \<times> session \<times> call list"
where
  \<comment> \<open>lines 102 to 108; the pair \<^verbatim>\<open>(pts, ts)\<close> is returned as a two-element list\<close>
  "get_pts k fmt need_ts s hs =
     (case (if url_set s \<and> truthy (pts s) then (Returned (), s, [], hs)
            else handoff k fmt True s hs) of
        (Raised e, s1, cs, _) \<Rightarrow> (Raised e, s1, cs)
      | (Blocked, s1, cs, _) \<Rightarrow> (Blocked, s1, cs)
      | (Returned _, s1, cs, _) \<Rightarrow>
          (Returned (if need_ts then JList [pts s1, ts s1] else pts s1), s1, cs))"


subsection \<open>Reachable session states\<close>

text \<open>
  A handoff answer is \<open>keyed\<close> when its \<^verbatim>\<open>key\<close> field, if there is one, is not
  \<^verbatim>\<open>null\<close>. The reachable states are those of a freshly constructed session and
  those left behind by any call of \<^verbatim>\<open>_get_long_poll_server\<close>, \<^verbatim>\<open>wait\<close> or \<^verbatim>\<open>get_pts\<close>,
  whatever its outcome (return, exception, or a request that never comes back), against an
  API whose handoff answers are keyed.
\<close>

definition keyed :: "error + json \<Rightarrow> bool" where
  "keyed h = (case h of Inr (JObj d) \<Rightarrow> dict_get d ''key'' \<noteq> Some JNull | _ \<Rightarrow> True)"

inductive reachable :: "subscription \<Rightarrow> (json \<Rightarrow> string) \<Rightarrow> session \<Rightarrow> bool"
  for k :: subscription and fmt :: "json \<Rightarrow> string"
where
  constructed: "reachable k fmt (init_session bp t)"
| established:
    "reachable k fmt s \<Longrightarrow> keyed h \<Longrightarrow> reachable k fmt (snd (get_long_poll_server k fmt s h))"
| polled:
    "reachable k fmt s \<Longrightarrow> list_all keyed hs \<Longrightarrow> reachable k fmt (final (wait k fmt np s hs gs))"
| pointed:
    "reachable k fmt s \<Longrightarrow> list_all keyed hs
       \<Longrightarrow> reachable k fmt (fst (snd (get_pts k fmt nt s hs)))"

definition key_kept :: "session \<Rightarrow> bool" where
  "key_kept s = (base_url s \<noteq> None \<longrightarrow> key s \<noteq> JNull)"

subsection \<open>Kinds of answers\<close>

text \<open>
  A GET answer is \<open>soft\<close> when \<^verbatim>\<open>wait\<close> answers it by calling itself again: its
  status is not 403, its body is a dict whose \<^verbatim>\<open>failed\<close> field is truthy and not 4, and
  it carries the \<^verbatim>\<open>ts\<close> that the \<^verbatim>\<open>failed == 1\<close> branch reads. A handoff answer is
  \<open>complete\<close> when it is a dict with the three fields \<^verbatim>\<open>_get_long_poll_server\<close>
  subscripts.
\<close>

definition soft :: "error + int \<times> (error + json) \<Rightarrow> bool" where
  "soft g =
     (case g of
        Inr (status, Inr (JObj d)) \<Rightarrow>
          status \<noteq> 403 \<and> truthy (get_or_none d ''failed'')
          \<and> \<not> eq_int (get_or_none d ''failed'') 4
          \<and> (eq_int (get_or_none d ''failed'') 1 \<longrightarrow> dict_get d ''ts'' \<noteq> None)
      | _ \<Rightarrow> False)"


subsection \<open>Sample inputs\<close>

definition plain :: "json \<Rightarrow> string" where
  "plain v = ''?''"

definition sample_params :: base_params where
  "sample_params = \<lparr>version = 2, wait_secs = 25, mode = Some 2\<rparr>"

definition sample_session :: session where
  "sample_session =
     \<lparr>params = sample_params, timeout = JInt 10, pts = JNull, ts = JInt 7,
      key = JStr ''k'', base_url = Some ''https://srv''\<rparr>"

definition answer :: "(string \<times> json) list \<Rightarrow> error + int \<times> (error + json)" where
  \<comment> \<open>a GET answered with status 200 and the given body\<close>
  "answer d = Inr (200, Inr (JObj d))"

definition sample_handoff :: "error + json" where
  "sample_handoff =
     Inr (JObj [(''ts'', JInt 1), (''key'', JStr ''abc''), (''server'', JStr ''im.vk.com/x'')])"

section \<open>Protocol constants (lines 159 to 551)\<close>

definition CHAT_START_ID :: int where
  "CHAT_START_ID = 2000000000"

datatype VkEventType =
    MESSAGE_FLAGS_REPLACE | MESSAGE_FLAGS_SET | MESSAGE_FLAGS_RESET | MESSAGE_NEW
  | MESSAGE_EDIT | READ_ALL_INCOMING_MESSAGES | READ_ALL_OUTGOING_MESSAGES
  | USER_ONLINE | USER_OFFLINE | PEER_FLAGS_RESET | PEER_FLAGS_REPLACE | PEER_FLAGS_SET
  | PEER_DELETE_ALL | PEER_RESTORE_ALL | CHAT_EDIT | CHAT_UPDATE | USER_TYPING
  | USER_TYPING_IN_CHAT | USER_RECORDING_VOICE | USER_CALL | MESSAGES_COUNTER_UPDATE
  | NOTIFICATION_SETTINGS_UPDATE

fun event_value :: "VkEventType \<Rightarrow> int" where
  "event_value MESSAGE_FLAGS_REPLACE = 1"
| "event_value MESSAGE_FLAGS_SET = 2"
| "event_value MESSAGE_FLAGS_RESET = 3"
| "event_value MESSAGE_NEW = 4"
| "event_value MESSAGE_EDIT = 5"
| "event_value READ_ALL_INCOMING_MESSAGES = 6"
| "event_value READ_ALL_OUTGOING_MESSAGES = 7"
| "event_value USER_ONLINE = 8"
| "event_value USER_OFFLINE = 9"
| "event_value PEER_FLAGS_RESET = 10"
| "event_value PEER_FLAGS_REPLACE = 11"
| "event_value PEER_FLAGS_SET = 12"
| "event_value PEER_DELETE_ALL = 13"
| "event_value PEER_RESTORE_ALL = 14"
| "event_value CHAT_EDIT = 51"
| "event_value CHAT_UPDATE = 52"
| "event_value USER_TYPING = 61"
| "event_value USER_TYPING_IN_CHAT = 62"
| "event_value USER_RECORDING_VOICE = 64"
| "event_value USER_CALL = 70"
| "event_value MESSAGES_COUNTER_UPDATE = 80"
| "event_value NOTIFICATION_SETTINGS_UPDATE = 114"

definition all_event_types :: "VkEventType list" where
  "all_event_types =
     [MESSAGE_FLAGS_REPLACE, MESSAGE_FLAGS_SET, MESSAGE_FLAGS_RESET, MESSAGE_NEW, MESSAGE_EDIT,
      READ_ALL_INCOMING_MESSAGES, READ_ALL_OUTGOING_MESSAGES, USER_ONLINE, USER_OFFLINE,
      PEER_FLAGS_RESET, PEER_FLAGS_REPLACE, PEER_FLAGS_SET, PEER_DELETE_ALL, PEER_RESTORE_ALL,
      CHAT_EDIT, CHAT_UPDATE, USER_TYPING, USER_TYPING_IN_CHAT, USER_RECORDING_VOICE,
      USER_CALL, MESSAGES_COUNTER_UPDATE, NOTIFICATION_SETTINGS_UPDATE]"

datatype VkPlatform = MOBILE | IPHONE | IPAD | ANDROID | WPHONE | WINDOWS | WEB

fun platform_value :: "VkPlatform \<Rightarrow> int" where
  "platform_value MOBILE = 1"
| "platform_value IPHONE = 2"
| "platform_value IPAD = 3"
| "platform_value ANDROID = 4"
| "platform_value WPHONE = 5"
| "platform_value WINDOWS = 6"
| "platform_value WEB = 7"

definition all_platforms :: "VkPlatform list" where
  "all_platforms = [MOBILE, IPHONE, IPAD, ANDROID, WPHONE, WINDOWS, WEB]"

datatype VkOfflineType = EXIT | AWAY

fun offline_value :: "VkOfflineType \<Rightarrow> int" where
  "offline_value EXIT = 0"
| "offline_value AWAY = 1"

definition all_offline_types :: "VkOfflineType list" where
  "all_offline_types = [EXIT, AWAY]"

datatype VkMessageFlag =
    UNREAD | OUTBOX | REPLIED | IMPORTANT | CHAT | FRIENDS | SPAM | DELETED | FIXED | MEDIA
  | HIDDEN | DELETED_ALL

fun flag_value :: "VkMessageFlag \<Rightarrow> int" where
  "flag_value UNREAD = 1"
| "flag_value OUTBOX = 2"
| "flag_value REPLIED = 2 ^ 2"
| "flag_value IMPORTANT = 2 ^ 3"
| "flag_value CHAT = 2 ^ 4"
| "flag_value FRIENDS = 2 ^ 5"
| "flag_value SPAM = 2 ^ 6"
| "flag_value DELETED = 2 ^ 7"
| "flag_value FIXED = 2 ^ 8"
| "flag_value MEDIA = 2 ^ 9"
| "flag_value HIDDEN = 2 ^ 16"
| "flag_value DELETED_ALL = 2 ^ 17"

definition all_message_flags :: "VkMessageFlag list" where
  \<comment> \<open>the members in definition order, as iterating the enumeration yields them\<close>
  "all_message_flags =
     [UNREAD, OUTBOX, REPLIED, IMPORTANT, CHAT, FRIENDS, SPAM, DELETED, FIXED, MEDIA, HIDDEN,
      DELETED_ALL]"

text \<open>
  \<^verbatim>\<open>VkPeerFlag\<close> has a member \<^verbatim>\<open>IMPORTANT\<close> of its own; it is written
  \<open>PEER_IMPORTANT\<close> here, and its companion \<open>PEER_UNANSWERED\<close>.
\<close>

datatype VkPeerFlag = PEER_IMPORTANT | PEER_UNANSWERED

fun peer_flag_value :: "VkPeerFlag \<Rightarrow> int" where
  "peer_flag_value PEER_IMPORTANT = 1"
| "peer_flag_value PEER_UNANSWERED = 2"

definition all_peer_flags :: "VkPeerFlag list" where
  "all_peer_flags = [PEER_IMPORTANT, PEER_UNANSWERED]"

datatype VkChatEventType =
    TITLE | PHOTO | ADMIN_ADDED | SETTINGS_CHANGED | MESSAGE_PINNED | USER_JOINED | USER_LEFT
  | USER_KICKED | ADMIN_REMOVED | KEYBOARD_RECEIVED

fun chat_event_value :: "VkChatEventType \<Rightarrow> int" where
  "chat_event_value TITLE = 1"
| "chat_event_value PHOTO = 2"
| "chat_event_value ADMIN_ADDED = 3"
| "chat_event_value SETTINGS_CHANGED = 4"
| "chat_event_value MESSAGE_PINNED = 5"
| "chat_event_value USER_JOINED = 6"
| "chat_event_value USER_LEFT = 7"
| "chat_event_value USER_KICKED = 8"
| "chat_event_value ADMIN_REMOVED = 9"
| "chat_event_value KEYBOARD_RECEIVED = 11"

definition all_chat_event_types :: "VkChatEventType list" where
  "all_chat_event_types =
     [TITLE, PHOTO, ADMIN_ADDED, SETTINGS_CHANGED, MESSAGE_PINNED, USER_JOINED, USER_LEFT,
      USER_KICKED, ADMIN_REMOVED, KEYBOARD_RECEIVED]"

definition MESSAGE_EXTRA_FIELDS :: "string list" where
  "MESSAGE_EXTRA_FIELDS =
     [''peer_id'', ''timestamp'', ''text'', ''extra_values'', ''attachments'', ''random_id'']"

definition MSGID :: string where
  "MSGID = ''message_id''"

fun EVENT_ATTRS_MAPPING :: "VkEventType \<Rightarrow> string list" where
  "EVENT_ATTRS_MAPPING MESSAGE_FLAGS_REPLACE = [MSGID, ''flags''] @ MESSAGE_EXTRA_FIELDS"
| "EVENT_ATTRS_MAPPING MESSAGE_FLAGS_SET = [MSGID, ''mask''] @ MESSAGE_EXTRA_FIELDS"
| "EVENT_ATTRS_MAPPING MESSAGE_FLAGS_RESET = [MSGID, ''mask''] @ MESSAGE_EXTRA_FIELDS"
| "EVENT_ATTRS_MAPPING MESSAGE_NEW = [MSGID, ''flags''] @ MESSAGE_EXTRA_FIELDS"
| "EVENT_ATTRS_MAPPING MESSAGE_EDIT = [MSGID, ''mask''] @ MESSAGE_EXTRA_FIELDS"
| "EVENT_ATTRS_MAPPING READ_ALL_INCOMING_MESSAGES = [''peer_id'', ''local_id'']"
| "EVENT_ATTRS_MAPPING READ_ALL_OUTGOING_MESSAGES = [''peer_id'', ''local_id'']"
| "EVENT_ATTRS_MAPPING USER_ONLINE = [''user_id'', ''extra'', ''timestamp'']"
| "EVENT_ATTRS_MAPPING USER_OFFLINE = [''user_id'', ''flags'', ''timestamp'']"
| "EVENT_ATTRS_MAPPING PEER_FLAGS_RESET = [''peer_id'', ''mask'']"
| "EVENT_ATTRS_MAPPING PEER_FLAGS_REPLACE = [''peer_id'', ''flags'']"
| "EVENT_ATTRS_MAPPING PEER_FLAGS_SET = [''peer_id'', ''mask'']"
| "EVENT_ATTRS_MAPPING PEER_DELETE_ALL = [''peer_id'', ''local_id'']"
| "EVENT_ATTRS_MAPPING PEER_RESTORE_ALL = [''peer_id'', ''local_id'']"
| "EVENT_ATTRS_MAPPING CHAT_EDIT = [''chat_id'', ''self'']"
| "EVENT_ATTRS_MAPPING CHAT_UPDATE = [''type_id'', ''peer_id'', ''info'']"
| "EVENT_ATTRS_MAPPING USER_TYPING = [''user_id'', ''flags'']"
| "EVENT_ATTRS_MAPPING USER_TYPING_IN_CHAT = [''user_id'', ''chat_id'']"
| "EVENT_ATTRS_MAPPING USER_RECORDING_VOICE = [''peer_id'', ''user_id'', ''flags'', ''timestamp'']"
| "EVENT_ATTRS_MAPPING USER_CALL = [''user_id'', ''call_id'']"
| "EVENT_ATTRS_MAPPING MESSAGES_COUNTER_UPDATE = [''count'']"
| "EVENT_ATTRS_MAPPING NOTIFICATION_SETTINGS_UPDATE = [''values'']"

definition PARSE_PEER_ID_EVENTS :: "VkEventType list" where
  "PARSE_PEER_ID_EVENTS =
     filter (\<lambda>k. ''peer_id'' \<in> set (EVENT_ATTRS_MAPPING k)) all_event_types"

definition PARSE_MESSAGE_FLAGS_EVENTS :: "VkEventType list" where
  "PARSE_MESSAGE_FLAGS_EVENTS = [MESSAGE_FLAGS_REPLACE, MESSAGE_NEW]"

section \<open>Attribute values and the event object\<close>

text \<open>
  An attribute of an event holds a decoded JSON value or something the decoder built: a
  member of one of the integer enumerations, a set of flags, a \<^verbatim>\<open>datetime\<close> (kept as
  the timestamp it was made from) or the one-entry dict \<^verbatim>\<open>{k: v}\<close> that
  \<^verbatim>\<open>_parse_chat_info\<close> wraps a value in. The event object is the
  dictionary of its attributes, since \<^verbatim>\<open>_list_to_attr\<close> and \<^verbatim>\<open>_dict_to_attr\<close> set
  attributes by computed name.
\<close>

datatype pyval =
    J json
  | EventType VkEventType
  | ChatEventType VkChatEventType
  | Platform VkPlatform
  | OfflineType VkOfflineType
  | MessageFlags "VkMessageFlag set"
  | PeerFlags "VkPeerFlag set"
  | Datetime int
  | Wrapped string pyval

type_synonym event = "string \<Rightarrow> pyval option"

definition andthen :: "error + 'a \<Rightarrow> ('a \<Rightarrow> error + 'b) \<Rightarrow> error + 'b" where
  \<comment> \<open>sequencing: an exception ends the computation\<close>
  "andthen m f = (case m of Inl e \<Rightarrow> Inl e | Inr x \<Rightarrow> f x)"

definition getattr :: "event \<Rightarrow> string \<Rightarrow> error + pyval" where
  "getattr e k = (case e k of None \<Rightarrow> Inl AttributeError | Some v \<Rightarrow> Inr v)"

fun val_as_int :: "pyval \<Rightarrow> int option" where
  \<comment> \<open>the integer a value is in arithmetic and comparison; the members of an
      \<^verbatim>\<open>IntEnum\<close> are integers\<close>
  "val_as_int (J v) = as_int v"
| "val_as_int (EventType t) = Some (event_value t)"
| "val_as_int (ChatEventType t) = Some (chat_event_value t)"
| "val_as_int (Platform p) = Some (platform_value p)"
| "val_as_int (OfflineType t) = Some (offline_value t)"
| "val_as_int _ = None"

definition val_eq :: "pyval \<Rightarrow> int \<Rightarrow> bool" where
  "val_eq v n = (val_as_int v = Some n)"

fun truthy_val :: "pyval \<Rightarrow> bool" where
  "truthy_val (J v) = truthy v"
| "truthy_val (MessageFlags S) = (S \<noteq> {})"
| "truthy_val (PeerFlags S) = (S \<noteq> {})"
| "truthy_val (Datetime t) = True"
| "truthy_val (Wrapped k v) = True"
| "truthy_val v = (val_as_int v \<noteq> Some 0)"

definition type_in :: "pyval \<Rightarrow> VkEventType list \<Rightarrow> bool" where
  \<comment> \<open>\<^verbatim>\<open>self.type in [...]\<close>: membership by equality, which for integers and
      enumeration members is equality of the integer\<close>
  "type_in t ms = list_ex (\<lambda>m. val_eq t (event_value m)) ms"

definition VkEventType_call :: "pyval \<Rightarrow> VkEventType option" where
  \<comment> \<open>\<^verbatim>\<open>VkEventType(x)\<close>; \<open>None\<close> stands for the \<^verbatim>\<open>ValueError\<close>\<close>
  "VkEventType_call x =
     (case val_as_int x of None \<Rightarrow> None
      | Some n \<Rightarrow> find (\<lambda>t. event_value t = n) all_event_types)"

definition VkChatEventType_call :: "pyval \<Rightarrow> VkChatEventType option" where
  "VkChatEventType_call x =
     (case val_as_int x of None \<Rightarrow> None
      | Some n \<Rightarrow> find (\<lambda>t. chat_event_value t = n) all_chat_event_types)"

definition VkPlatform_call :: "int \<Rightarrow> VkPlatform option" where
  "VkPlatform_call n = find (\<lambda>t. platform_value t = n) all_platforms"

definition VkOfflineType_call :: "pyval \<Rightarrow> VkOfflineType option" where
  "VkOfflineType_call x =
     (case val_as_int x of None \<Rightarrow> None
      | Some n \<Rightarrow> find (\<lambda>t. offline_value t = n) all_offline_types)"

fun contains_str :: "string \<Rightarrow> string \<Rightarrow> bool" where
  \<comment> \<open>\<^verbatim>\<open>p in s\<close> for two strings\<close>
  "contains_str p [] = (p = [])"
| "contains_str p (c # cs) = (take (length p) (c # cs) = p \<or> contains_str p cs)"

fun contains :: "string \<Rightarrow> pyval \<Rightarrow> error + bool" where
  \<comment> \<open>\<^verbatim>\<open>k in v\<close> for a string \<open>k\<close>\<close>
  "contains k (J (JObj d)) = Inr (dict_get d k \<noteq> None)"
| "contains k (J (JList xs)) = Inr (JStr k \<in> set xs)"
| "contains k (J (JStr s)) = Inr (contains_str k s)"
| "contains k (Wrapped k' v) = Inr (k = k')"
| "contains k (MessageFlags S) = Inr False"
| "contains k (PeerFlags S) = Inr False"
| "contains k _ = Inl TypeError"

fun subscript :: "pyval \<Rightarrow> string \<Rightarrow> error + pyval" where
  \<comment> \<open>\<^verbatim>\<open>v[k]\<close> for a string \<open>k\<close>\<close>
  "subscript (J (JObj d)) k = (case dict_get d k of None \<Rightarrow> Inl KeyError | Some x \<Rightarrow> Inr (J x))"
| "subscript (Wrapped k' v) k = (if k = k' then Inr v else Inl KeyError)"
| "subscript _ k = Inl TypeError"

fun subscript0 :: "json \<Rightarrow> error + json" where
  \<comment> \<open>\<^verbatim>\<open>raw[0]\<close>; the keys of a decoded dict are strings, so 0 is never one\<close>
  "subscript0 (JList []) = Inl IndexError"
| "subscript0 (JList (x # xs)) = Inr x"
| "subscript0 (JStr []) = Inl IndexError"
| "subscript0 (JStr (c # cs)) = Inr (JStr [c])"
| "subscript0 (JObj d) = Inl KeyError"
| "subscript0 _ = Inl TypeError"

fun py_int :: "(string \<Rightarrow> int option) \<Rightarrow> pyval \<Rightarrow> error + int" where
  \<comment> \<open>\<^verbatim>\<open>int(v)\<close>; what it makes of a string is the parameter \<open>int_str\<close>\<close>
  "py_int int_str (J (JStr s)) =
     (case int_str s of None \<Rightarrow> Inl ValueError | Some n \<Rightarrow> Inr n)"
| "py_int int_str v = (case val_as_int v of None \<Rightarrow> Inl TypeError | Some n \<Rightarrow> Inr n)"

function replace :: "string \<Rightarrow> string \<Rightarrow> string \<Rightarrow> string" where
  \<comment> \<open>\<^verbatim>\<open>s.replace(old, new)\<close> for a non-empty \<open>old\<close>, as all four uses have\<close>
  "replace old new [] = []"
| "replace old new (c # cs) =
     (if old \<noteq> [] \<and> take (length old) (c # cs) = old
      then new @ replace old new (drop (length old) (c # cs))
      else c # replace old new cs)"
  by pat_completeness auto
termination
  by (relation "measure (\<lambda>(old, new, s). length s)") auto

definition init_attrs :: "json \<Rightarrow> event" where
  \<comment> \<open>lines 568 to 593, the same in both constructors (lines 962 to 987)\<close>
  "init_attrs raw =
     map_of
       [(''raw'', J raw),
        (''from_user'', J (JBool False)), (''from_chat'', J (JBool False)),
        (''from_group'', J (JBool False)), (''from_me'', J (JBool False)),
        (''to_me'', J (JBool False)),
        (''attachments'', J (JObj [])), (''attachments_ids'', J (JList [])),
        (''pad_id'', J JNull), (''keyboard'', J (JStr [])), (''message_data'', J JNull),
        (''message_id'', J JNull), (''timestamp'', J JNull), (''peer_id'', J JNull),
        (''flags'', J JNull), (''extra'', J JNull), (''extra_values'', J JNull),
        (''type_id'', J JNull), (''group_id'', J JNull), (''fwd_messages'', J (JList [])),
        (''text'', J JNull), (''state'', J (JStr []))]"

section \<open>The long-poll decoder (\<^verbatim>\<open>MessageEvent.__init__\<close>)\<close>

definition list_to_attr :: "json list \<Rightarrow> string list \<Rightarrow> event \<Rightarrow> event" where
  \<comment> \<open>lines 638 to 640. It runs once, at line 597, on the attributes of lines 568
      to 596 and with the names of \<^verbatim>\<open>EVENT_ATTRS_MAPPING\<close>: no method is hidden yet and
      none of the names is one of the three descriptors, so every assignment stores.\<close>
  "list_to_attr raw attrs e = fold (\<lambda>(a, v) e. e(a \<mapsto> J v)) (zip attrs raw) e"

text \<open>
  \<^verbatim>\<open>_dict_to_attr\<close> sets attributes by names that come from the server, through
  \<^verbatim>\<open>self.__setattr__(k, v)\<close>. For all but a few names this stores \<open>v\<close> under \<open>k\<close> in
  the instance dictionary. The class has three data descriptors, which take the
  assignment instead: \<^verbatim>\<open>__dict__\<close> replaces the whole instance dictionary by \<open>v\<close> when
  \<open>v\<close> is a dict and raises \<^verbatim>\<open>TypeError\<close> otherwise, \<^verbatim>\<open>__class__\<close> raises
  \<^verbatim>\<open>TypeError\<close> for any value that is no class, and \<^verbatim>\<open>__weakref__\<close> is not writable.
  A value stored under the name of a method hides the method: \<^verbatim>\<open>self.__setattr__\<close>
  itself, and every \<^verbatim>\<open>self._parse_...()\<close> of the constructor, is looked up on the
  instance first, and calling what a decoded value put there raises \<^verbatim>\<open>TypeError\<close>.
\<close>

definition setattr :: "event \<Rightarrow> string \<Rightarrow> pyval \<Rightarrow> error + event" where
  \<comment> \<open>\<^verbatim>\<open>self.__setattr__(k, v)\<close>\<close>
  "setattr e k v =
     (if e ''__setattr__'' \<noteq> None then Inl TypeError
      else if k = ''__dict__'' then
        (case v of
           J (JObj d) \<Rightarrow> Inr (\<lambda>n. map_option J (dict_get d n))
         | Wrapped k' v' \<Rightarrow> Inr (Map.empty(k' \<mapsto> v'))
         | _ \<Rightarrow> Inl TypeError)
      else if k = ''__class__'' then Inl TypeError
      else if k = ''__weakref__'' then Inl AttributeError
      else Inr (e(k \<mapsto> v)))"

definition bound_method :: "event \<Rightarrow> string \<Rightarrow> (event \<Rightarrow> error + event) \<Rightarrow> error + event" where
  \<comment> \<open>\<^verbatim>\<open>self.m()\<close> for a method \<open>m\<close> of the class with body \<open>f\<close>\<close>
  "bound_method e m f = (if e m = None then f e else Inl TypeError)"

definition items :: "(string \<times> json) list \<Rightarrow> (string \<times> json) list" where
  \<comment> \<open>\<^verbatim>\<open>d.items()\<close>: each key once, where it was first inserted, with its last value\<close>
  "items d = map (\<lambda>k. (k, get_or_none d k)) (rev (remdups (rev (map fst d))))"

fun setattrs :: "(string \<times> json) list \<Rightarrow> event \<Rightarrow> error + event" where
  \<comment> \<open>the loop of lines 643 and 644\<close>
  "setattrs [] e = Inr e"
| "setattrs ((k, v) # kvs) e = andthen (setattr e k (J v)) (setattrs kvs)"

fun dict_to_attr :: "pyval \<Rightarrow> event \<Rightarrow> error + event" where
  \<comment> \<open>lines 642 to 644; only a dict has \<^verbatim>\<open>items\<close>\<close>
  "dict_to_attr (J (JObj d)) e = setattrs (items d) e"
| "dict_to_attr (Wrapped k v) e = setattr e k v"
| "dict_to_attr _ e = Inl AttributeError"

definition assign_fields :: "json \<Rightarrow> event \<Rightarrow> error + event" where
  \<comment> \<open>lines 595 to 599. Only a list has a leading element that is a type code, so the
      slice \<^verbatim>\<open>raw[1:]\<close> is taken of a list.\<close>
  "assign_fields raw e =
     andthen (subscript0 raw) (\<lambda>x.
       case VkEventType_call (J x) of
         None \<Rightarrow> Inr (e(''type'' \<mapsto> J x))
       | Some t \<Rightarrow>
           (case raw of
              JList xs \<Rightarrow> Inr (list_to_attr (tl xs) (EVENT_ATTRS_MAPPING t) (e(''type'' \<mapsto> EventType t)))
            | _ \<Rightarrow> Inl TypeError))"

definition spray_extra_values :: "event \<Rightarrow> error + event" where
  \<comment> \<open>lines 601 and 602; \<^verbatim>\<open>_dict_to_attr\<close> cannot be hidden before its first call\<close>
  "spray_extra_values e =
     andthen (getattr e ''extra_values'') (\<lambda>ev.
       if truthy_val ev then dict_to_attr ev e else Inr e)"

definition parse_peer_id :: "(string \<Rightarrow> int option) \<Rightarrow> event \<Rightarrow> error + event" where
  \<comment> \<open>lines 646 to 660\<close>
  "parse_peer_id int_str e =
     andthen (getattr e ''peer_id'') (\<lambda>p.
       case val_as_int p of
         None \<Rightarrow> Inl TypeError
       | Some n \<Rightarrow>
           if n < 0 then
             Inr (e(''from_group'' \<mapsto> J (JBool True), ''group_id'' \<mapsto> J (JInt (abs n))))
           else if n > CHAT_START_ID then
             (let e1 = e(''from_chat'' \<mapsto> J (JBool True),
                         ''chat_id'' \<mapsto> J (JInt (n - CHAT_START_ID)))
              in andthen (getattr e1 ''extra_values'') (\<lambda>ev.
                   if truthy_val ev then
                     andthen (contains ''from'' ev) (\<lambda>has.
                       if has then
                         andthen (subscript ev ''from'') (\<lambda>v.
                           andthen (py_int int_str v) (\<lambda>i. Inr (e1(''user_id'' \<mapsto> J (JInt i)))))
                       else Inr e1)
                   else Inr e1))
           else Inr (e(''from_user'' \<mapsto> J (JBool True), ''user_id'' \<mapsto> p)))"

definition parse_message_flags :: "event \<Rightarrow> error + event" where
  \<comment> \<open>lines 662 to 665\<close>
  "parse_message_flags e =
     andthen (getattr e ''flags'') (\<lambda>f.
       case val_as_int f of
         None \<Rightarrow> Inl TypeError
       | Some n \<Rightarrow>
           Inr (e(''message_flags'' \<mapsto>
                  MessageFlags (set (filter (\<lambda>x. n AND flag_value x \<noteq> 0) all_message_flags)))))"

definition parse_peer_flags :: "event \<Rightarrow> error + event" where
  \<comment> \<open>lines 667 to 670\<close>
  "parse_peer_flags e =
     andthen (getattr e ''flags'') (\<lambda>f.
       case val_as_int f of
         None \<Rightarrow> Inl TypeError
       | Some n \<Rightarrow>
           Inr (e(''peer_flags'' \<mapsto>
                  PeerFlags (set (filter (\<lambda>x. n AND peer_flag_value x \<noteq> 0) all_peer_flags)))))"

definition direction :: "event \<Rightarrow> error + event" where
  \<comment> \<open>lines 673 to 677\<close>
  "direction e =
     andthen (getattr e ''type'') (\<lambda>t.
       if t = EventType MESSAGE_NEW then
         andthen (getattr e ''flags'') (\<lambda>f.
           case val_as_int f of
             None \<Rightarrow> Inl TypeError
           | Some n \<Rightarrow>
               if n AND flag_value OUTBOX \<noteq> 0 then Inr (e(''from_me'' \<mapsto> J (JBool True)))
               else Inr (e(''to_me'' \<mapsto> J (JBool True))))
       else Inr e)"

definition unescape :: "event \<Rightarrow> error + event" where
  \<comment> \<open>lines 682 to 687; only a string has \<^verbatim>\<open>replace\<close>\<close>
  "unescape e =
     andthen (getattr e ''text'') (\<lambda>tx.
       case tx of
         J (JStr s) \<Rightarrow>
           (let text = replace ''<br>'' [CHR 0x0A] s in
            Inr (e(''text'' \<mapsto> J (JStr text),
                   ''message'' \<mapsto> J (JStr
                      (replace ''&amp;'' ''&''
                        (replace ''&quot;'' [CHR 0x22]
                          (replace ''&gt;'' ''>''
                            (replace ''&lt;'' ''<'' text))))))))
       | _ \<Rightarrow> Inl AttributeError)"

definition parse_message :: "event \<Rightarrow> error + event" where
  \<comment> \<open>lines 672 to 687\<close>
  "parse_message e = andthen (direction e) unescape"

definition parse_online_status :: "event \<Rightarrow> error + event" where
  \<comment> \<open>lines 689 to 698; only \<^verbatim>\<open>ValueError\<close> is caught\<close>
  "parse_online_status e =
     andthen (getattr e ''type'') (\<lambda>t.
       if t = EventType USER_ONLINE then
         andthen (getattr e ''extra'') (\<lambda>x.
           case val_as_int x of
             None \<Rightarrow> Inl TypeError
           | Some n \<Rightarrow>
               (case VkPlatform_call (n AND 0xFF) of
                  None \<Rightarrow> Inr e
                | Some p \<Rightarrow> Inr (e(''platform'' \<mapsto> Platform p))))
       else if t = EventType USER_OFFLINE then
         andthen (getattr e ''flags'') (\<lambda>f.
           case VkOfflineType_call f of
             None \<Rightarrow> Inr e
           | Some ot \<Rightarrow> Inr (e(''offline_type'' \<mapsto> OfflineType ot)))
       else Inr e)"

definition parse_chat_info :: "event \<Rightarrow> error + event" where
  \<comment> \<open>lines 700 to 711\<close>
  "parse_chat_info e =
     andthen (getattr e ''type_id'') (\<lambda>t.
       if val_eq t (chat_event_value ADMIN_ADDED) then
         andthen (getattr e ''info'') (\<lambda>i. Inr (e(''info'' \<mapsto> Wrapped ''admin_id'' i)))
       else if val_eq t (chat_event_value MESSAGE_PINNED) then
         andthen (getattr e ''info'') (\<lambda>i.
           Inr (e(''info'' \<mapsto> Wrapped ''conversation_message_id'' i)))
       else if list_ex (\<lambda>m. val_eq t (chat_event_value m))
                 [USER_JOINED, USER_LEFT, USER_KICKED, ADMIN_REMOVED] then
         andthen (getattr e ''info'') (\<lambda>i. Inr (e(''info'' \<mapsto> Wrapped ''user_id'' i)))
       else Inr e)"

definition peer_step :: "(string \<Rightarrow> int option) \<Rightarrow> event \<Rightarrow> error + event" where
  \<comment> \<open>lines 604 and 605\<close>
  "peer_step int_str e =
     andthen (getattr e ''type'') (\<lambda>t.
       if type_in t PARSE_PEER_ID_EVENTS
       then bound_method e ''_parse_peer_id'' (parse_peer_id int_str) else Inr e)"

definition flags_step :: "event \<Rightarrow> error + event" where
  \<comment> \<open>lines 607 and 608\<close>
  "flags_step e =
     andthen (getattr e ''type'') (\<lambda>t.
       if type_in t PARSE_MESSAGE_FLAGS_EVENTS
       then bound_method e ''_parse_message_flags'' parse_message_flags else Inr e)"

definition kind_step :: "(string \<Rightarrow> int option) \<Rightarrow> event \<Rightarrow> error + event" where
  \<comment> \<open>lines 610 to 633; \<^verbatim>\<open>is\<close> holds of the enumeration member only, \<^verbatim>\<open>in\<close> of
      every value equal to it\<close>
  "kind_step int_str e =
     andthen (getattr e ''type'') (\<lambda>t.
       if t = EventType CHAT_UPDATE then
         andthen (bound_method e ''_parse_chat_info'' parse_chat_info) (\<lambda>e1.
           andthen (getattr e1 ''type_id'') (\<lambda>ti.
             case VkChatEventType_call ti of
               None \<Rightarrow> Inr (e1(''update_type'' \<mapsto> ti))
             | Some u \<Rightarrow> Inr (e1(''update_type'' \<mapsto> ChatEventType u))))
       else if t = EventType NOTIFICATION_SETTINGS_UPDATE then
         andthen (getattr e ''values'') (\<lambda>vs.
           andthen (bound_method e ''_dict_to_attr'' (dict_to_attr vs)) (\<lambda>e1.
             bound_method e1 ''_parse_peer_id'' (parse_peer_id int_str)))
       else if t = EventType PEER_FLAGS_REPLACE then
         bound_method e ''_parse_peer_flags'' parse_peer_flags
       else if type_in t [MESSAGE_NEW, MESSAGE_EDIT] then
         bound_method e ''_parse_message'' parse_message
       else if type_in t [USER_ONLINE, USER_OFFLINE] then
         andthen (getattr e ''user_id'') (\<lambda>u.
           case val_as_int u of
             None \<Rightarrow> Inl TypeError
           | Some n \<Rightarrow>
               bound_method (e(''user_id'' \<mapsto> J (JInt (abs n))))
                 ''_parse_online_status'' parse_online_status)
       else if t = EventType USER_RECORDING_VOICE then
         andthen (getattr e ''user_id'') (\<lambda>u.
           case u of
             J (JList []) \<Rightarrow> Inl IndexError
           | J (JList (x # xs)) \<Rightarrow> Inr (e(''user_id'' \<mapsto> J x))
           | _ \<Rightarrow> Inr e)
       else Inr e)"

definition datetime_step :: "(int \<Rightarrow> bool) \<Rightarrow> event \<Rightarrow> error + event" where
  \<comment> \<open>lines 635 and 636 (and 1007 and 1008). Which timestamps
      \<^verbatim>\<open>datetime.utcfromtimestamp\<close> accepts depends on the platform: it is the
      parameter \<open>ts_ok\<close>.\<close>
  "datetime_step ts_ok e =
     andthen (getattr e ''timestamp'') (\<lambda>t.
       if truthy_val t then
         (case val_as_int t of
            None \<Rightarrow> Inl TypeError
          | Some n \<Rightarrow>
              if ts_ok n then Inr (e(''datetime'' \<mapsto> Datetime n))
              else Inl (OtherError ''utcfromtimestamp''))
       else Inr e)"

definition MessageEvent ::
  "(string \<Rightarrow> int option) \<Rightarrow> (int \<Rightarrow> bool) \<Rightarrow> json \<Rightarrow> error + event"
where
  "MessageEvent int_str ts_ok raw =
     andthen (assign_fields raw (init_attrs raw)) (\<lambda>e1.
     andthen (spray_extra_values e1) (\<lambda>e2.
     andthen (peer_step int_str e2) (\<lambda>e3.
     andthen (flags_step e3) (\<lambda>e4.
     andthen (kind_step int_str e4) (\<lambda>e5.
     datetime_step ts_ok e5)))))"

subsection \<open>Reading a flag set back\<close>

definition or_all :: "int list \<Rightarrow> int" where
  \<comment> \<open>the bitwise OR of a list of integers\<close>
  "or_all xs = fold (OR) xs 0"

fun flag_bit :: "VkMessageFlag \<Rightarrow> nat" where
  \<comment> \<open>the position of the one bit of a flag's value\<close>
  "flag_bit UNREAD = 0"
| "flag_bit OUTBOX = 1"
| "flag_bit REPLIED = 2"
| "flag_bit IMPORTANT = 3"
| "flag_bit CHAT = 4"
| "flag_bit FRIENDS = 5"
| "flag_bit SPAM = 6"
| "flag_bit DELETED = 7"
| "flag_bit FIXED = 8"
| "flag_bit MEDIA = 9"
| "flag_bit HIDDEN = 16"
| "flag_bit DELETED_ALL = 17"

section \<open>The callback decoder (\<^verbatim>\<open>BotMessageEvent.__init__\<close>)\<close>

definition or_default :: "json \<Rightarrow> json \<Rightarrow> json" where
  \<comment> \<open>\<^verbatim>\<open>v or d\<close>\<close>
  "or_default v d = (if truthy v then v else d)"

fun dict_of :: "json \<Rightarrow> error + (string \<times> json) list" where
  \<comment> \<open>the receiver of a \<^verbatim>\<open>.get\<close>: anything but a dict has no such method\<close>
  "dict_of (JObj d) = Inr d"
| "dict_of _ = Inl AttributeError"

definition bot_peer_flags :: "event \<Rightarrow> error + event" where
  \<comment> \<open>lines 1019 to 1028\<close>
  "bot_peer_flags e =
     andthen (getattr e ''peer_id'') (\<lambda>p.
       if p = J JNull then Inr e
       else case val_as_int p of
              None \<Rightarrow> Inl TypeError
            | Some n \<Rightarrow>
                if n \<ge> 2000000000 then Inr (e(''from_chat'' \<mapsto> J (JBool True)))
                else if n > 0 then Inr (e(''from_user'' \<mapsto> J (JBool True)))
                else if n < 0 then Inr (e(''from_group'' \<mapsto> J (JBool True)))
                else Inr e)"

definition bot_from_me :: "(string \<Rightarrow> int option) \<Rightarrow> event \<Rightarrow> error + event" where
  \<comment> \<open>lines 1031 to 1033\<close>
  "bot_from_me int_str e =
     andthen (getattr e ''group_id'') (\<lambda>g.
       if g \<noteq> J JNull \<and> e ''from_id'' \<noteq> None \<and> e ''from_id'' \<noteq> Some (J JNull) then
         andthen (getattr e ''from_id'') (\<lambda>f.
           andthen (py_int int_str g) (\<lambda>n.
             if val_eq f (- n) then Inr (e(''from_me'' \<mapsto> J (JBool True))) else Inr e))
       else Inr e)"

fun iterate :: "json \<Rightarrow> error + json list" where
  \<comment> \<open>the items a \<^verbatim>\<open>for\<close> loop draws: the elements of a list, the keys of a dict,
      the characters of a string\<close>
  "iterate (JList xs) = Inr xs"
| "iterate (JObj d) = Inr (map JStr (rev (remdups (rev (map fst d)))))"
| "iterate (JStr s) = Inr (map (\<lambda>c. JStr [c]) s)"
| "iterate _ = Inl TypeError"

definition attachment_id :: "(json \<Rightarrow> string) \<Rightarrow> json \<Rightarrow> error + string option" where
  \<comment> \<open>one round of the loop of lines 1040 to 1053: the identifier to append, if any. A
      list or dict as \<^verbatim>\<open>type\<close> cannot be looked up in a dict.\<close>
  "attachment_id fmt a =
     (case a of
        JObj d \<Rightarrow>
          (let atype = get_or_none d ''type'' in
           if \<not> truthy atype then Inr None
           else case atype of
                  JStr s \<Rightarrow>
                    (case dict_get d s of
                       Some (JObj payload) \<Rightarrow>
                         (let owner_id = get_or_none payload ''owner_id'';
                              media_id = get_or_none payload ''id''
                          in if owner_id \<noteq> JNull \<and> media_id \<noteq> JNull
                             then Inr (Some (s @ py_str fmt owner_id @ ''_'' @ py_str fmt media_id))
                             else Inr None)
                     | _ \<Rightarrow> Inr None)
                | JList _ \<Rightarrow> Inl TypeError
                | JObj _ \<Rightarrow> Inl TypeError
                | _ \<Rightarrow> Inr None)
      | _ \<Rightarrow> Inr None)"

fun attachment_ids :: "(json \<Rightarrow> string) \<Rightarrow> json list \<Rightarrow> error + json list" where
  "attachment_ids fmt [] = Inr []"
| "attachment_ids fmt (a # as) =
     andthen (attachment_id fmt a) (\<lambda>r.
       andthen (attachment_ids fmt as) (\<lambda>rest.
         Inr ((case r of None \<Rightarrow> [] | Some s \<Rightarrow> [JStr s]) @ rest)))"

definition bot_attachments_ids :: "(json \<Rightarrow> string) \<Rightarrow> event \<Rightarrow> error + event" where
  \<comment> \<open>lines 1039 to 1053\<close>
  "bot_attachments_ids fmt e =
     andthen (getattr e ''attachments'') (\<lambda>a.
       case a of
         J v \<Rightarrow>
           andthen (iterate v) (\<lambda>items.
             andthen (attachment_ids fmt items) (\<lambda>ids.
               Inr (e(''attachments_ids'' \<mapsto> J (JList ids)))))
       | _ \<Rightarrow> Inl TypeError)"

definition BotMessageEvent ::
  "(json \<Rightarrow> string) \<Rightarrow> (string \<Rightarrow> int option) \<Rightarrow> (int \<Rightarrow> bool) \<Rightarrow> json \<Rightarrow> error + event"
where
  \<comment> \<open>lines 960 to 1053\<close>
  "BotMessageEvent fmt int_str ts_ok raw =
     andthen (dict_of raw) (\<lambda>r.
       let e1 = (init_attrs raw)
                  (''type'' \<mapsto> J (get_or_none r ''type''),
                   ''event_id'' \<mapsto> J (get_or_none r ''event_id''),
                   ''v'' \<mapsto> J (get_or_none r ''v''),
                   ''group_id'' \<mapsto> J (get_or_none r ''group_id''))
       in
       andthen (dict_of (or_default (get_or_none r ''object'') (JObj []))) (\<lambda>obj.
       let message = or_default (get_or_none obj ''message'') (JObj []) in
       andthen (dict_of message) (\<lambda>m.
       let e2 = e1(''message'' \<mapsto> J message,
                   ''message_id'' \<mapsto> J (get_or_none m ''id''),
                   ''peer_id'' \<mapsto> J (get_or_none m ''peer_id''),
                   ''conversation_message_id'' \<mapsto> J (get_or_none m ''conversation_message_id''),
                   ''from_id'' \<mapsto> J (get_or_none m ''from_id''),
                   ''text'' \<mapsto> J (or_default (get_or_none m ''text'') (JStr [])),
                   ''timestamp'' \<mapsto> J (get_or_none m ''date''))
       in
       andthen (datetime_step ts_ok e2) (\<lambda>e3.
       let e4 = e3(''attachments'' \<mapsto> J (or_default (get_or_none m ''attachments'') (JList [])),
                   ''fwd_messages'' \<mapsto> J (or_default (get_or_none m ''fwd_messages'') (JList [])),
                   ''client_info'' \<mapsto> J (or_default (get_or_none obj ''client_info'') (JObj [])))
       in
       andthen (bot_peer_flags e4) (\<lambda>e5.
       andthen (bot_from_me int_str e5) (\<lambda>e6.
       bot_attachments_ids fmt (e6(''to_me'' \<mapsto> J (JBool True)))))))))"

section \<open>Attachment resolution (\<^verbatim>\<open>MessageEvent.normalized_attachments\<close>)\<close>

text \<open>
  The remote API is what it answers to each request (\<open>Inl\<close>: the call raised). The
  message lookup is asked with the message id and, on the first attempt, the group id.
\<close>

record api =
  messages_getById :: "pyval \<Rightarrow> pyval option \<Rightarrow> error + json"
  photos_getById :: "string \<Rightarrow> error + json"
  docs_getById :: "string \<Rightarrow> error + json"

definition get_default :: "(string \<times> json) list \<Rightarrow> string \<Rightarrow> json \<Rightarrow> json" where
  \<comment> \<open>\<^verbatim>\<open>d.get(k, default)\<close>\<close>
  "get_default d k dflt = (case dict_get d k of None \<Rightarrow> dflt | Some v \<Rightarrow> v)"

definition from_messages_getById :: "api \<Rightarrow> event \<Rightarrow> error + json" where
  \<comment> \<open>lines 854 to 863\<close>
  "from_messages_getById a e =
     (let scoped = (case (e ''message_id'', e ''group_id'') of
                      (Some m, Some g) \<Rightarrow> messages_getById a m (Some g)
                    | _ \<Rightarrow> Inl AttributeError);
          r = (case scoped of
                 Inr r \<Rightarrow> Some r
               | Inl _ \<Rightarrow>
                   (case e ''message_id'' of
                      None \<Rightarrow> None
                    | Some m \<Rightarrow>
                        (case messages_getById a m None of Inr r \<Rightarrow> Some r | Inl _ \<Rightarrow> None)))
      in case r of
           None \<Rightarrow> Inr (JList [])
         | Some r \<Rightarrow>
             andthen (dict_of (or_default r (JObj []))) (\<lambda>d.
               let items = or_default (get_or_none d ''items'') (JList []) in
               if truthy items then
                 andthen (subscript0 items) (\<lambda>first.
                   andthen (dict_of first) (\<lambda>i.
                     Inr (or_default (get_or_none i ''attachments'') (JList []))))
               else Inr (JList [])))"

fun size_entries :: "json list \<Rightarrow> error + json list" where
  \<comment> \<open>the comprehension of lines 871 and 904: the entries with a truthy \<^verbatim>\<open>url\<close>\<close>
  "size_entries [] = Inr []"
| "size_entries (s # ss) =
     andthen (dict_of s) (\<lambda>d.
       andthen (size_entries ss) (\<lambda>rest.
         Inr ((if truthy (get_or_none d ''url'')
               then [JObj [(''type'', get_or_none d ''type''), (''url'', get_or_none d ''url'')]]
               else []) @ rest)))"

definition photo_ref :: "json list \<Rightarrow> json" where
  "photo_ref sz = JObj [(''type'', JStr ''photo''), (''photo'', JObj [(''sizes'', JList sz)])]"

definition doc_ref :: "(string \<times> json) list \<Rightarrow> json" where
  "doc_ref d =
     JObj [(''type'', JStr ''doc''),
           (''doc'', JObj [(''title'', get_default d ''title'' (JStr [])),
                           (''ext'', get_default d ''ext'' (JStr [])),
                           (''url'', get_default d ''url'' (JStr [])),
                           (''date'', get_default d ''date'' (JInt 0))])]"

definition map_one :: "json \<Rightarrow> error + json list" where
  \<comment> \<open>one round of the loop of \<^verbatim>\<open>_map\<close>, lines 867 to 881: what it appends\<close>
  "map_one a =
     andthen (dict_of a) (\<lambda>d.
       let t = get_or_none d ''type'' in
       if t = JStr ''photo'' then
         andthen (dict_of (or_default (get_or_none d ''photo'') (JObj []))) (\<lambda>p.
           andthen (iterate (or_default (get_or_none p ''sizes'') (JList []))) (\<lambda>ss.
             andthen (size_entries ss) (\<lambda>sz.
               Inr (if sz \<noteq> [] then [photo_ref sz] else []))))
       else if t = JStr ''doc'' then
         andthen (dict_of (or_default (get_or_none d ''doc'') (JObj []))) (\<lambda>dd.
           Inr [doc_ref dd])
       else Inr [])"

fun map_all :: "json list \<Rightarrow> error + json list" where
  "map_all [] = Inr []"
| "map_all (a # as) =
     andthen (map_one a) (\<lambda>out. andthen (map_all as) (\<lambda>rest. Inr (out @ rest)))"

definition map_atts :: "json \<Rightarrow> error + json list" where
  \<comment> \<open>\<^verbatim>\<open>_map(atts)\<close>\<close>
  "map_atts atts = andthen (iterate (or_default atts (JList []))) map_all"

definition digit_char :: "nat \<Rightarrow> char" where
  "digit_char d = char_of (48 + d)"

fun str_nat :: "nat \<Rightarrow> string" where
  \<comment> \<open>the decimal digits of \<open>n\<close>, as \<^verbatim>\<open>f"{i}"\<close> writes them\<close>
  "str_nat n =
     (if n < 10 then [digit_char n] else str_nat (n div 10) @ [digit_char (n mod 10)])"

declare str_nat.simps [simp del]

definition attach_key :: "nat \<Rightarrow> string" where
  "attach_key i = ''attach'' @ str_nat i"

definition attach_type_key :: "nat \<Rightarrow> string" where
  "attach_type_key i = ''attach'' @ str_nat i @ ''_type''"

definition inline_photo :: "api \<Rightarrow> string \<Rightarrow> json list" where
  \<comment> \<open>lines 901 to 909: every exception is swallowed\<close>
  "inline_photo a arg =
     (case photos_getById a arg of
        Inl _ \<Rightarrow> []
      | Inr ph \<Rightarrow>
          if truthy ph then
            (case andthen (subscript0 ph) (\<lambda>first.
                    andthen (dict_of first) (\<lambda>p.
                      andthen (iterate (get_default p ''sizes'' (JList []))) size_entries)) of
               Inl _ \<Rightarrow> []
             | Inr sz \<Rightarrow> if sz \<noteq> [] then [photo_ref sz] else [])
          else [])"

definition inline_doc :: "api \<Rightarrow> string \<Rightarrow> json list" where
  \<comment> \<open>lines 911 to 922\<close>
  "inline_doc a arg =
     (case docs_getById a arg of
        Inl _ \<Rightarrow> []
      | Inr d \<Rightarrow>
          if truthy d then
            (case andthen (subscript0 d) dict_of of
               Inl _ \<Rightarrow> []
             | Inr d0 \<Rightarrow> [doc_ref d0])
          else [])"

lemma digit_char_inj: "a < 10 \<Longrightarrow> b < 10 \<Longrightarrow> digit_char a = digit_char b \<Longrightarrow> a = b"
proof -
  assume a: "a < 10" and b: "b < 10" and e: "digit_char a = digit_char b"
  from e have "(of_char (char_of (48 + a)) :: nat) = of_char (char_of (48 + b))"
    by (simp add: digit_char_def)
  with a b show "a = b" by simp
qed

lemma str_nat_inj: "str_nat n = str_nat m \<Longrightarrow> n = m"
proof (induction n arbitrary: m rule: str_nat.induct)
  case (1 n)
  have ne: "\<And>k. str_nat k \<noteq> []"
    by (subst str_nat.simps) simp
  have small: "\<And>k. k < 10 \<Longrightarrow> str_nat k = [digit_char k]"
    by (subst str_nat.simps) simp
  have large: "\<And>k. \<not> k < 10 \<Longrightarrow> str_nat k = str_nat (k div 10) @ [digit_char (k mod 10)]"
    by (subst str_nat.simps) simp
  show ?case
  proof (cases "n < 10")
    case True
    have "m < 10"
    proof (rule ccontr)
      assume "\<not> m < 10"
      with True 1(2) ne[of "m div 10"] show False
        by (simp add: small large)
    qed
    with True 1(2) show ?thesis
      by (simp add: small digit_char_inj)
  next
    case False
    have m: "\<not> m < 10"
    proof
      assume "m < 10"
      with False 1(2) ne[of "n div 10"] show False
        by (simp add: small large)
    qed
    from False m 1(2) have a: "str_nat (n div 10) = str_nat (m div 10)"
      and b: "digit_char (n mod 10) = digit_char (m mod 10)"
      by (simp_all add: large)
    from 1(1)[OF False a] have "n div 10 = m div 10" .
    moreover from b have "n mod 10 = m mod 10"
      by (intro digit_char_inj) simp_all
    ultimately show ?thesis
      by (metis div_mult_mod_eq)
  qed
qed

lemma attach_key_measure:
  fixes ex :: "(string \<times> json) list"
  assumes "dict_get ex (attach_key i) = Some tok"
  shows "card {j. Suc i \<le> j \<and> attach_key j \<in> fst ` set ex}
           < card {j. i \<le> j \<and> attach_key j \<in> fst ` set ex}"
proof (rule psubset_card_mono)
  have inj: "inj attach_key"
    by (rule injI) (simp add: attach_key_def str_nat_inj)
  have "finite (attach_key -` (fst ` set ex))"
    using inj by (intro finite_vimageI) simp_all
  then show "finite {j. i \<le> j \<and> attach_key j \<in> fst ` set ex}"
    by (rule rev_finite_subset) auto
next
  from assms have "(attach_key i, tok) \<in> set ex"
    by (auto simp: dict_get_def dest: map_of_SomeD)
  then have "attach_key i \<in> fst ` set ex"
    by (rule rev_image_eqI) simp
  then have "i \<in> {j. i \<le> j \<and> attach_key j \<in> fst ` set ex}"
    and "i \<notin> {j. Suc i \<le> j \<and> attach_key j \<in> fst ` set ex}"
    by simp_all
  moreover have "{j. Suc i \<le> j \<and> attach_key j \<in> fst ` set ex}
      \<subseteq> {j. i \<le> j \<and> attach_key j \<in> fst ` set ex}"
    by auto
  ultimately show "{j. Suc i \<le> j \<and> attach_key j \<in> fst ` set ex}
      \<subset> {j. i \<le> j \<and> attach_key j \<in> fst ` set ex}"
    by blast
qed

function inline_tier ::
  "api \<Rightarrow> (json \<Rightarrow> string) \<Rightarrow> (string \<times> json) list \<Rightarrow> nat \<Rightarrow> json list \<Rightarrow> json list"
where
  \<comment> \<open>the loop of lines 891 to 923 over a dict \<^verbatim>\<open>ex\<close>, from index \<open>i\<close> with
      \<^verbatim>\<open>norm\<close> as collected so far\<close>
  "inline_tier a fmt ex i norm =
     (case (dict_get ex (attach_key i), dict_get ex (attach_type_key i)) of
        (Some tok, Some tp) \<Rightarrow>
          (let token = py_str fmt tok in
           if CHR ''_'' \<notin> set token then inline_tier a fmt ex (Suc i) norm
           else
             (let oid = takeWhile (\<lambda>c. c \<noteq> CHR ''_'') token;
                  iid = tl (dropWhile (\<lambda>c. c \<noteq> CHR ''_'') token);
                  arg = oid @ ''_'' @ iid
              in inline_tier a fmt ex (Suc i)
                   (norm @ (if tp = JStr ''photo'' then inline_photo a arg
                            else if tp = JStr ''doc'' then inline_doc a arg
                            else []))))
      | _ \<Rightarrow> norm)"
  by pat_completeness auto
termination
proof (relation "measure (\<lambda>(a, fmt, ex, i, norm).
    card {j. i \<le> j \<and> attach_key j \<in> fst ` set ex})", goal_cases)
  case 1
  show ?case by simp
next
  case (2 a fmt ex i norm x y x2 x2a xa)
  then have "dict_get ex (attach_key i) = Some x2" by simp
  from attach_key_measure[OF this] show ?case by simp
next
  case (3 a fmt ex i norm x y x2 x2a xa xb xc xd)
  then have "dict_get ex (attach_key i) = Some x2" by simp
  from attach_key_measure[OF this] show ?case by simp
qed

declare inline_tier.simps [simp del]

definition normalized_attachments :: "api \<Rightarrow> (json \<Rightarrow> string) \<Rightarrow> event \<Rightarrow> error + json list" where
  \<comment> \<open>lines 853 to 925. A truthy \<^verbatim>\<open>extra_values\<close> that is no dict fails at
      \<^verbatim>\<open>ex[...]\<close> once both membership tests have passed.\<close>
  "normalized_attachments a fmt e =
     andthen (from_messages_getById a e) (\<lambda>atts.
     andthen (map_atts atts) (\<lambda>got.
       if got \<noteq> [] then Inr got
       else
         andthen (getattr e ''extra_values'') (\<lambda>ev.
           if \<not> truthy_val ev then Inr (inline_tier a fmt [] 1 [])
           else case ev of
                  J (JObj ex) \<Rightarrow> Inr (inline_tier a fmt ex 1 [])
                | _ \<Rightarrow>
                    andthen (contains (attach_key 1) ev) (\<lambda>has.
                      if \<not> has then Inr []
                      else andthen (contains (attach_type_key 1) ev) (\<lambda>has_type.
                        if \<not> has_type then Inr [] else Inl TypeError)))))"

section \<open>Sample inputs for the decoders and the resolver\<close>

definition no_int :: "string \<Rightarrow> int option" where
  "no_int s = None"

definition any_ts :: "int \<Rightarrow> bool" where
  "any_ts n = True"

definition flagged_event :: event where
  "flagged_event = (init_attrs (JList [JInt 4, JInt 1, JInt 3]))(''flags'' \<mapsto> J (JInt 3))"

definition urlless_photo :: "json" where
  \<comment> \<open>a message lookup result with one photo whose single size entry has no URL\<close>
  "urlless_photo =
     JObj [(''items'', JList [JObj [(''attachments'', JList [JObj
        [(''type'', JStr ''photo''),
         (''photo'', JObj [(''sizes'', JList [JObj [(''type'', JStr ''m'')]])])]])]])]"

fun sample_lookup :: "pyval \<Rightarrow> pyval option \<Rightarrow> error + json" where
  "sample_lookup m None = Inr urlless_photo"
| "sample_lookup m (Some g) = Inl (OtherError ''group'')"

definition sample_api :: api where
  "sample_api =
     \<lparr>messages_getById = sample_lookup,
      photos_getById = (\<lambda>_. Inl (OtherError ''photos'')),
      docs_getById = (\<lambda>_. Inl (OtherError ''docs''))\<rparr>"

definition looked_up_event :: event where
  "looked_up_event = (init_attrs (JList [JInt 4, JInt 7]))(''message_id'' \<mapsto> J (JInt 7))"

definition null_size_photo :: "json" where
  \<comment> \<open>a message lookup result with one photo, one of whose size entries is \<^verbatim>\<open>null\<close>\<close>
  "null_size_photo =
     JObj [(''items'', JList [JObj [(''attachments'', JList [JObj
        [(''type'', JStr ''photo''),
         (''photo'', JObj [(''sizes'', JList [JNull])])]])]])]"

definition null_size_api :: api where
  "null_size_api =
     \<lparr>messages_getById = (\<lambda>m g. Inr null_size_photo),
      photos_getById = (\<lambda>_. Inl (OtherError ''photos'')),
      docs_getById = (\<lambda>_. Inl (OtherError ''docs''))\<rparr>"

definition stringly_update :: json where
  \<comment> \<open>a new-message update whose extra values rename themselves to a string\<close>
  "stringly_update =
     JList [JInt 4, JInt 7, JInt 0, JInt 1, JInt 0, JStr ''hi'',
            JObj [(''extra_values'', JStr ''attach1_type'')]]"

definition element_keys :: "json \<Rightarrow> string list" where
  \<comment> \<open>the keys of the dicts among the elements of a raw array: the attribute names that
      \<^verbatim>\<open>_dict_to_attr\<close> can come to set from it\<close>
  "element_keys raw =
     (case raw of
        JList xs \<Rightarrow> concat (map (\<lambda>x. case x of JObj d \<Rightarrow> map fst d | _ \<Rightarrow> []) xs)
      | _ \<Rightarrow> [])"

definition sprayed_update :: json where
  \<comment> \<open>a new-message update for the group peer -5 whose extra values name an attribute\<close>
  "sprayed_update =
     JList [JInt 4, JInt 1, JInt 0, JInt (- 5), JInt 0, JStr ''hi'',
            JObj [(''from_user'', JBool True)]]"

definition chat_update :: json where
  \<comment> \<open>an outgoing new message in the conversation with chat id 7\<close>
  "chat_update = JList [JInt 4, JInt 1, JInt 3, JInt 2000000007, JInt 0, JStr ''hi'']"

definition group_update :: json where
  \<comment> \<open>an incoming new message in the dialogue with the community 5\<close>
  "group_update = JList [JInt 4, JInt 1, JInt 0, JInt (- 5), JInt 0, JStr ''hi'']"

definition notification_update :: json where
  \<comment> \<open>notification settings changed for the conversation with chat id 5\<close>
  "notification_update =
     JList [JInt 114, JObj [(''peer_id'', JInt 2000000005), (''sound'', JInt 1),
                            (''disabled_until'', JInt 0)]]"

definition threshold_update :: json where
  \<comment> \<open>a new message whose peer id is the threshold itself\<close>
  "threshold_update = JList [JInt 4, JInt 1, JInt 0, JInt 2000000000, JInt 0, JStr ''hi'']"

definition callback :: "int \<Rightarrow> int \<Rightarrow> json" where
  \<comment> \<open>a callback for group 5 carrying a message from \<open>sender\<close> in the dialogue \<open>peer\<close>\<close>
  "callback sender peer =
     JObj [(''type'', JStr ''message_new''), (''group_id'', JInt 5),
           (''object'', JObj [(''message'',
              JObj [(''id'', JInt 1), (''from_id'', JInt sender), (''peer_id'', JInt peer),
                    (''text'', JStr ''hi'')])])]"

lemma eq_int_truthy: "eq_int v n \<Longrightarrow> n \<noteq> 0 \<Longrightarrow> truthy v"
  by (cases v) (auto simp: eq_int_def split: if_splits)

lemma eq_int_unique: "eq_int v n \<Longrightarrow> eq_int v m = (m = n)"
  by (auto simp: eq_int_def)

lemma get_long_poll_server_key_kept:
  "key_kept s \<Longrightarrow> keyed h \<Longrightarrow> key_kept (snd (get_long_poll_server k fmt s h))"
  by (auto simp: key_kept_def keyed_def get_long_poll_server_def Let_def
           split: sum.splits json.splits option.splits)

lemma handoff_key_kept:
  assumes "key_kept s" "list_all keyed hs" "handoff k fmt np s hs = (r, s1, cs, hs1)"
  shows "key_kept s1 \<and> list_all keyed hs1"
proof (cases hs)
  case Nil
  with assms show ?thesis by (simp add: handoff_def)
next
  case (Cons h hs')
  with assms(2) have h: "keyed h" "list_all keyed hs'" by simp_all
  obtain e s' where g: "get_long_poll_server k fmt s h = (e, s')" by (cases "get_long_poll_server k fmt s h")
  have "key_kept s'" using get_long_poll_server_key_kept[OF assms(1) h(1), of k fmt] g by simp
  with assms(3) Cons g h show ?thesis
    by (cases e) (auto simp: handoff_def)
qed

lemma ensure_server_key_kept:
  assumes "key_kept s" "list_all keyed hs" "ensure_server k fmt np s hs = (r, s1, cs, hs1)"
  shows "key_kept s1 \<and> list_all keyed hs1"
  using assms handoff_key_kept[of s hs k fmt np r s1 cs hs1]
  by (auto simp: ensure_server_def split: if_splits)

lemma final_stop [simp]: "final (stop r s cs) = s"
  by (simp add: stop_def)

lemma final_nested [simp]: "final (nested cs r) = final r"
  by (simp add: nested_def)

lemma key_kept_upd [simp]: "key_kept (s\<lparr>ts := t\<rparr>) = key_kept s" "key_kept (s\<lparr>base_url := None\<rparr>)"
  by (simp_all add: key_kept_def)

lemma wait_nil:
  "\<exists>res s2 cs2. wait k fmt np s hs [] = stop res s2 cs2
      \<and> s2 = fst (snd (ensure_server k fmt np s hs))"
proof -
  obtain r s1 cs hs1 where e: "ensure_server k fmt np s hs = (r, s1, cs, hs1)"
    by (cases "ensure_server k fmt np s hs") auto
  then show ?thesis by (subst wait.simps, cases r) (simp_all add: Let_def, blast+)
qed

lemma softD:
  assumes "soft g"
  obtains status d where "g = Inr (status, Inr (JObj d))" "status \<noteq> 403"
    "truthy (get_or_none d ''failed'')" "\<not> eq_int (get_or_none d ''failed'') 4"
    "eq_int (get_or_none d ''failed'') 1 \<longrightarrow> dict_get d ''ts'' \<noteq> None"
proof (cases g)
  case (Inl e)
  with assms show ?thesis by (simp add: soft_def)
next
  case (Inr p)
  obtain status body where p: "p = (status, body)" by (cases p)
  show ?thesis
  proof (cases body)
    case (Inl e)
    with assms Inr p show ?thesis by (simp add: soft_def)
  next
    case body: (Inr j)
    from assms Inr p body obtain d where "j = JObj d"
      by (cases j) (simp_all add: soft_def)
    with assms Inr p body that show ?thesis by (simp add: soft_def)
  qed
qed

lemma wait_step:
  assumes e: "ensure_server k fmt np s hs = (r, s1, cs, hs1)"
  shows "(\<exists>res s2 cs2. wait k fmt np s hs (g # gs) = stop res s2 cs2
            \<and> (s2 = s1 \<or> (\<exists>t. s2 = s1\<lparr>ts := t\<rparr>)) \<and> (\<not> soft g \<or> r \<noteq> Returned ()))
       \<or> (soft g \<and> r = Returned () \<and>
           (\<exists>s2. (s2 = s1\<lparr>base_url := None\<rparr> \<or> (\<exists>t. s2 = s1\<lparr>ts := t\<rparr>)) \<and>
              wait k fmt np s hs (g # gs) = nested (cs @ [get_call s1]) (wait k fmt False s2 hs1 gs)))"
    (is "?stops \<or> ?repeats")
proof (cases r)
  case (Returned u)
  note w = wait.simps[of k fmt np s hs "g # gs"]
  let ?cs1 = "cs @ [get_call s1]"
  have stopsI: "\<And>res s2. wait k fmt np s hs (g # gs) = stop res s2 ?cs1 \<Longrightarrow>
      s2 = s1 \<or> (\<exists>t. s2 = s1\<lparr>ts := t\<rparr>) \<Longrightarrow> \<not> soft g \<Longrightarrow> ?stops"
    by blast
  show ?thesis
  proof (cases g)
    case (Inl x)
    then have ns: "\<not> soft g" by (auto elim: softD)
    have "wait k fmt np s hs (g # gs) = stop (Raised x) s1 ?cs1"
      using Inl e Returned by (subst w) (simp add: Let_def)
    from stopsI[OF this _ ns] show ?thesis by simp
  next
    case (Inr p)
    obtain status body where p: "p = (status, body)" by (cases p)
    show ?thesis
    proof (cases "status = 403")
      case True
      with Inr p have ns: "\<not> soft g" by (auto elim: softD)
      have "\<exists>res. wait k fmt np s hs (g # gs) = stop res s1 ?cs1"
        using True e Returned Inr p by (subst w, cases "base_url s1") (simp_all add: Let_def, blast+)
      then obtain res where "wait k fmt np s hs (g # gs) = stop res s1 ?cs1" ..
      from stopsI[OF this _ ns] show ?thesis by simp
    next
      case n403: False
      show ?thesis
      proof (cases body)
        case (Inl x)
        with Inr p have ns: "\<not> soft g" by (auto elim: softD)
        have "wait k fmt np s hs (g # gs) = stop (Raised x) s1 ?cs1"
          using Inl e Returned Inr p n403 by (subst w) (simp add: Let_def)
        from stopsI[OF this _ ns] show ?thesis by simp
      next
        case body: (Inr j)
        show ?thesis
        proof (cases "\<exists>d. j = JObj d")
          case False
          with Inr p body have ns: "\<not> soft g" by (auto elim: softD)
          have "wait k fmt np s hs (g # gs) = stop (Raised AttributeError) s1 ?cs1"
            using False e Returned Inr p n403 body by (subst w, cases j) (simp_all add: Let_def)
          from stopsI[OF this _ ns] show ?thesis by simp
        next
          case True
          then obtain d where d: "j = JObj d" by blast
          let ?f = "get_or_none d ''failed''"
          have sf: "soft g = (truthy ?f \<and> \<not> eq_int ?f 4 \<and> (eq_int ?f 1 \<longrightarrow> dict_get d ''ts'' \<noteq> None))"
            using Inr p n403 body d by (simp add: soft_def)
          have u14: "eq_int ?f 4 \<Longrightarrow> \<not> eq_int ?f 1" by (simp add: eq_int_def)
          note facts = e Returned Inr p n403 body d
          consider (ok) "\<not> truthy ?f" | (four) "truthy ?f" "eq_int ?f 4"
            | (one) "truthy ?f" "eq_int ?f 1" | (other) "truthy ?f" "\<not> eq_int ?f 1" "\<not> eq_int ?f 4"
            by blast
          then show ?thesis
          proof cases
            case ok
            then have ns: "\<not> soft g" by (simp add: sf)
            have "\<exists>res s2. wait k fmt np s hs (g # gs) = stop res s2 ?cs1 \<and> (s2 = s1 \<or> (\<exists>t. s2 = s1\<lparr>ts := t\<rparr>))"
            proof (cases "dict_get d ''ts''")
              case None
              with ok facts have "wait k fmt np s hs (g # gs) = stop (Raised KeyError) s1 ?cs1"
                by (subst w) (simp add: Let_def)
              then show ?thesis by blast
            next
              case (Some t)
              with ok facts have "wait k fmt np s hs (g # gs) = stop (Returned (JObj d)) (s1\<lparr>ts := t\<rparr>) ?cs1"
                by (subst w) (simp add: Let_def)
              then show ?thesis by blast
            qed
            with ns show ?thesis by blast
          next
            case four
            then have ns: "\<not> soft g" by (simp add: sf)
            have "\<exists>res. wait k fmt np s hs (g # gs) = stop res s1 ?cs1"
              using four u14 facts by (subst w, cases "base_url s1") (simp_all add: Let_def, blast+)
            then obtain res where "wait k fmt np s hs (g # gs) = stop res s1 ?cs1" ..
            from stopsI[OF this _ ns] show ?thesis by simp
          next
            case one
            show ?thesis
            proof (cases "dict_get d ''ts''")
              case None
              with one have ns: "\<not> soft g" by (simp add: sf)
              from None one facts have "wait k fmt np s hs (g # gs) = stop (Raised KeyError) s1 ?cs1"
                by (subst w) (simp add: Let_def)
              from stopsI[OF this _ ns] show ?thesis by simp
            next
              case (Some t)
              with one u14 have sg: "soft g" by (auto simp add: sf)
              from Some one facts have "wait k fmt np s hs (g # gs) =
                  nested ?cs1 (wait k fmt False (s1\<lparr>ts := t\<rparr>) hs1 gs)"
                by (subst w) (simp add: Let_def)
              with sg Returned have ?repeats by auto
              then show ?thesis ..
            qed
          next
            case other
            then have sg: "soft g" by (simp add: sf)
            from other facts have "wait k fmt np s hs (g # gs) =
                nested ?cs1 (wait k fmt False (s1\<lparr>base_url := None\<rparr>) hs1 gs)"
              by (subst w) (simp add: Let_def)
            with sg Returned have ?repeats by auto
              then show ?thesis ..
          qed
        qed
      qed
    qed
  qed
next
  case (Raised x)
  with e have "wait k fmt np s hs (g # gs) = stop (Raised x) s1 cs"
    by (subst wait.simps) simp
  with Raised show ?thesis by blast
next
  case Blocked
  with e have "wait k fmt np s hs (g # gs) = stop Blocked s1 cs"
    by (subst wait.simps) simp
  with Blocked show ?thesis by blast
qed

lemma wait_key_kept:
  "key_kept s \<Longrightarrow> list_all keyed hs \<Longrightarrow> key_kept (final (wait k fmt np s hs gs))"
proof (induction gs arbitrary: s hs np)
  case Nil
  obtain r s1 cs hs1 where e: "ensure_server k fmt np s hs = (r, s1, cs, hs1)"
    by (cases "ensure_server k fmt np s hs") auto
  from wait_nil[of k fmt np s hs] e obtain res cs2 where "wait k fmt np s hs [] = stop res s1 cs2"
    by auto
  with ensure_server_key_kept[OF Nil e] show ?case by simp
next
  case (Cons g gs)
  obtain r s1 cs hs1 where e: "ensure_server k fmt np s hs = (r, s1, cs, hs1)"
    by (cases "ensure_server k fmt np s hs") auto
  from ensure_server_key_kept[OF Cons.prems e] have k1: "key_kept s1" "list_all keyed hs1" by simp_all
  have ih: "\<And>s'. key_kept s' \<Longrightarrow> key_kept (final (wait k fmt False s' hs1 gs))"
    using Cons.IH k1(2) by blast
  from wait_step[OF e, of g gs] show ?case
  proof
    assume "\<exists>res s2 cs2. wait k fmt np s hs (g # gs) = stop res s2 cs2
        \<and> (s2 = s1 \<or> (\<exists>t. s2 = s1\<lparr>ts := t\<rparr>)) \<and> (\<not> soft g \<or> r \<noteq> Returned ())"
    then obtain res s2 cs2 where w: "wait k fmt np s hs (g # gs) = stop res s2 cs2"
      and s2: "s2 = s1 \<or> (\<exists>t. s2 = s1\<lparr>ts := t\<rparr>)" by blast
    from s2 k1(1) have "key_kept s2" by auto
    then show ?case by (simp add: w)
  next
    assume "soft g \<and> r = Returned () \<and>
           (\<exists>s2. (s2 = s1\<lparr>base_url := None\<rparr> \<or> (\<exists>t. s2 = s1\<lparr>ts := t\<rparr>)) \<and>
              wait k fmt np s hs (g # gs) = nested (cs @ [get_call s1]) (wait k fmt False s2 hs1 gs))"
    then obtain s2 where s2: "s2 = s1\<lparr>base_url := None\<rparr> \<or> (\<exists>t. s2 = s1\<lparr>ts := t\<rparr>)"
      and w: "wait k fmt np s hs (g # gs) = nested (cs @ [get_call s1]) (wait k fmt False s2 hs1 gs)"
      by blast
    from s2 k1(1) have "key_kept s2" by auto
    from ih[OF this] show ?case by (simp add: w)
  qed
qed

lemma get_pts_key_kept:
  assumes "key_kept s" "list_all keyed hs"
  shows "key_kept (fst (snd (get_pts k fmt nt s hs)))"
proof (cases "url_set s \<and> truthy (pts s)")
  case True
  with assms show ?thesis by (simp add: get_pts_def)
next
  case False
  obtain r s1 cs hs1 where h: "handoff k fmt True s hs = (r, s1, cs, hs1)"
    by (cases "handoff k fmt True s hs") auto
  from handoff_key_kept[OF assms h] False h show ?thesis
    by (cases r) (auto simp: get_pts_def)
qed

lemma key_kept_reachable: "reachable k fmt s \<Longrightarrow> key_kept s"
proof (induction rule: reachable.induct)
  case (constructed bp t)
  show ?case by (simp add: key_kept_def init_session_def)
next
  case (established s h)
  then show ?case by (simp add: get_long_poll_server_key_kept)
next
  case (polled s hs np gs)
  then show ?case by (simp add: wait_key_kept)
next
  case (pointed s hs nt)
  then show ?case by (simp add: get_pts_key_kept)
qed

lemma depth_stop [simp]: "depth (stop r s cs) = 1"
  by (simp add: stop_def)








lemma url_set_ensure: "url_set s \<Longrightarrow> ensure_server k fmt np s hs = (Returned (), s, [], hs)"
  by (simp add: ensure_server_def)

lemma url_set_Some: "url_set s \<Longrightarrow> \<exists>u. base_url s = Some u \<and> u \<noteq> []"
  by (auto simp: url_set_def split: option.splits)

lemma url_set_sample [simp]: "url_set sample_session" "url_set (sample_session\<lparr>ts := t\<rparr>)"
  by (simp_all add: url_set_def sample_session_def)

subsection \<open>The interpreter's limit on nested calls\<close>


lemma result_nested [simp]: "result (nested cs r) = result r"
  by (simp add: nested_def)







subsection \<open>Claims about the session\<close>

text \<open>
  C1 (as stated, refuted). The claim has \<^verbatim>\<open>poll()\<close> leave the endpoint unset after
  \<^verbatim>\<open>failed == 4\<close>, so that the next call starts with a handoff. On the sample session
  the answer \<^verbatim>\<open>{"failed": 4}\<close> raises the error and the endpoint is still the one the
  session had; the next call issues its GET without any handoff.
\<close>

theorem wait_failed_4_counterexample:
  "result (wait (UserLongPoll True) plain False sample_session [] [answer [(''failed'', JInt 4)]])
     = Raised (VkLongPollError 4
         ''An invalid version number was passed in the version parameter'' ''https://srv/'')
   \<and> base_url (final (wait (UserLongPoll True) plain False sample_session []
         [answer [(''failed'', JInt 4)]])) = Some ''https://srv''
   \<and> calls (wait (UserLongPoll True) plain False
         (final (wait (UserLongPoll True) plain False sample_session []
            [answer [(''failed'', JInt 4)]])) [] [])
     = [get_call sample_session]"
proof -
  have first: "wait (UserLongPoll True) plain False sample_session [] [answer [(''failed'', JInt 4)]]
      = stop (Raised (VkLongPollError 4
          ''An invalid version number was passed in the version parameter'' ''https://srv/''))
          sample_session [get_call sample_session]"
    by (subst wait.simps)
       (simp add: url_set_ensure answer_def get_or_none_def dict_get_def eq_int_def,
        simp add: sample_session_def)
  have second: "wait (UserLongPoll True) plain False sample_session [] []
      = stop Blocked sample_session [get_call sample_session]"
    by (subst wait.simps) (simp add: url_set_ensure)
  show ?thesis
    by (simp add: first second stop_def, simp add: sample_session_def)
qed

text \<open>
  C1 (amended). For every established session, when the GET answers with a status other
  than 403 and a body whose \<^verbatim>\<open>failed\<close> equals 4, \<^verbatim>\<open>wait\<close> raises
  \<^verbatim>\<open>VkLongPollError\<close> with code 4 after that single GET, whatever answers might follow,
  and leaves the session exactly as it was: the endpoint stays set, and a following call
  starts without a handoff.
\<close>

theorem wait_failed_4:
  assumes "url_set s" and "status \<noteq> 403" and "eq_int (get_or_none d ''failed'') 4"
  shows "\<exists>u. base_url s = Some u \<and>
      wait k fmt np s hs (Inr (status, Inr (JObj d)) # gs) =
        \<lparr>result = Raised (VkLongPollError 4
            ''An invalid version number was passed in the version parameter'' (u @ ''/'')),
         final = s, calls = [get_call s], depth = 1\<rparr>
      \<and> ensure_server k fmt np' (final (wait k fmt np s hs (Inr (status, Inr (JObj d)) # gs))) hs'
          = (Returned (), s, [], hs')"
proof -
  from assms(1) obtain u where u: "base_url s = Some u" "u \<noteq> []"
    using url_set_Some by blast
  have t: "truthy (get_or_none d ''failed'')"
    using assms(3) by (rule eq_int_truthy) simp
  have n1: "\<not> eq_int (get_or_none d ''failed'') 1"
    using eq_int_unique[OF assms(3)] by simp
  have w: "wait k fmt np s hs (Inr (status, Inr (JObj d)) # gs) =
      stop (Raised (VkLongPollError 4
        ''An invalid version number was passed in the version parameter'' (u @ ''/''))) s
        [get_call s]"
    using assms u t n1 by (subst wait.simps) (simp add: url_set_ensure)
  show ?thesis
    using u(1) assms(1) by (simp add: w stop_def url_set_ensure)
qed

theorem wait_failed_4_witness:
  "url_set sample_session \<and> (200::int) \<noteq> 403 \<and> eq_int (get_or_none [(''failed'', JInt 4)] ''failed'') 4
   \<and> result (wait (BotsLongPoll (JInt 1)) plain True sample_session [sample_handoff]
        [Inr (200, Inr (JObj [(''failed'', JInt 4)])), answer [(''ts'', JInt 9)]])
      = Raised (VkLongPollError 4
          ''An invalid version number was passed in the version parameter'' ''https://srv/'')
   \<and> final (wait (BotsLongPoll (JInt 1)) plain True sample_session [sample_handoff]
        [Inr (200, Inr (JObj [(''failed'', JInt 4)])), answer [(''ts'', JInt 9)]])
      = sample_session"
proof -
  have h: "url_set sample_session" "(200::int) \<noteq> 403"
      "eq_int (get_or_none [(''failed'', JInt 4)] ''failed'') 4"
    by (simp_all add: get_or_none_def dict_get_def eq_int_def)
  from wait_failed_4[OF h, of "BotsLongPoll (JInt 1)" plain True "[sample_handoff]"
      "[answer [(''ts'', JInt 9)]]"]
  show ?thesis using h by (auto simp: sample_session_def)
qed

text \<open>
  C2. For an established session, when the first GET answers \<^verbatim>\<open>{failed: 1, ts: 100}\<close>
  and the repeated GET answers a body without \<^verbatim>\<open>failed\<close>, with \<^verbatim>\<open>ts\<close> 105 and an
  \<^verbatim>\<open>updates\<close> list, \<^verbatim>\<open>wait\<close> raises nothing and returns the second body (and with it
  its updates), the cursor ends at 105, and the calls made are exactly two GETs, the second
  with the cursor 100: one repetition, no handoff.
\<close>

theorem wait_soft_resync:
  assumes "url_set s" and "st1 \<noteq> 403" and "st2 \<noteq> 403"
    and "dict_get d1 ''failed'' = Some (JInt 1)" and "dict_get d1 ''ts'' = Some (JInt 100)"
    and "dict_get d2 ''failed'' = None" and "dict_get d2 ''ts'' = Some (JInt 105)"
    and "dict_get d2 ''updates'' = Some us"
  shows "wait k fmt np s hs (Inr (st1, Inr (JObj d1)) # Inr (st2, Inr (JObj d2)) # gs) =
      \<lparr>result = Returned (JObj d2), final = s\<lparr>ts := JInt 105\<rparr>,
       calls = [get_call s, get_call (s\<lparr>ts := JInt 100\<rparr>)], depth = 2\<rparr>
     \<and> get_or_none d2 ''updates'' = us"
proof -
  have u: "url_set (s\<lparr>ts := JInt 100\<rparr>)"
    using assms(1) by (simp add: url_set_def)
  have second: "wait k fmt False (s\<lparr>ts := JInt 100\<rparr>) hs (Inr (st2, Inr (JObj d2)) # gs) =
      stop (Returned (JObj d2)) (s\<lparr>ts := JInt 105\<rparr>) [get_call (s\<lparr>ts := JInt 100\<rparr>)]"
    using u assms(3,6,7) by (subst wait.simps) (simp add: url_set_ensure get_or_none_def)
  have first: "wait k fmt np s hs (Inr (st1, Inr (JObj d1)) # Inr (st2, Inr (JObj d2)) # gs) =
      nested [get_call s]
        (wait k fmt False (s\<lparr>ts := JInt 100\<rparr>) hs (Inr (st2, Inr (JObj d2)) # gs))"
    using assms(1,2,4,5)
    by (subst wait.simps) (simp add: url_set_ensure get_or_none_def eq_int_def)
  show ?thesis
    using assms(8) by (simp add: first second nested_def stop_def get_or_none_def)
qed

theorem wait_soft_resync_witness:
  "url_set sample_session
   \<and> result (wait (UserLongPoll True) plain False sample_session []
        [answer [(''failed'', JInt 1), (''ts'', JInt 100)],
         answer [(''ts'', JInt 105), (''updates'', JList [JList [JInt 80, JInt 3]])]])
      = Returned (JObj [(''ts'', JInt 105), (''updates'', JList [JList [JInt 80, JInt 3]])])
   \<and> ts (final (wait (UserLongPoll True) plain False sample_session []
        [answer [(''failed'', JInt 1), (''ts'', JInt 100)],
         answer [(''ts'', JInt 105), (''updates'', JList [JList [JInt 80, JInt 3]])]]))
      = JInt 105"
proof -
  have h: "url_set sample_session" "(200::int) \<noteq> 403"
      "dict_get [(''failed'', JInt 1), (''ts'', JInt 100)] ''failed'' = Some (JInt 1)"
      "dict_get [(''failed'', JInt 1), (''ts'', JInt 100)] ''ts'' = Some (JInt 100)"
      "dict_get [(''ts'', JInt 105), (''updates'', JList [JList [JInt 80, JInt 3]])] ''failed'' = None"
      "dict_get [(''ts'', JInt 105), (''updates'', JList [JList [JInt 80, JInt 3]])] ''ts''
         = Some (JInt 105)"
      "dict_get [(''ts'', JInt 105), (''updates'', JList [JList [JInt 80, JInt 3]])] ''updates''
         = Some (JList [JList [JInt 80, JInt 3]])"
    by (simp_all add: dict_get_def)
  from wait_soft_resync[OF h(1) h(2) h(2) h(3) h(4) h(5) h(6) h(7),
      of "UserLongPoll True" plain False "[]" "[]"]
  show ?thesis using h(1) by (simp add: answer_def)
qed

text \<open>
  C3 (as stated, refuted). The claim has endpoint and key present together or absent
  together in every reachable state. A fresh session that is handed a server, polls, is told
  \<^verbatim>\<open>failed: 2\<close> and then finds the API failing on the new handoff ends with the
  endpoint cleared (line 92) and the key of the old handoff still stored: nothing in the
  class ever clears the key.
\<close>

theorem endpoint_key_counterexample:
  "reachable (UserLongPoll True) plain
     (final (wait (UserLongPoll True) plain False (init_session sample_params JNull)
        [sample_handoff, Inl (OtherError ''api'')] [answer [(''failed'', JInt 2)]]))
   \<and> base_url (final (wait (UserLongPoll True) plain False (init_session sample_params JNull)
        [sample_handoff, Inl (OtherError ''api'')] [answer [(''failed'', JInt 2)]])) = None
   \<and> key (final (wait (UserLongPoll True) plain False (init_session sample_params JNull)
        [sample_handoff, Inl (OtherError ''api'')] [answer [(''failed'', JInt 2)]])) = JStr ''abc''"
proof -
  have r: "reachable (UserLongPoll True) plain
     (final (wait (UserLongPoll True) plain False (init_session sample_params JNull)
        [sample_handoff, Inl (OtherError ''api'')] [answer [(''failed'', JInt 2)]]))"
    by (rule reachable.polled[OF reachable.constructed])
       (simp add: keyed_def sample_handoff_def dict_get_def)
  have w2: "\<And>s. base_url s = None \<Longrightarrow>
      wait (UserLongPoll True) plain False s [Inl (OtherError ''api'')] [] =
        stop (Raised (OtherError ''api'')) s [handoff_call (UserLongPoll True) False s]"
    by (subst wait.simps)
       (simp add: ensure_server_def url_set_def handoff_def get_long_poll_server_def)
  have w1: "final (wait (UserLongPoll True) plain False (init_session sample_params JNull)
        [sample_handoff, Inl (OtherError ''api'')] [answer [(''failed'', JInt 2)]])
      = \<lparr>params = sample_params, timeout = JNull, pts = JNull, ts = JInt 1,
         key = JStr ''abc'', base_url = None\<rparr>"
    by (subst wait.simps)
       (simp add: ensure_server_def url_set_def handoff_def get_long_poll_server_def
          init_session_def sample_handoff_def dict_get_def get_or_none_def answer_def
          eq_int_def w2)
  show ?thesis using r by (simp add: w1)
qed

text \<open>
  C3 (amended). One direction holds: in every state reachable against an API whose handoff
  answers carry no \<^verbatim>\<open>null\<close> key, a session that has an endpoint has a key. The key is
  stored before the endpoint (lines 120 and 122) and never cleared, while session
  invalidation clears the endpoint alone.
\<close>

theorem endpoint_implies_key:
  "reachable k fmt s \<Longrightarrow> base_url s \<noteq> None \<longrightarrow> key s \<noteq> JNull"
  using key_kept_reachable[of k fmt s] by (simp add: key_kept_def)

theorem endpoint_implies_key_witness:
  "reachable (UserLongPoll False) plain
     (snd (get_long_poll_server (UserLongPoll False) plain (init_session sample_params JNull)
        sample_handoff))
   \<and> base_url (snd (get_long_poll_server (UserLongPoll False) plain
        (init_session sample_params JNull) sample_handoff)) = Some ''http://im.vk.com/x''
   \<and> key (snd (get_long_poll_server (UserLongPoll False) plain
        (init_session sample_params JNull) sample_handoff)) \<noteq> JNull"
proof -
  have r: "reachable (UserLongPoll False) plain
     (snd (get_long_poll_server (UserLongPoll False) plain (init_session sample_params JNull)
        sample_handoff))"
    by (rule reachable.established[OF reachable.constructed])
       (simp add: keyed_def sample_handoff_def dict_get_def)
  have u: "base_url (snd (get_long_poll_server (UserLongPoll False) plain
        (init_session sample_params JNull) sample_handoff)) = Some ''http://im.vk.com/x''"
    by (simp add: get_long_poll_server_def sample_handoff_def dict_get_def server_url_def
          py_str_def)
  from endpoint_implies_key[OF r] r u show ?thesis by simp
qed





section \<open>How the decoding steps change an event\<close>

lemma andthen_Inr [simp]: "andthen (Inr x) f = f x"
  by (simp add: andthen_def)

lemma andthen_Inl [simp]: "andthen (Inl e) f = Inl e"
  by (simp add: andthen_def)

lemma andthen_eq_Inr: "andthen m f = Inr y \<longleftrightarrow> (\<exists>x. m = Inr x \<and> f x = Inr y)"
  by (cases m) simp_all

lemma getattr_eq_Inr: "getattr e k = Inr v \<longleftrightarrow> e k = Some v"
  by (simp add: getattr_def split: option.splits)

lemma bound_method_eq_Inr: "bound_method e m f = Inr e' \<longleftrightarrow> e m = None \<and> f e = Inr e'"
  by (simp add: bound_method_def)

lemma all_event_types_complete: "t \<in> set all_event_types"
  by (cases t) (simp_all add: all_event_types_def)

lemma event_value_inj: "event_value t = event_value u \<Longrightarrow> t = u"
  by (cases t; cases u) simp_all

lemma type_in_member: "type_in (EventType t) ms = (t \<in> set ms)"
  by (auto simp: type_in_def list_ex_iff val_eq_def dest: event_value_inj)

lemma type_in_call: "type_in v ms \<Longrightarrow> VkEventType_call v \<noteq> None"
proof -
  assume "type_in v ms"
  then obtain m where "val_as_int v = Some (event_value m)"
    by (auto simp: type_in_def list_ex_iff val_eq_def)
  then show ?thesis
    using all_event_types_complete[of m]
    by (auto simp: VkEventType_call_def find_None_iff)
qed

lemma fold_setattr_frame:
  "k \<notin> fst ` set d \<Longrightarrow> fold (\<lambda>(k, v) e. e(k \<mapsto> J v)) d e k = e k"
  by (induction d arbitrary: e) auto

lemma list_to_attr_frame: "k \<notin> set attrs \<Longrightarrow> list_to_attr raw attrs e k = e k"
  unfolding list_to_attr_def
  by (rule fold_setattr_frame) (auto dest: set_zip_leftD)

lemma fold_setattr_value:
  "fold (\<lambda>(k, v) e. e(k \<mapsto> J v)) d e k = Some w
     \<Longrightarrow> e k = Some w \<or> (\<exists>j\<in>snd ` set d. w = J j)"
proof (induction d arbitrary: e)
  case Nil
  then show ?case by simp
next
  case (Cons a d)
  obtain k' v' where a: "a = (k', v')" by (cases a)
  from Cons.prems have "fold (\<lambda>(k, v) e. e(k \<mapsto> J v)) d (e(k' \<mapsto> J v')) k = Some w"
    by (simp only: a List.fold_simps case_prod_conv comp_apply)
  from Cons.IH[OF this] show ?case
    by (auto simp: a split: if_splits)
qed

lemma list_to_attr_value:
  "list_to_attr raw attrs e k = Some w \<Longrightarrow> e k = Some w \<or> (\<exists>j\<in>set raw. w = J j)"
  unfolding list_to_attr_def
  by (drule fold_setattr_value) (auto dest: set_zip_rightD)

lemma element_keys_member:
  "JObj d \<in> set xs \<Longrightarrow> k \<in> fst ` set d \<Longrightarrow> k \<in> set (element_keys (JList xs))"
  by (force simp: element_keys_def)

lemma no_attr_named:
  "k \<in> {''type'', ''from_user'', ''from_chat'', ''from_group'', ''from_me'', ''to_me''}
     \<Longrightarrow> k \<notin> set (EVENT_ATTRS_MAPPING t)"
  by (cases t) (auto simp: MESSAGE_EXTRA_FIELDS_def MSGID_def)

lemma decode_steps:
  assumes "MessageEvent int_str ts_ok raw = Inr ev"
  obtains e1 e2 e3 e4 e5 where "assign_fields raw (init_attrs raw) = Inr e1"
    and "spray_extra_values e1 = Inr e2" and "peer_step int_str e2 = Inr e3"
    and "flags_step e3 = Inr e4" and "kind_step int_str e4 = Inr e5"
    and "datetime_step ts_ok e5 = Inr ev"
  using assms unfolding MessageEvent_def andthen_eq_Inr by blast

lemma assign_fields_known:
  assumes "VkEventType_call (J x) = Some t"
  shows "assign_fields (JList (x # rest)) e =
           Inr (list_to_attr rest (EVENT_ATTRS_MAPPING t) (e(''type'' \<mapsto> EventType t)))"
  using assms by (simp add: assign_fields_def)

lemma setattr_frame:
  assumes "setattr e k v = Inr e'" and "k \<noteq> ''__dict__''" and "n \<noteq> k"
  shows "e' n = e n"
  using assms by (auto simp: setattr_def split: if_splits)

lemma setattrs_frame:
  "setattrs kvs e = Inr e' \<Longrightarrow> ''__dict__'' \<notin> fst ` set kvs \<Longrightarrow> n \<notin> fst ` set kvs
     \<Longrightarrow> e' n = e n"
proof (induction kvs arbitrary: e)
  case Nil
  then show ?case by simp
next
  case (Cons a kvs)
  obtain k v where a: "a = (k, v)" by (cases a)
  from Cons.prems(1) obtain e1 where 1: "setattr e k (J v) = Inr e1"
    and 2: "setattrs kvs e1 = Inr e'"
    by (auto simp: a andthen_eq_Inr)
  from Cons.prems(2,3) have k: "k \<noteq> ''__dict__''" "n \<noteq> k"
    and r: "''__dict__'' \<notin> fst ` set kvs" "n \<notin> fst ` set kvs"
    by (auto simp: a)
  from Cons.IH[OF 2 r] setattr_frame[OF 1 k] show ?case by simp
qed

lemma items_keys: "fst ` set (items d) = fst ` set d"
  by (simp add: items_def image_image)

lemma dict_to_attr_frame:
  assumes "dict_to_attr (J v) e = Inr e'"
  shows "\<exists>d. v = JObj d
           \<and> (''__dict__'' \<notin> fst ` set d \<longrightarrow> (\<forall>k. k \<notin> fst ` set d \<longrightarrow> e' k = e k))"
proof (cases v)
  case (JObj d)
  with assms have "setattrs (items d) e = Inr e'" by simp
  from setattrs_frame[OF this] JObj show ?thesis
    by (simp add: items_keys)
qed (use assms in simp_all)

lemma spray_extra_values_frame:
  assumes "spray_extra_values e1 = Inr e2"
    and "\<And>w. e1 ''extra_values'' = Some w \<Longrightarrow> w = J JNull \<or> (\<exists>j\<in>set xs. w = J j)"
    and "k \<notin> set (element_keys (JList xs))"
    and "''__dict__'' \<notin> set (element_keys (JList xs))"
  shows "e2 k = e1 k"
proof -
  from assms(1) obtain w where w: "e1 ''extra_values'' = Some w"
    and r: "(if truthy_val w then dict_to_attr w e1 else Inr e1) = Inr e2"
    by (auto simp: spray_extra_values_def andthen_eq_Inr getattr_eq_Inr)
  show ?thesis
  proof (cases "truthy_val w")
    case False
    with r show ?thesis by simp
  next
    case True
    with assms(2)[OF w] obtain j where j: "j \<in> set xs" "w = J j" by auto
    from r True j have "dict_to_attr (J j) e1 = Inr e2" by simp
    then obtain d where d: "j = JObj d"
        "''__dict__'' \<notin> fst ` set d \<longrightarrow> (\<forall>k. k \<notin> fst ` set d \<longrightarrow> e2 k = e1 k)"
      using dict_to_attr_frame by blast
    from j d(1) assms(3,4) have "k \<notin> fst ` set d" "''__dict__'' \<notin> fst ` set d"
      using element_keys_member by blast+
    with d(2) show ?thesis by blast
  qed
qed

lemma after_spray:
  assumes "assign_fields (JList (x # rest)) (init_attrs raw) = Inr e1"
    and "spray_extra_values e1 = Inr e2"
    and "VkEventType_call (J x) = Some t"
    and "k \<in> {''type'', ''from_user'', ''from_chat'', ''from_group'', ''from_me'', ''to_me''}"
    and "k \<notin> set (element_keys (JList (x # rest)))"
    and "''__dict__'' \<notin> set (element_keys (JList (x # rest)))"
  shows "e2 k = ((init_attrs raw)(''type'' \<mapsto> EventType t)) k"
proof -
  let ?e0 = "(init_attrs raw)(''type'' \<mapsto> EventType t)"
  from assms(1,3) have e1: "e1 = list_to_attr rest (EVENT_ATTRS_MAPPING t) ?e0"
    by (simp add: assign_fields_known)
  have k1: "e1 k = ?e0 k"
    unfolding e1 using assms(4) by (intro list_to_attr_frame no_attr_named)
  have ev: "w = J JNull \<or> (\<exists>j\<in>set (x # rest). w = J j)" if "e1 ''extra_values'' = Some w" for w
    using list_to_attr_value[OF that[unfolded e1]] by (auto simp: init_attrs_def)
  from spray_extra_values_frame[OF assms(2) ev assms(5) assms(6)] k1 show ?thesis
    by simp
qed

lemma parse_peer_id_cases:
  assumes "parse_peer_id int_str e = Inr e'"
  shows "\<exists>pv p. e ''peer_id'' = Some pv \<and> val_as_int pv = Some p
    \<and> (p < 0 \<longrightarrow> e' = e(''from_group'' \<mapsto> J (JBool True), ''group_id'' \<mapsto> J (JInt (abs p))))
    \<and> (\<not> p < 0 \<and> p > CHAT_START_ID \<longrightarrow>
          (\<exists>w. e' = e(''from_chat'' \<mapsto> J (JBool True),
                       ''chat_id'' \<mapsto> J (JInt (p - CHAT_START_ID)), ''user_id'' := w)))
    \<and> (\<not> p < 0 \<and> \<not> p > CHAT_START_ID \<longrightarrow>
          e' = e(''from_user'' \<mapsto> J (JBool True), ''user_id'' \<mapsto> pv))"
proof -
  from assms obtain pv where pv: "e ''peer_id'' = Some pv"
    unfolding parse_peer_id_def andthen_eq_Inr getattr_eq_Inr by blast
  with assms obtain p where p: "val_as_int pv = Some p"
    by (cases "val_as_int pv") (auto simp: parse_peer_id_def getattr_def)
  let ?e1 = "e(''from_chat'' \<mapsto> J (JBool True), ''chat_id'' \<mapsto> J (JInt (p - CHAT_START_ID)))"
  have chat: "\<exists>w. e' = ?e1(''user_id'' := w)" if c: "\<not> p < 0" "p > CHAT_START_ID"
  proof -
    from assms pv p c have r: "andthen (getattr ?e1 ''extra_values'') (\<lambda>ev.
                   if truthy_val ev then
                     andthen (contains ''from'' ev) (\<lambda>has.
                       if has then
                         andthen (subscript ev ''from'') (\<lambda>v.
                           andthen (py_int int_str v) (\<lambda>i. Inr (?e1(''user_id'' \<mapsto> J (JInt i)))))
                       else Inr ?e1)
                   else Inr ?e1) = Inr e'"
      by (simp add: parse_peer_id_def getattr_def Let_def)
    from r obtain xv where x: "(if truthy_val xv then
                     andthen (contains ''from'' xv) (\<lambda>has.
                       if has then
                         andthen (subscript xv ''from'') (\<lambda>v.
                           andthen (py_int int_str v) (\<lambda>i. Inr (?e1(''user_id'' \<mapsto> J (JInt i)))))
                       else Inr ?e1)
                   else Inr ?e1) = Inr e'"
      unfolding andthen_eq_Inr[of "getattr _ _"] by blast
    have "e' = ?e1 \<or> (\<exists>i. e' = ?e1(''user_id'' \<mapsto> J (JInt i)))"
    proof (cases "truthy_val xv")
      case False
      with x show ?thesis by simp
    next
      case True
      with x obtain has where h: "(if has then
                         andthen (subscript xv ''from'') (\<lambda>v.
                           andthen (py_int int_str v) (\<lambda>i. Inr (?e1(''user_id'' \<mapsto> J (JInt i)))))
                       else Inr ?e1) = Inr e'"
        by (auto simp: andthen_eq_Inr[of "contains _ _"])
      show ?thesis
      proof (cases has)
        case False
        with h show ?thesis by simp
      next
        case True
        with h obtain v i where "Inr (?e1(''user_id'' \<mapsto> J (JInt i))) = (Inr e' :: error + event)"
          by (auto simp: andthen_eq_Inr)
        then show ?thesis by blast
      qed
    qed
    moreover have "?e1 = ?e1(''user_id'' := ?e1 ''user_id'')"
      by (rule fun_upd_triv[symmetric])
    ultimately show ?thesis by metis
  qed
  have g: "e' = e(''from_group'' \<mapsto> J (JBool True), ''group_id'' \<mapsto> J (JInt (abs p)))" if "p < 0"
    using that assms pv p by (simp add: parse_peer_id_def getattr_def)
  have u: "e' = e(''from_user'' \<mapsto> J (JBool True), ''user_id'' \<mapsto> pv)"
    if "\<not> p < 0" "\<not> p > CHAT_START_ID"
    using that assms pv p by (simp add: parse_peer_id_def getattr_def)
  from pv p g chat u show ?thesis by blast
qed

lemma parse_peer_id_frame:
  assumes "parse_peer_id int_str e = Inr e'"
    and "k \<notin> {''from_group'', ''group_id'', ''from_chat'', ''chat_id'', ''from_user'', ''user_id''}"
  shows "e' k = e k"
proof -
  from parse_peer_id_cases[OF assms(1)] obtain pv p where
    c: "p < 0 \<longrightarrow> e' = e(''from_group'' \<mapsto> J (JBool True), ''group_id'' \<mapsto> J (JInt (abs p)))"
      "\<not> p < 0 \<and> p > CHAT_START_ID \<longrightarrow>
          (\<exists>w. e' = e(''from_chat'' \<mapsto> J (JBool True),
                       ''chat_id'' \<mapsto> J (JInt (p - CHAT_START_ID)), ''user_id'' := w))"
      "\<not> p < 0 \<and> \<not> p > CHAT_START_ID \<longrightarrow>
          e' = e(''from_user'' \<mapsto> J (JBool True), ''user_id'' \<mapsto> pv)"
    by blast
  consider "p < 0" | "\<not> p < 0" "p > CHAT_START_ID" | "\<not> p < 0" "\<not> p > CHAT_START_ID"
    by blast
  then show ?thesis
  proof cases
    case 1
    with c(1) assms(2) show ?thesis by simp
  next
    case 2
    with c(2) obtain w where "e' = e(''from_chat'' \<mapsto> J (JBool True),
        ''chat_id'' \<mapsto> J (JInt (p - CHAT_START_ID)), ''user_id'' := w)" by blast
    with assms(2) show ?thesis by simp
  next
    case 3
    with c(3) assms(2) show ?thesis by simp
  qed
qed

lemma parse_peer_id_effect:
  assumes "parse_peer_id int_str e = Inr e'"
    and "e ''from_user'' = Some (J (JBool False))" and "e ''from_chat'' = Some (J (JBool False))"
    and "e ''from_group'' = Some (J (JBool False))"
  shows "\<exists>pv p. e' ''peer_id'' = Some pv \<and> val_as_int pv = Some p
    \<and> (p < 0 \<longrightarrow>
          e' ''from_group'' = Some (J (JBool True)) \<and> e' ''from_chat'' = Some (J (JBool False))
          \<and> e' ''from_user'' = Some (J (JBool False)) \<and> e' ''group_id'' = Some (J (JInt (abs p))))
    \<and> (0 \<le> p \<and> p > CHAT_START_ID \<longrightarrow>
          e' ''from_chat'' = Some (J (JBool True)) \<and> e' ''from_group'' = Some (J (JBool False))
          \<and> e' ''from_user'' = Some (J (JBool False))
          \<and> e' ''chat_id'' = Some (J (JInt (p - CHAT_START_ID))))
    \<and> (0 \<le> p \<and> p \<le> CHAT_START_ID \<longrightarrow>
          e' ''from_user'' = Some (J (JBool True)) \<and> e' ''from_chat'' = Some (J (JBool False))
          \<and> e' ''from_group'' = Some (J (JBool False)) \<and> e' ''user_id'' = Some pv)"
proof -
  from parse_peer_id_cases[OF assms(1)] obtain pv p where pv: "e ''peer_id'' = Some pv"
    and p: "val_as_int pv = Some p" and
    c: "p < 0 \<longrightarrow> e' = e(''from_group'' \<mapsto> J (JBool True), ''group_id'' \<mapsto> J (JInt (abs p)))"
      "\<not> p < 0 \<and> p > CHAT_START_ID \<longrightarrow>
          (\<exists>w. e' = e(''from_chat'' \<mapsto> J (JBool True),
                       ''chat_id'' \<mapsto> J (JInt (p - CHAT_START_ID)), ''user_id'' := w))"
      "\<not> p < 0 \<and> \<not> p > CHAT_START_ID \<longrightarrow>
          e' = e(''from_user'' \<mapsto> J (JBool True), ''user_id'' \<mapsto> pv)"
    by blast
  have pv': "e' ''peer_id'' = Some pv"
    using parse_peer_id_frame[OF assms(1), of "''peer_id''"] pv by simp
  have 1: "e' ''from_group'' = Some (J (JBool True)) \<and> e' ''from_chat'' = Some (J (JBool False))
          \<and> e' ''from_user'' = Some (J (JBool False)) \<and> e' ''group_id'' = Some (J (JInt (abs p)))"
    if "p < 0"
    using that c(1) assms(2,3,4) by simp
  have 2: "e' ''from_chat'' = Some (J (JBool True)) \<and> e' ''from_group'' = Some (J (JBool False))
          \<and> e' ''from_user'' = Some (J (JBool False))
          \<and> e' ''chat_id'' = Some (J (JInt (p - CHAT_START_ID)))"
    if "0 \<le> p" "p > CHAT_START_ID"
  proof -
    from that c(2) obtain w where "e' = e(''from_chat'' \<mapsto> J (JBool True),
        ''chat_id'' \<mapsto> J (JInt (p - CHAT_START_ID)), ''user_id'' := w)" by auto
    with assms(2,3,4) show ?thesis by simp
  qed
  have 3: "e' ''from_user'' = Some (J (JBool True)) \<and> e' ''from_chat'' = Some (J (JBool False))
          \<and> e' ''from_group'' = Some (J (JBool False)) \<and> e' ''user_id'' = Some pv"
    if "0 \<le> p" "p \<le> CHAT_START_ID"
  proof -
    from that c(3) have "e' = e(''from_user'' \<mapsto> J (JBool True), ''user_id'' \<mapsto> pv)" by auto
    with assms(2,3,4) show ?thesis by simp
  qed
  from pv' p 1 2 3 show ?thesis by blast
qed

lemma parse_message_flags_shape:
  assumes "parse_message_flags e = Inr e'"
  shows "\<exists>v. e' = e(''message_flags'' \<mapsto> v)"
proof -
  from assms obtain f where f: "getattr e ''flags'' = Inr f"
    unfolding parse_message_flags_def andthen_eq_Inr by blast
  show ?thesis
  proof (cases "val_as_int f")
    case None
    with assms f show ?thesis by (simp add: parse_message_flags_def)
  next
    case (Some n)
    with assms f have "e' = e(''message_flags'' \<mapsto>
        MessageFlags (set (filter (\<lambda>x. n AND flag_value x \<noteq> 0) all_message_flags)))"
      by (simp add: parse_message_flags_def del: set_filter)
    then show ?thesis by blast
  qed
qed

lemma flags_step_frame:
  assumes "flags_step e = Inr e'" and "k \<noteq> ''message_flags''"
  shows "e' k = e k"
proof -
  from assms(1) obtain t where t: "getattr e ''type'' = Inr t"
    unfolding flags_step_def andthen_eq_Inr by blast
  show ?thesis
  proof (cases "type_in t PARSE_MESSAGE_FLAGS_EVENTS")
    case True
    with assms(1) t have "parse_message_flags e = Inr e'"
      by (simp add: flags_step_def bound_method_eq_Inr)
    from parse_message_flags_shape[OF this] assms(2) show ?thesis by auto
  next
    case False
    with assms(1) t show ?thesis by (simp add: flags_step_def)
  qed
qed

lemma datetime_step_frame:
  assumes "datetime_step ts_ok e = Inr e'" and "k \<noteq> ''datetime''"
  shows "e' k = e k"
proof -
  from assms(1) obtain t where t: "getattr e ''timestamp'' = Inr t"
    unfolding datetime_step_def andthen_eq_Inr by blast
  show ?thesis
  proof (cases "truthy_val t")
    case False
    with assms(1) t show ?thesis by (simp add: datetime_step_def)
  next
    case True
    show ?thesis
    proof (cases "val_as_int t")
      case None
      with assms(1) t True show ?thesis by (simp add: datetime_step_def)
    next
      case (Some n)
      with assms(1) t True have "ts_ok n" and "e' = e(''datetime'' \<mapsto> Datetime n)"
        by (simp_all add: datetime_step_def split: if_splits)
      with assms(2) show ?thesis by simp
    qed
  qed
qed

lemma parse_chat_info_frame:
  assumes "parse_chat_info e = Inr e'" and "k \<noteq> ''info''"
  shows "e' k = e k"
proof -
  from assms(1) obtain t where t: "getattr e ''type_id'' = Inr t"
    unfolding parse_chat_info_def andthen_eq_Inr by blast
  have wrap: "e' k = e k"
    if "andthen (getattr e ''info'') (\<lambda>i. Inr (e(''info'' \<mapsto> Wrapped w i))) = Inr e'" for w
  proof -
    from that obtain i where "e' = e(''info'' \<mapsto> Wrapped w i)"
      unfolding andthen_eq_Inr by auto
    with assms(2) show ?thesis by simp
  qed
  from assms(1) t have "(\<exists>w. andthen (getattr e ''info'') (\<lambda>i. Inr (e(''info'' \<mapsto> Wrapped w i)))
      = Inr e') \<or> e' = e"
    by (simp add: parse_chat_info_def split: if_splits) blast+
  with wrap show ?thesis by blast
qed

lemma parse_peer_flags_frame:
  assumes "parse_peer_flags e = Inr e'" and "k \<noteq> ''peer_flags''"
  shows "e' k = e k"
proof -
  from assms(1) obtain f where f: "getattr e ''flags'' = Inr f"
    unfolding parse_peer_flags_def andthen_eq_Inr by blast
  show ?thesis
  proof (cases "val_as_int f")
    case None
    with assms(1) f show ?thesis by (simp add: parse_peer_flags_def)
  next
    case (Some n)
    with assms(1) f have "e' = e(''peer_flags'' \<mapsto>
        PeerFlags (set (filter (\<lambda>x. n AND peer_flag_value x \<noteq> 0) all_peer_flags)))"
      by (simp add: parse_peer_flags_def del: set_filter)
    with assms(2) show ?thesis by simp
  qed
qed

lemma parse_online_status_frame:
  assumes "parse_online_status e = Inr e'" and "k \<notin> {''platform'', ''offline_type''}"
  shows "e' k = e k"
proof -
  from assms(1) obtain t where t: "getattr e ''type'' = Inr t"
    by (auto simp: parse_online_status_def andthen_eq_Inr)
  have "e' = e \<or> (\<exists>p. e' = e(''platform'' \<mapsto> p)) \<or> (\<exists>p. e' = e(''offline_type'' \<mapsto> p))"
  proof (cases "t = EventType USER_ONLINE")
    case True
    with assms(1) t obtain x n where "val_as_int x = Some n"
      and "(case VkPlatform_call (n AND 0xFF) of None \<Rightarrow> Inr e
            | Some p \<Rightarrow> Inr (e(''platform'' \<mapsto> Platform p))) = (Inr e' :: error + event)"
      by (auto simp: parse_online_status_def andthen_eq_Inr split: option.splits)
    then show ?thesis
      by (cases "VkPlatform_call (n AND 0xFF)") auto
  next
    case False
    show ?thesis
    proof (cases "t = EventType USER_OFFLINE")
      case True
      with assms(1) t False obtain f where
        "(case VkOfflineType_call f of None \<Rightarrow> Inr e
          | Some ot \<Rightarrow> Inr (e(''offline_type'' \<mapsto> OfflineType ot))) = (Inr e' :: error + event)"
        by (auto simp: parse_online_status_def andthen_eq_Inr)
      then show ?thesis
        by (cases "VkOfflineType_call f") auto
    next
      case nf: False
      with assms(1) t False show ?thesis
        by (simp add: parse_online_status_def)
    qed
  qed
  with assms(2) show ?thesis by auto
qed

lemma direction_shape:
  assumes "direction e = Inr e'"
  shows "e' = e \<or> e' = e(''from_me'' \<mapsto> J (JBool True)) \<or> e' = e(''to_me'' \<mapsto> J (JBool True))"
proof -
  from assms obtain t where t: "getattr e ''type'' = Inr t"
    unfolding direction_def andthen_eq_Inr by blast
  show ?thesis
  proof (cases "t = EventType MESSAGE_NEW")
    case False
    with assms t show ?thesis by (simp add: direction_def)
  next
    case True
    with assms t obtain f where f: "getattr e ''flags'' = Inr f"
      by (auto simp: direction_def andthen_eq_Inr)
    show ?thesis
    proof (cases "val_as_int f")
      case None
      with assms t True f show ?thesis by (simp add: direction_def)
    next
      case (Some n)
      with assms t True f show ?thesis
        by (cases "n AND flag_value OUTBOX \<noteq> 0") (simp_all add: direction_def)
    qed
  qed
qed

lemma direction_frame:
  assumes "direction e = Inr e'" and "k \<notin> {''from_me'', ''to_me''}"
  shows "e' k = e k"
  using direction_shape[OF assms(1)] assms(2) by auto

lemma unescape_shape:
  assumes "unescape e = Inr e'"
  shows "\<exists>a b. e' = e(''text'' \<mapsto> a, ''message'' \<mapsto> b)"
proof -
  from assms obtain tx where tx: "getattr e ''text'' = Inr tx"
    unfolding unescape_def andthen_eq_Inr by blast
  show ?thesis
  proof (cases "\<exists>s. tx = J (JStr s)")
    case True
    then obtain s where "tx = J (JStr s)" by blast
    with assms tx have "e' = e(''text'' \<mapsto> J (JStr (replace ''<br>'' [CHR 0x0A] s)),
        ''message'' \<mapsto> J (JStr
           (replace ''&amp;'' ''&''
             (replace ''&quot;'' [CHR 0x22]
               (replace ''&gt;'' ''>''
                 (replace ''&lt;'' ''<'' (replace ''<br>'' [CHR 0x0A] s)))))))"
      by (simp add: unescape_def Let_def)
    then show ?thesis by blast
  next
    case False
    have "(case tx of J (JStr s) \<Rightarrow> f s | _ \<Rightarrow> Inl AttributeError) = Inl AttributeError"
      for f :: "string \<Rightarrow> error + event"
    proof (cases tx)
      case (J v)
      with False show ?thesis by (cases v) simp_all
    qed simp_all
    with assms tx show ?thesis
      by (simp add: unescape_def Let_def)
  qed
qed

lemma unescape_frame:
  assumes "unescape e = Inr e'" and "k \<notin> {''text'', ''message''}"
  shows "e' k = e k"
  using unescape_shape[OF assms(1)] assms(2) by auto

lemma parse_message_frame:
  assumes "parse_message e = Inr e'" and "k \<notin> {''from_me'', ''to_me'', ''text'', ''message''}"
  shows "e' k = e k"
proof -
  from assms(1) obtain e1 where "direction e = Inr e1" "unescape e1 = Inr e'"
    unfolding parse_message_def andthen_eq_Inr by blast
  from direction_frame[OF this(1), of k] unescape_frame[OF this(2), of k] assms(2)
  show ?thesis by simp
qed

lemma kind_step_chat_update:
  assumes "kind_step int_str e = Inr e'" and "getattr e ''type'' = Inr (EventType CHAT_UPDATE)"
  shows "\<exists>e1 v. parse_chat_info e = Inr e1 \<and> e' = e1(''update_type'' \<mapsto> v)"
proof -
  from assms have "andthen (bound_method e ''_parse_chat_info'' parse_chat_info) (\<lambda>e1.
           andthen (getattr e1 ''type_id'') (\<lambda>ti.
             case VkChatEventType_call ti of
               None \<Rightarrow> Inr (e1(''update_type'' \<mapsto> ti))
             | Some u \<Rightarrow> Inr (e1(''update_type'' \<mapsto> ChatEventType u)))) = Inr e'"
    by (simp add: kind_step_def)
  then obtain e1 ti where 1: "parse_chat_info e = Inr e1"
    and 2: "(case VkChatEventType_call ti of
               None \<Rightarrow> Inr (e1(''update_type'' \<mapsto> ti))
             | Some u \<Rightarrow> Inr (e1(''update_type'' \<mapsto> ChatEventType u))) = (Inr e' :: error + event)"
    unfolding andthen_eq_Inr bound_method_eq_Inr by blast
  from 2 have "\<exists>v. e' = e1(''update_type'' \<mapsto> v)"
    by (cases "VkChatEventType_call ti") auto
  with 1 show ?thesis by blast
qed

lemma kind_step_online:
  assumes "kind_step int_str e = Inr e'" and "getattr e ''type'' = Inr t"
    and "t \<noteq> EventType CHAT_UPDATE" and "t \<noteq> EventType NOTIFICATION_SETTINGS_UPDATE"
    and "t \<noteq> EventType PEER_FLAGS_REPLACE" and "\<not> type_in t [MESSAGE_NEW, MESSAGE_EDIT]"
    and "type_in t [USER_ONLINE, USER_OFFLINE]"
  shows "\<exists>n. parse_online_status (e(''user_id'' \<mapsto> J (JInt n))) = Inr e'"
proof -
  from assms have "andthen (getattr e ''user_id'') (\<lambda>u.
           case val_as_int u of
             None \<Rightarrow> Inl TypeError
           | Some n \<Rightarrow>
               bound_method (e(''user_id'' \<mapsto> J (JInt (abs n))))
                 ''_parse_online_status'' parse_online_status) = Inr e'"
    by (simp add: kind_step_def)
  then obtain u where "(case val_as_int u of
             None \<Rightarrow> Inl TypeError
           | Some n \<Rightarrow>
               bound_method (e(''user_id'' \<mapsto> J (JInt (abs n))))
                 ''_parse_online_status'' parse_online_status) = Inr e'"
    unfolding andthen_eq_Inr by blast
  then show ?thesis by (cases "val_as_int u") (auto simp: bound_method_eq_Inr)
qed

lemma kind_step_voice:
  assumes "kind_step int_str e = Inr e'" and "getattr e ''type'' = Inr (EventType USER_RECORDING_VOICE)"
  shows "\<exists>u. e ''user_id'' = Some u \<and>
           (e' = e \<and> (\<forall>xs. u \<noteq> J (JList xs)) \<or> (\<exists>x xs. u = J (JList (x # xs)) \<and> e' = e(''user_id'' \<mapsto> J x)))"
proof -
  have "\<not> type_in (EventType USER_RECORDING_VOICE) [MESSAGE_NEW, MESSAGE_EDIT]"
      "\<not> type_in (EventType USER_RECORDING_VOICE) [USER_ONLINE, USER_OFFLINE]"
    by (simp_all add: type_in_member)
  with assms have "andthen (getattr e ''user_id'') (\<lambda>u.
           case u of
             J (JList []) \<Rightarrow> Inl IndexError
           | J (JList (x # xs)) \<Rightarrow> Inr (e(''user_id'' \<mapsto> J x))
           | _ \<Rightarrow> Inr e) = Inr e'"
    by (simp add: kind_step_def)
  then obtain u where u: "e ''user_id'' = Some u" and r: "(case u of
             J (JList []) \<Rightarrow> Inl IndexError
           | J (JList (x # xs)) \<Rightarrow> Inr (e(''user_id'' \<mapsto> J x))
           | _ \<Rightarrow> Inr e) = (Inr e' :: error + event)"
    unfolding andthen_eq_Inr getattr_eq_Inr by blast
  have "e' = e \<and> (\<forall>xs. u \<noteq> J (JList xs)) \<or> (\<exists>x xs. u = J (JList (x # xs)) \<and> e' = e(''user_id'' \<mapsto> J x))"
  proof (cases u)
    case (J v)
    show ?thesis
    proof (cases v)
      case (JList ys)
      with r J show ?thesis by (cases ys) auto
    qed (use r J in auto)
  qed (use r in auto)
  with u show ?thesis by blast
qed

lemma kind_step_frame:
  assumes "kind_step int_str e = Inr e'"
    and "e ''type'' \<noteq> Some (EventType NOTIFICATION_SETTINGS_UPDATE)"
    and "k \<notin> {''info'', ''update_type'', ''peer_flags'', ''from_me'', ''to_me'', ''text'',
              ''message'', ''user_id'', ''platform'', ''offline_type''}"
  shows "e' k = e k"
proof -
  from assms(1) obtain t where g: "getattr e ''type'' = Inr t"
    unfolding kind_step_def andthen_eq_Inr by blast
  with assms(2) have nn: "t \<noteq> EventType NOTIFICATION_SETTINGS_UPDATE"
    by (auto simp: getattr_eq_Inr)
  consider (chat) "t = EventType CHAT_UPDATE"
    | (peer) "t \<noteq> EventType CHAT_UPDATE" "t = EventType PEER_FLAGS_REPLACE"
    | (msg) "t \<noteq> EventType CHAT_UPDATE" "t \<noteq> EventType PEER_FLAGS_REPLACE"
        "type_in t [MESSAGE_NEW, MESSAGE_EDIT]"
    | (online) "t \<noteq> EventType CHAT_UPDATE" "t \<noteq> EventType PEER_FLAGS_REPLACE"
        "\<not> type_in t [MESSAGE_NEW, MESSAGE_EDIT]" "type_in t [USER_ONLINE, USER_OFFLINE]"
    | (voice) "t = EventType USER_RECORDING_VOICE"
    | (none) "t \<noteq> EventType CHAT_UPDATE" "t \<noteq> EventType PEER_FLAGS_REPLACE"
        "\<not> type_in t [MESSAGE_NEW, MESSAGE_EDIT]" "\<not> type_in t [USER_ONLINE, USER_OFFLINE]"
        "t \<noteq> EventType USER_RECORDING_VOICE"
    by blast
  then show ?thesis
  proof cases
    case chat
    from kind_step_chat_update[OF assms(1) g[unfolded chat]] obtain e1 v
      where 1: "parse_chat_info e = Inr e1" and 2: "e' = e1(''update_type'' \<mapsto> v)" by blast
    from parse_chat_info_frame[OF 1, of k] assms(3) have "e1 k = e k" by simp
    moreover from 2 assms(3) have "e' k = e1 k" by simp
    ultimately show ?thesis by simp
  next
    case peer
    with assms(1) g nn have "parse_peer_flags e = Inr e'"
      by (simp add: kind_step_def bound_method_eq_Inr)
    from parse_peer_flags_frame[OF this, of k] assms(3) show ?thesis by simp
  next
    case msg
    with assms(1) g nn have "parse_message e = Inr e'"
      by (simp add: kind_step_def bound_method_eq_Inr)
    from parse_message_frame[OF this, of k] assms(3) show ?thesis by simp
  next
    case online
    from kind_step_online[OF assms(1) g online(1) nn online(2,3,4)] obtain n
      where "parse_online_status (e(''user_id'' \<mapsto> J (JInt n))) = Inr e'" by blast
    from parse_online_status_frame[OF this, of k] assms(3) show ?thesis by simp
  next
    case voice
    from kind_step_voice[OF assms(1) g[unfolded voice]] assms(3) show ?thesis by auto
  next
    case none
    with assms(1) g nn show ?thesis
      by (simp add: kind_step_def)
  qed
qed

lemma kind_step_user_id:
  assumes "kind_step int_str e = Inr e'"
    and "e ''type'' = Some (EventType t)" and "''peer_id'' \<in> set (EVENT_ATTRS_MAPPING t)"
    and "e ''user_id'' = Some u" and "val_as_int u = Some n"
  shows "e' ''user_id'' = Some u"
proof -
  have g: "getattr e ''type'' = Inr (EventType t)" using assms(2) by (simp add: getattr_def)
  have u: "\<And>xs. u \<noteq> J (JList xs)" using assms(5) by auto
  from assms(3) consider "t = CHAT_UPDATE" | "t = PEER_FLAGS_REPLACE" | "t \<in> {MESSAGE_NEW, MESSAGE_EDIT}"
    | "t = USER_RECORDING_VOICE"
    | "t \<in> {MESSAGE_FLAGS_REPLACE, MESSAGE_FLAGS_SET, MESSAGE_FLAGS_RESET,
         READ_ALL_INCOMING_MESSAGES, READ_ALL_OUTGOING_MESSAGES, PEER_FLAGS_RESET, PEER_FLAGS_SET,
         PEER_DELETE_ALL, PEER_RESTORE_ALL}"
    by (cases t) (simp_all add: MESSAGE_EXTRA_FIELDS_def MSGID_def)
  then show ?thesis
  proof cases
    case 1
    from kind_step_chat_update[OF assms(1) g[unfolded 1]] obtain e1 v
      where 1: "parse_chat_info e = Inr e1" and 2: "e' = e1(''update_type'' \<mapsto> v)" by blast
    from parse_chat_info_frame[OF 1, of "''user_id''"] have "e1 ''user_id'' = e ''user_id''" by simp
    moreover from 2 have "e' ''user_id'' = e1 ''user_id''" by simp
    ultimately show ?thesis using assms(4) by simp
  next
    case 2
    with assms(1) g have "parse_peer_flags e = Inr e'"
      by (simp add: kind_step_def bound_method_eq_Inr)
    from parse_peer_flags_frame[OF this, of "''user_id''"] assms(4) show ?thesis by simp
  next
    case 3
    then have "type_in (EventType t) [MESSAGE_NEW, MESSAGE_EDIT]" "t \<noteq> CHAT_UPDATE"
        "t \<noteq> NOTIFICATION_SETTINGS_UPDATE" "t \<noteq> PEER_FLAGS_REPLACE"
      by (auto simp: type_in_member)
    with assms(1) g have "parse_message e = Inr e'"
      by (simp add: kind_step_def bound_method_eq_Inr)
    from parse_message_frame[OF this, of "''user_id''"] assms(4) show ?thesis by simp
  next
    case 4
    from kind_step_voice[OF assms(1) g[unfolded 4]] assms(4) u show ?thesis by auto
  next
    case 5
    then have "\<not> type_in (EventType t) [MESSAGE_NEW, MESSAGE_EDIT]"
        "\<not> type_in (EventType t) [USER_ONLINE, USER_OFFLINE]" "t \<noteq> CHAT_UPDATE"
        "t \<noteq> NOTIFICATION_SETTINGS_UPDATE" "t \<noteq> PEER_FLAGS_REPLACE" "t \<noteq> USER_RECORDING_VOICE"
      by (auto simp: type_in_member)
    with assms(1) g have "e' = e"
      by (simp add: kind_step_def)
    with assms(4) show ?thesis by simp
  qed
qed

lemma peer_kind_in_parse:
  "''peer_id'' \<in> set (EVENT_ATTRS_MAPPING t) \<Longrightarrow> t \<in> set PARSE_PEER_ID_EVENTS"
  by (simp add: PARSE_PEER_ID_EVENTS_def all_event_types_complete)

lemma init_attrs_flags [simp]:
  "init_attrs raw ''from_user'' = Some (J (JBool False))"
  "init_attrs raw ''from_chat'' = Some (J (JBool False))"
  "init_attrs raw ''from_group'' = Some (J (JBool False))"
  "init_attrs raw ''from_me'' = Some (J (JBool False))"
  "init_attrs raw ''to_me'' = Some (J (JBool False))"
  by (simp_all add: init_attrs_def)

lemma listed_peer_classification:
  assumes dec: "MessageEvent int_str ts_ok (JList (x # rest)) = Inr ev"
    and call: "VkEventType_call (J x) = Some t"
    and kind: "''peer_id'' \<in> set (EVENT_ATTRS_MAPPING t)"
    and keys: "set (element_keys (JList (x # rest)))
                 \<inter> {''type'', ''from_user'', ''from_chat'', ''from_group'', ''__dict__''} = {}"
    and peer: "ev ''peer_id'' = Some pv" and int: "val_as_int pv = Some p"
  shows "(p < 0 \<longrightarrow>
            ev ''from_group'' = Some (J (JBool True)) \<and> ev ''from_chat'' = Some (J (JBool False))
            \<and> ev ''from_user'' = Some (J (JBool False)) \<and> ev ''group_id'' = Some (J (JInt (abs p))))
       \<and> (0 \<le> p \<and> p > CHAT_START_ID \<longrightarrow>
            ev ''from_chat'' = Some (J (JBool True)) \<and> ev ''from_group'' = Some (J (JBool False))
            \<and> ev ''from_user'' = Some (J (JBool False))
            \<and> ev ''chat_id'' = Some (J (JInt (p - CHAT_START_ID))))
       \<and> (0 \<le> p \<and> p \<le> CHAT_START_ID \<longrightarrow>
            ev ''from_user'' = Some (J (JBool True)) \<and> ev ''from_chat'' = Some (J (JBool False))
            \<and> ev ''from_group'' = Some (J (JBool False)) \<and> ev ''user_id'' = Some pv)"
proof -
  let ?raw = "JList (x # rest)"
  from dec obtain e1 e2 e3 e4 e5 where s1: "assign_fields ?raw (init_attrs ?raw) = Inr e1"
    and s2: "spray_extra_values e1 = Inr e2" and s3: "peer_step int_str e2 = Inr e3"
    and s4: "flags_step e3 = Inr e4" and s5: "kind_step int_str e4 = Inr e5"
    and s6: "datetime_step ts_ok e5 = Inr ev"
    by (rule decode_steps)
  from keys have nk: "''type'' \<notin> set (element_keys ?raw)"
      "''from_user'' \<notin> set (element_keys ?raw)" "''from_chat'' \<notin> set (element_keys ?raw)"
      "''from_group'' \<notin> set (element_keys ?raw)"
    and nd: "''__dict__'' \<notin> set (element_keys ?raw)"
    by simp_all
  have ty2: "e2 ''type'' = Some (EventType t)"
    using after_spray[OF s1 s2 call _ nk(1) nd] by simp
  have fu2: "e2 ''from_user'' = Some (J (JBool False))"
    using after_spray[OF s1 s2 call _ nk(2) nd] by simp
  have fc2: "e2 ''from_chat'' = Some (J (JBool False))"
    using after_spray[OF s1 s2 call _ nk(3) nd] by simp
  have fg2: "e2 ''from_group'' = Some (J (JBool False))"
    using after_spray[OF s1 s2 call _ nk(4) nd] by simp
  have pp: "parse_peer_id int_str e2 = Inr e3"
    using s3 ty2 peer_kind_in_parse[OF kind]
    by (simp add: peer_step_def getattr_def type_in_member bound_method_eq_Inr)
  have ty3: "e3 ''type'' = Some (EventType t)"
    using parse_peer_id_frame[OF pp, of "''type''"] ty2 by simp
  have ty4: "e4 ''type'' = Some (EventType t)"
    using flags_step_frame[OF s4, of "''type''"] ty3 by simp
  have nn: "e4 ''type'' \<noteq> Some (EventType NOTIFICATION_SETTINGS_UPDATE)"
    using ty4 kind by auto
  have keep: "ev k = e3 k"
    if "k \<noteq> ''message_flags''" "k \<noteq> ''datetime''"
      "k \<notin> {''info'', ''update_type'', ''peer_flags'', ''from_me'', ''to_me'', ''text'',
              ''message'', ''user_id'', ''platform'', ''offline_type''}"
    for k
    using flags_step_frame[OF s4 that(1)] kind_step_frame[OF s5 nn that(3)]
      datetime_step_frame[OF s6 that(2)] by simp
  have k_fu: "ev ''from_user'' = e3 ''from_user''" by (rule keep) simp_all
  have k_fc: "ev ''from_chat'' = e3 ''from_chat''" by (rule keep) simp_all
  have k_fg: "ev ''from_group'' = e3 ''from_group''" by (rule keep) simp_all
  have k_gi: "ev ''group_id'' = e3 ''group_id''" by (rule keep) simp_all
  have k_ci: "ev ''chat_id'' = e3 ''chat_id''" by (rule keep) simp_all
  have k_pi: "ev ''peer_id'' = e3 ''peer_id''" by (rule keep) simp_all
  from parse_peer_id_effect[OF pp fu2 fc2 fg2] obtain pv3 p3 where
    pv3: "e3 ''peer_id'' = Some pv3" and p3: "val_as_int pv3 = Some p3"
    and g: "p3 < 0 \<longrightarrow>
          e3 ''from_group'' = Some (J (JBool True)) \<and> e3 ''from_chat'' = Some (J (JBool False))
          \<and> e3 ''from_user'' = Some (J (JBool False)) \<and> e3 ''group_id'' = Some (J (JInt (abs p3)))"
    and c: "0 \<le> p3 \<and> p3 > CHAT_START_ID \<longrightarrow>
          e3 ''from_chat'' = Some (J (JBool True)) \<and> e3 ''from_group'' = Some (J (JBool False))
          \<and> e3 ''from_user'' = Some (J (JBool False))
          \<and> e3 ''chat_id'' = Some (J (JInt (p3 - CHAT_START_ID)))"
    and u: "0 \<le> p3 \<and> p3 \<le> CHAT_START_ID \<longrightarrow>
          e3 ''from_user'' = Some (J (JBool True)) \<and> e3 ''from_chat'' = Some (J (JBool False))
          \<and> e3 ''from_group'' = Some (J (JBool False)) \<and> e3 ''user_id'' = Some pv3"
    by blast
  from k_pi pv3 peer have same: "pv3 = pv" by simp
  with p3 int have samep: "p3 = p" by simp
  have user: "ev ''user_id'' = Some pv" if "0 \<le> p" "p \<le> CHAT_START_ID"
  proof -
    from that u same samep have 3: "e3 ''user_id'' = Some pv" by simp
    have 4: "e4 ''user_id'' = Some pv"
      using flags_step_frame[OF s4, of "''user_id''"] 3 by simp
    have 5: "e5 ''user_id'' = Some pv"
      using kind_step_user_id[OF s5 ty4 kind 4 int] .
    show ?thesis
      using datetime_step_frame[OF s6, of "''user_id''"] 5 by simp
  qed
  show ?thesis
    using g c u user same samep k_fu k_fc k_fg k_gi k_ci
    by simp
qed

lemma notification_not_listed:
  "NOTIFICATION_SETTINGS_UPDATE \<notin> set PARSE_PEER_ID_EVENTS"
  "NOTIFICATION_SETTINGS_UPDATE \<notin> set PARSE_MESSAGE_FLAGS_EVENTS"
  by (simp_all add: PARSE_PEER_ID_EVENTS_def PARSE_MESSAGE_FLAGS_EVENTS_def)

lemma kind_step_notification:
  assumes "kind_step int_str e = Inr e'"
    and "e ''type'' = Some (EventType NOTIFICATION_SETTINGS_UPDATE)"
  shows "\<exists>vs e1. e ''values'' = Some vs \<and> dict_to_attr vs e = Inr e1
           \<and> parse_peer_id int_str e1 = Inr e'"
proof -
  from assms have "andthen (getattr e ''values'') (\<lambda>vs.
           andthen (bound_method e ''_dict_to_attr'' (dict_to_attr vs)) (\<lambda>e1.
             bound_method e1 ''_parse_peer_id'' (parse_peer_id int_str))) = Inr e'"
    by (simp add: kind_step_def getattr_def)
  then show ?thesis
    unfolding andthen_eq_Inr getattr_eq_Inr bound_method_eq_Inr by blast
qed

lemma notification_peer_classification:
  assumes dec: "MessageEvent int_str ts_ok (JList (x # rest)) = Inr ev"
    and call: "VkEventType_call (J x) = Some NOTIFICATION_SETTINGS_UPDATE"
    and keys: "set (element_keys (JList (x # rest)))
                 \<inter> {''type'', ''from_user'', ''from_chat'', ''from_group'', ''__dict__''} = {}"
    and peer: "ev ''peer_id'' = Some pv" and int: "val_as_int pv = Some p"
  shows "(p < 0 \<longrightarrow>
            ev ''from_group'' = Some (J (JBool True)) \<and> ev ''from_chat'' = Some (J (JBool False))
            \<and> ev ''from_user'' = Some (J (JBool False)) \<and> ev ''group_id'' = Some (J (JInt (abs p))))
       \<and> (0 \<le> p \<and> p > CHAT_START_ID \<longrightarrow>
            ev ''from_chat'' = Some (J (JBool True)) \<and> ev ''from_group'' = Some (J (JBool False))
            \<and> ev ''from_user'' = Some (J (JBool False))
            \<and> ev ''chat_id'' = Some (J (JInt (p - CHAT_START_ID))))
       \<and> (0 \<le> p \<and> p \<le> CHAT_START_ID \<longrightarrow>
            ev ''from_user'' = Some (J (JBool True)) \<and> ev ''from_chat'' = Some (J (JBool False))
            \<and> ev ''from_group'' = Some (J (JBool False)) \<and> ev ''user_id'' = Some pv)"
proof -
  let ?raw = "JList (x # rest)"
  let ?e0 = "(init_attrs ?raw)(''type'' \<mapsto> EventType NOTIFICATION_SETTINGS_UPDATE)"
  from dec obtain e1 e2 e3 e4 e5 where s1: "assign_fields ?raw (init_attrs ?raw) = Inr e1"
    and s2: "spray_extra_values e1 = Inr e2" and s3: "peer_step int_str e2 = Inr e3"
    and s4: "flags_step e3 = Inr e4" and s5: "kind_step int_str e4 = Inr e5"
    and s6: "datetime_step ts_ok e5 = Inr ev"
    by (rule decode_steps)
  from keys have nk: "''from_user'' \<notin> set (element_keys ?raw)"
      "''from_chat'' \<notin> set (element_keys ?raw)" "''from_group'' \<notin> set (element_keys ?raw)"
    and nd: "''__dict__'' \<notin> set (element_keys ?raw)"
    by simp_all
  from s1 call have e1: "e1 = list_to_attr rest [''values''] ?e0"
    by (simp add: assign_fields_known)
  have other: "e1 k = ?e0 k" if "k \<noteq> ''values''" for k
    unfolding e1 using that by (intro list_to_attr_frame) simp
  have "e1 ''extra_values'' = Some (J JNull)"
    using other[of "''extra_values''"] by (simp add: init_attrs_def)
  with s2 have e2: "e2 = e1"
    by (simp add: spray_extra_values_def getattr_def)
  have ty2: "e2 ''type'' = Some (EventType NOTIFICATION_SETTINGS_UPDATE)"
    unfolding e2 using other[of "''type''"] by simp
  with s3 have e3: "e3 = e2"
    by (simp add: peer_step_def getattr_def type_in_member notification_not_listed)
  from s4 ty2 have e4: "e4 = e1"
    unfolding e3 e2
    by (simp add: flags_step_def getattr_def type_in_member notification_not_listed)
  from kind_step_notification[OF s5] ty2 obtain vs e4' where vs: "e1 ''values'' = Some vs"
    and d: "dict_to_attr vs e1 = Inr e4'" and pp: "parse_peer_id int_str e4' = Inr e5"
    unfolding e4 e2 by blast
  from list_to_attr_value[OF vs[unfolded e1]] obtain j where j: "j \<in> set rest" "vs = J j"
    by (auto simp: init_attrs_def)
  from dict_to_attr_frame[OF d[unfolded j(2)]] obtain dd where dd: "j = JObj dd"
    and fr: "''__dict__'' \<notin> fst ` set dd \<longrightarrow> (\<forall>k. k \<notin> fst ` set dd \<longrightarrow> e4' k = e1 k)"
    by blast
  have sub: "k \<in> set (element_keys ?raw)" if "k \<in> fst ` set dd" for k
    using element_keys_member[of dd "x # rest" k] that j(1) dd by simp
  have keep: "e4' k = e1 k" if "k \<notin> set (element_keys ?raw)" for k
    using fr that nd sub by blast
  have fu: "e4' ''from_user'' = Some (J (JBool False))"
    using keep[OF nk(1)] other[of "''from_user''"] by simp
  have fc: "e4' ''from_chat'' = Some (J (JBool False))"
    using keep[OF nk(2)] other[of "''from_chat''"] by simp
  have fg: "e4' ''from_group'' = Some (J (JBool False))"
    using keep[OF nk(3)] other[of "''from_group''"] by simp
  from parse_peer_id_effect[OF pp fu fc fg] obtain pv5 p5 where
    pv5: "e5 ''peer_id'' = Some pv5" and p5: "val_as_int pv5 = Some p5"
    and g: "p5 < 0 \<longrightarrow>
          e5 ''from_group'' = Some (J (JBool True)) \<and> e5 ''from_chat'' = Some (J (JBool False))
          \<and> e5 ''from_user'' = Some (J (JBool False)) \<and> e5 ''group_id'' = Some (J (JInt (abs p5)))"
    and c: "0 \<le> p5 \<and> p5 > CHAT_START_ID \<longrightarrow>
          e5 ''from_chat'' = Some (J (JBool True)) \<and> e5 ''from_group'' = Some (J (JBool False))
          \<and> e5 ''from_user'' = Some (J (JBool False))
          \<and> e5 ''chat_id'' = Some (J (JInt (p5 - CHAT_START_ID)))"
    and u: "0 \<le> p5 \<and> p5 \<le> CHAT_START_ID \<longrightarrow>
          e5 ''from_user'' = Some (J (JBool True)) \<and> e5 ''from_chat'' = Some (J (JBool False))
          \<and> e5 ''from_group'' = Some (J (JBool False)) \<and> e5 ''user_id'' = Some pv5"
    by blast
  note last = datetime_step_frame[OF s6]
  have k_fu: "ev ''from_user'' = e5 ''from_user''" by (rule last) simp
  have k_fc: "ev ''from_chat'' = e5 ''from_chat''" by (rule last) simp
  have k_fg: "ev ''from_group'' = e5 ''from_group''" by (rule last) simp
  have k_gi: "ev ''group_id'' = e5 ''group_id''" by (rule last) simp
  have k_ci: "ev ''chat_id'' = e5 ''chat_id''" by (rule last) simp
  have k_ui: "ev ''user_id'' = e5 ''user_id''" by (rule last) simp
  have k_pi: "ev ''peer_id'' = e5 ''peer_id''" by (rule last) simp
  from k_pi pv5 peer have same: "pv5 = pv" by simp
  with p5 int have samep: "p5 = p" by simp
  show ?thesis
    using g c u same samep k_fu k_fc k_fg k_gi k_ci k_ui
    by simp
qed

lemma array_peer_classification:
  assumes "MessageEvent int_str ts_ok (JList (x # rest)) = Inr ev"
    and "VkEventType_call (J x) = Some t"
    and "''peer_id'' \<in> set (EVENT_ATTRS_MAPPING t) \<or> t = NOTIFICATION_SETTINGS_UPDATE"
    and "set (element_keys (JList (x # rest)))
           \<inter> {''type'', ''from_user'', ''from_chat'', ''from_group'', ''__dict__''} = {}"
    and "ev ''peer_id'' = Some pv" and "val_as_int pv = Some p"
  shows "(p < 0 \<longrightarrow>
            ev ''from_group'' = Some (J (JBool True)) \<and> ev ''from_chat'' = Some (J (JBool False))
            \<and> ev ''from_user'' = Some (J (JBool False)) \<and> ev ''group_id'' = Some (J (JInt (abs p))))
       \<and> (0 \<le> p \<and> p > CHAT_START_ID \<longrightarrow>
            ev ''from_chat'' = Some (J (JBool True)) \<and> ev ''from_group'' = Some (J (JBool False))
            \<and> ev ''from_user'' = Some (J (JBool False))
            \<and> ev ''chat_id'' = Some (J (JInt (p - CHAT_START_ID))))
       \<and> (0 \<le> p \<and> p \<le> CHAT_START_ID \<longrightarrow>
            ev ''from_user'' = Some (J (JBool True)) \<and> ev ''from_chat'' = Some (J (JBool False))
            \<and> ev ''from_group'' = Some (J (JBool False)) \<and> ev ''user_id'' = Some pv)"
proof (cases "t = NOTIFICATION_SETTINGS_UPDATE")
  case True
  from notification_peer_classification[OF assms(1) assms(2)[unfolded True] assms(4,5,6)]
  show ?thesis .
next
  case False
  with assms(3) have "''peer_id'' \<in> set (EVENT_ATTRS_MAPPING t)" by simp
  from listed_peer_classification[OF assms(1,2) this assms(4,5,6)]
  show ?thesis .
qed

lemma direction_effect:
  assumes "direction e = Inr e'" and "e ''type'' = Some (EventType MESSAGE_NEW)"
  shows "\<exists>fv f. e ''flags'' = Some fv \<and> val_as_int fv = Some f
    \<and> e' = (if f AND flag_value OUTBOX \<noteq> 0 then e(''from_me'' \<mapsto> J (JBool True))
            else e(''to_me'' \<mapsto> J (JBool True)))"
proof -
  have t: "getattr e ''type'' = Inr (EventType MESSAGE_NEW)"
    using assms(2) by (simp add: getattr_def)
  with assms(1) obtain fv where fv: "e ''flags'' = Some fv"
    by (auto simp: direction_def andthen_eq_Inr getattr_eq_Inr)
  then have g: "getattr e ''flags'' = Inr fv" by (simp add: getattr_def)
  show ?thesis
  proof (cases "val_as_int fv")
    case None
    with assms(1) t g show ?thesis by (simp add: direction_def)
  next
    case (Some f)
    with assms(1) t g have "e' = (if f AND flag_value OUTBOX \<noteq> 0
        then e(''from_me'' \<mapsto> J (JBool True)) else e(''to_me'' \<mapsto> J (JBool True)))"
      by (simp add: direction_def split: if_splits)
    with fv Some show ?thesis by blast
  qed
qed

lemma array_direction:
  assumes dec: "MessageEvent int_str ts_ok (JList (x # rest)) = Inr ev"
    and call: "VkEventType_call (J x) = Some MESSAGE_NEW"
    and keys: "set (element_keys (JList (x # rest)))
                 \<inter> {''type'', ''from_me'', ''to_me'', ''__dict__''} = {}"
    and flags: "ev ''flags'' = Some fv" and int: "val_as_int fv = Some f"
  shows "ev ''from_me'' = Some (J (JBool (f AND flag_value OUTBOX \<noteq> 0)))
       \<and> ev ''to_me'' = Some (J (JBool (f AND flag_value OUTBOX = 0)))"
proof -
  let ?raw = "JList (x # rest)"
  from dec obtain e1 e2 e3 e4 e5 where s1: "assign_fields ?raw (init_attrs ?raw) = Inr e1"
    and s2: "spray_extra_values e1 = Inr e2" and s3: "peer_step int_str e2 = Inr e3"
    and s4: "flags_step e3 = Inr e4" and s5: "kind_step int_str e4 = Inr e5"
    and s6: "datetime_step ts_ok e5 = Inr ev"
    by (rule decode_steps)
  from keys have nk: "''type'' \<notin> set (element_keys ?raw)"
      "''from_me'' \<notin> set (element_keys ?raw)" "''to_me'' \<notin> set (element_keys ?raw)"
    and nd: "''__dict__'' \<notin> set (element_keys ?raw)"
    by simp_all
  have ty2: "e2 ''type'' = Some (EventType MESSAGE_NEW)"
    using after_spray[OF s1 s2 call _ nk(1) nd] by simp
  have fm2: "e2 ''from_me'' = Some (J (JBool False))"
    using after_spray[OF s1 s2 call _ nk(2) nd] by simp
  have tm2: "e2 ''to_me'' = Some (J (JBool False))"
    using after_spray[OF s1 s2 call _ nk(3) nd] by simp
  have pp: "parse_peer_id int_str e2 = Inr e3"
    using s3 ty2
    by (simp add: peer_step_def getattr_def type_in_member PARSE_PEER_ID_EVENTS_def
          all_event_types_def MESSAGE_EXTRA_FIELDS_def MSGID_def bound_method_eq_Inr)
  have to4: "e4 k = e2 k" if "k \<in> {''type'', ''from_me'', ''to_me''}" for k
  proof -
    from that have "e3 k = e2 k" by (intro parse_peer_id_frame[OF pp]) auto
    moreover from that have "e4 k = e3 k" by (intro flags_step_frame[OF s4]) auto
    ultimately show ?thesis by simp
  qed
  have ty4: "e4 ''type'' = Some (EventType MESSAGE_NEW)" using to4[of "''type''"] ty2 by simp
  have fm4: "e4 ''from_me'' = Some (J (JBool False))" using to4[of "''from_me''"] fm2 by simp
  have tm4: "e4 ''to_me'' = Some (J (JBool False))" using to4[of "''to_me''"] tm2 by simp
  have "parse_message e4 = Inr e5"
    using s5 ty4 by (simp add: kind_step_def getattr_def type_in_member bound_method_eq_Inr)
  then obtain d where d: "direction e4 = Inr d" and un: "unescape d = Inr e5"
    unfolding parse_message_def andthen_eq_Inr by blast
  from direction_effect[OF d ty4] obtain fv4 f4 where fv4: "e4 ''flags'' = Some fv4"
    and f4: "val_as_int fv4 = Some f4"
    and de: "d = (if f4 AND flag_value OUTBOX \<noteq> 0 then e4(''from_me'' \<mapsto> J (JBool True))
            else e4(''to_me'' \<mapsto> J (JBool True)))"
    by blast
  have last: "ev k = d k" if "k \<in> {''flags'', ''from_me'', ''to_me''}" for k
  proof -
    from that have "e5 k = d k" by (intro unescape_frame[OF un]) auto
    moreover from that have "ev k = e5 k" by (intro datetime_step_frame[OF s6]) auto
    ultimately show ?thesis by simp
  qed
  have "d ''flags'' = e4 ''flags''" using de by simp
  with last[of "''flags''"] fv4 flags have "fv4 = fv" by simp
  with f4 int have ff: "f4 = f" by simp
  show ?thesis
    using last[of "''from_me''"] last[of "''to_me''"] de ff fm4 tm4 by simp
qed

lemma bot_peer_flags_shape:
  assumes "bot_peer_flags e = Inr e'"
  shows "\<exists>p. e ''peer_id'' = Some p \<and>
    (p = J JNull \<and> e' = e \<or>
     (\<exists>n. p \<noteq> J JNull \<and> val_as_int p = Some n \<and>
        e' = (if n \<ge> 2000000000 then e(''from_chat'' \<mapsto> J (JBool True))
              else if n > 0 then e(''from_user'' \<mapsto> J (JBool True))
              else if n < 0 then e(''from_group'' \<mapsto> J (JBool True)) else e)))"
proof -
  from assms obtain p where p: "e ''peer_id'' = Some p"
    unfolding bot_peer_flags_def andthen_eq_Inr getattr_eq_Inr by blast
  then have g: "getattr e ''peer_id'' = Inr p" by (simp add: getattr_def)
  show ?thesis
  proof (cases "p = J JNull")
    case True
    with assms g p show ?thesis by (simp add: bot_peer_flags_def)
  next
    case False
    show ?thesis
    proof (cases "val_as_int p")
      case None
      with assms g False show ?thesis by (simp add: bot_peer_flags_def)
    next
      case (Some n)
      with assms g False have "e' = (if n \<ge> 2000000000 then e(''from_chat'' \<mapsto> J (JBool True))
              else if n > 0 then e(''from_user'' \<mapsto> J (JBool True))
              else if n < 0 then e(''from_group'' \<mapsto> J (JBool True)) else e)"
        by (simp add: bot_peer_flags_def split: if_splits)
      with p False Some show ?thesis by blast
    qed
  qed
qed

lemma bot_from_me_shape:
  assumes "bot_from_me int_str e = Inr e'"
  shows "\<exists>g. e ''group_id'' = Some g \<and>
    (e' = e(''from_me'' \<mapsto> J (JBool True))
       \<and> g \<noteq> J JNull
       \<and> (\<exists>f n. e ''from_id'' = Some f \<and> f \<noteq> J JNull \<and> py_int int_str g = Inr n \<and> val_eq f (- n))
     \<or> e' = e
       \<and> \<not> (g \<noteq> J JNull
       \<and> (\<exists>f n. e ''from_id'' = Some f \<and> f \<noteq> J JNull \<and> py_int int_str g = Inr n \<and> val_eq f (- n))))"
proof -
  from assms obtain g where g: "e ''group_id'' = Some g"
    unfolding bot_from_me_def andthen_eq_Inr getattr_eq_Inr by blast
  then have gg: "getattr e ''group_id'' = Inr g" by (simp add: getattr_def)
  let ?c = "g \<noteq> J JNull \<and> e ''from_id'' \<noteq> None \<and> e ''from_id'' \<noteq> Some (J JNull)"
  let ?B = "g \<noteq> J JNull
       \<and> (\<exists>f n. e ''from_id'' = Some f \<and> f \<noteq> J JNull \<and> py_int int_str g = Inr n \<and> val_eq f (- n))"
  from assms have r0: "(if ?c then
         andthen (getattr e ''from_id'') (\<lambda>f.
           andthen (py_int int_str g) (\<lambda>n.
             if val_eq f (- n) then Inr (e(''from_me'' \<mapsto> J (JBool True))) else Inr e))
       else Inr e) = Inr e'"
    unfolding bot_from_me_def gg andthen_Inr .
  have "e' = e(''from_me'' \<mapsto> J (JBool True)) \<and> ?B \<or> e' = e \<and> \<not> ?B"
  proof (cases ?c)
    case False
    from r0 have "e' = e" unfolding if_not_P[OF False] by simp
    moreover from False have "\<not> ?B" by auto
    ultimately show ?thesis by blast
  next
    case True
    then obtain f where f: "e ''from_id'' = Some f" "f \<noteq> J JNull" by auto
    then have gf: "getattr e ''from_id'' = Inr f" by (simp add: getattr_def)
    from r0 have "andthen (py_int int_str g) (\<lambda>n.
             if val_eq f (- n) then Inr (e(''from_me'' \<mapsto> J (JBool True))) else Inr e) = Inr e'"
      unfolding if_P[OF True] gf andthen_Inr .
    then obtain n where n: "py_int int_str g = Inr n"
      and r: "(if val_eq f (- n) then Inr (e(''from_me'' \<mapsto> J (JBool True))) else Inr e)
              = (Inr e' :: error + event)"
      unfolding andthen_eq_Inr by blast
    have B: "?B = val_eq f (- n)"
      using f n True by auto
    show ?thesis
    proof (cases "val_eq f (- n)")
      case True
      with r have "e' = e(''from_me'' \<mapsto> J (JBool True))" by simp
      with B True show ?thesis by blast
    next
      case False
      with r have "e' = e" by simp
      with B False show ?thesis by blast
    qed
  qed
  with g show ?thesis by blast
qed

lemma bot_attachments_ids_shape:
  assumes "bot_attachments_ids fmt e = Inr e'"
  shows "\<exists>v. e' = e(''attachments_ids'' \<mapsto> v)"
proof -
  from assms obtain a where a: "getattr e ''attachments'' = Inr a"
    unfolding bot_attachments_ids_def andthen_eq_Inr by blast
  show ?thesis
  proof (cases a)
    case (J v)
    with assms a obtain ids where "e' = e(''attachments_ids'' \<mapsto> J (JList ids))"
      by (auto simp: bot_attachments_ids_def andthen_eq_Inr)
    then show ?thesis by blast
  qed (use assms a in \<open>simp_all add: bot_attachments_ids_def\<close>)
qed

lemma bot_decode_steps:
  assumes "BotMessageEvent fmt int_str ts_ok raw = Inr bev"
  shows "\<exists>r m e4 e5 e6. dict_of raw = Inr r
      \<and> e4 ''peer_id'' = Some (J (get_or_none m ''peer_id''))
      \<and> e4 ''from_id'' = Some (J (get_or_none m ''from_id''))
      \<and> e4 ''group_id'' = Some (J (get_or_none r ''group_id''))
      \<and> e4 ''from_user'' = Some (J (JBool False)) \<and> e4 ''from_chat'' = Some (J (JBool False))
      \<and> e4 ''from_group'' = Some (J (JBool False)) \<and> e4 ''from_me'' = Some (J (JBool False))
      \<and> e4 ''chat_id'' = None \<and> e4 ''user_id'' = None
      \<and> bot_peer_flags e4 = Inr e5 \<and> bot_from_me int_str e5 = Inr e6
      \<and> bot_attachments_ids fmt (e6(''to_me'' \<mapsto> J (JBool True))) = Inr bev"
proof -
  from assms obtain r obj m e3 e5 e6 where r: "dict_of raw = Inr r"
    and d: "datetime_step ts_ok
       ((init_attrs raw)
          (''type'' \<mapsto> J (get_or_none r ''type''),
           ''event_id'' \<mapsto> J (get_or_none r ''event_id''),
           ''v'' \<mapsto> J (get_or_none r ''v''),
           ''group_id'' \<mapsto> J (get_or_none r ''group_id''),
           ''message'' \<mapsto> J (or_default (get_or_none obj ''message'') (JObj [])),
           ''message_id'' \<mapsto> J (get_or_none m ''id''),
           ''peer_id'' \<mapsto> J (get_or_none m ''peer_id''),
           ''conversation_message_id'' \<mapsto> J (get_or_none m ''conversation_message_id''),
           ''from_id'' \<mapsto> J (get_or_none m ''from_id''),
           ''text'' \<mapsto> J (or_default (get_or_none m ''text'') (JStr [])),
           ''timestamp'' \<mapsto> J (get_or_none m ''date''))) = Inr e3"
    and p: "bot_peer_flags
       (e3(''attachments'' \<mapsto> J (or_default (get_or_none m ''attachments'') (JList [])),
           ''fwd_messages'' \<mapsto> J (or_default (get_or_none m ''fwd_messages'') (JList [])),
           ''client_info'' \<mapsto> J (or_default (get_or_none obj ''client_info'') (JObj [])))) = Inr e5"
    and f: "bot_from_me int_str e5 = Inr e6"
    and a: "bot_attachments_ids fmt (e6(''to_me'' \<mapsto> J (JBool True))) = Inr bev"
    unfolding BotMessageEvent_def Let_def andthen_eq_Inr by blast
  let ?e4 = "e3(''attachments'' \<mapsto> J (or_default (get_or_none m ''attachments'') (JList [])),
           ''fwd_messages'' \<mapsto> J (or_default (get_or_none m ''fwd_messages'') (JList [])),
           ''client_info'' \<mapsto> J (or_default (get_or_none obj ''client_info'') (JObj [])))"
  note fr = datetime_step_frame[OF d]
  have "?e4 ''peer_id'' = Some (J (get_or_none m ''peer_id''))"
    using fr[of "''peer_id''"] by simp
  moreover have "?e4 ''from_id'' = Some (J (get_or_none m ''from_id''))"
    using fr[of "''from_id''"] by simp
  moreover have "?e4 ''group_id'' = Some (J (get_or_none r ''group_id''))"
    using fr[of "''group_id''"] by simp
  moreover have "?e4 ''from_user'' = Some (J (JBool False))"
    using fr[of "''from_user''"] by simp
  moreover have "?e4 ''from_chat'' = Some (J (JBool False))"
    using fr[of "''from_chat''"] by simp
  moreover have "?e4 ''from_group'' = Some (J (JBool False))"
    using fr[of "''from_group''"] by simp
  moreover have "?e4 ''from_me'' = Some (J (JBool False))"
    using fr[of "''from_me''"] by simp
  moreover have "?e4 ''chat_id'' = None"
    using fr[of "''chat_id''"] by (simp add: init_attrs_def)
  moreover have "?e4 ''user_id'' = None"
    using fr[of "''user_id''"] by (simp add: init_attrs_def)
  ultimately show ?thesis using r p f a by blast
qed

lemma bot_peer_classification:
  assumes "BotMessageEvent fmt int_str ts_ok raw = Inr bev"
    and "bev ''peer_id'' = Some pv" and "val_as_int pv = Some p"
  shows "bev ''from_chat'' = Some (J (JBool (p \<ge> 2000000000)))
       \<and> bev ''from_user'' = Some (J (JBool (0 < p \<and> p < 2000000000)))
       \<and> bev ''from_group'' = Some (J (JBool (p < 0)))
       \<and> bev ''chat_id'' = None \<and> bev ''user_id'' = None"
proof -
  from bot_decode_steps[OF assms(1)] obtain r m e4 e5 e6 where
    e4: "e4 ''peer_id'' = Some (J (get_or_none m ''peer_id''))"
      "e4 ''from_user'' = Some (J (JBool False))" "e4 ''from_chat'' = Some (J (JBool False))"
      "e4 ''from_group'' = Some (J (JBool False))" "e4 ''chat_id'' = None" "e4 ''user_id'' = None"
    and s5: "bot_peer_flags e4 = Inr e5" and s6: "bot_from_me int_str e5 = Inr e6"
    and s7: "bot_attachments_ids fmt (e6(''to_me'' \<mapsto> J (JBool True))) = Inr bev"
    by blast
  from bot_attachments_ids_shape[OF s7] obtain v where
    b: "bev = e6(''to_me'' \<mapsto> J (JBool True), ''attachments_ids'' \<mapsto> v)" by blast
  from bot_from_me_shape[OF s6] have
    e6: "e6 = e5(''from_me'' \<mapsto> J (JBool True)) \<or> e6 = e5" by blast
  have keep: "bev k = e5 k" if "k \<notin> {''to_me'', ''attachments_ids'', ''from_me''}" for k
    using that b e6 by auto
  have k_pi: "bev ''peer_id'' = e5 ''peer_id''" by (rule keep) simp
  have k_fu: "bev ''from_user'' = e5 ''from_user''" by (rule keep) simp
  have k_fc: "bev ''from_chat'' = e5 ''from_chat''" by (rule keep) simp
  have k_fg: "bev ''from_group'' = e5 ''from_group''" by (rule keep) simp
  have k_ci: "bev ''chat_id'' = e5 ''chat_id''" by (rule keep) simp
  have k_ui: "bev ''user_id'' = e5 ''user_id''" by (rule keep) simp
  from bot_peer_flags_shape[OF s5] obtain q where q: "e4 ''peer_id'' = Some q"
    and c: "q = J JNull \<and> e5 = e4 \<or>
     (\<exists>n. q \<noteq> J JNull \<and> val_as_int q = Some n \<and>
        e5 = (if n \<ge> 2000000000 then e4(''from_chat'' \<mapsto> J (JBool True))
              else if n > 0 then e4(''from_user'' \<mapsto> J (JBool True))
              else if n < 0 then e4(''from_group'' \<mapsto> J (JBool True)) else e4))"
    by blast
  have p5: "e5 ''peer_id'' = Some q"
    using c q by (auto split: if_splits)
  with k_pi assms(2) have qq: "q = pv" by simp
  with assms(3) have "q \<noteq> J JNull" by auto
  with c qq assms(3) have e5: "e5 = (if p \<ge> 2000000000 then e4(''from_chat'' \<mapsto> J (JBool True))
              else if p > 0 then e4(''from_user'' \<mapsto> J (JBool True))
              else if p < 0 then e4(''from_group'' \<mapsto> J (JBool True)) else e4)"
    by auto
  show ?thesis
    unfolding k_fu k_fc k_fg k_ci k_ui e5 using e4 by simp
qed

lemma bot_direction:
  assumes "BotMessageEvent fmt int_str ts_ok raw = Inr bev"
  shows "bev ''to_me'' = Some (J (JBool True))
       \<and> (\<exists>g f. bev ''group_id'' = Some g \<and> bev ''from_id'' = Some f
            \<and> bev ''from_me'' = Some (J (JBool
                 (g \<noteq> J JNull \<and> f \<noteq> J JNull
                  \<and> (\<exists>n. py_int int_str g = Inr n \<and> val_eq f (- n))))))"
proof -
  from bot_decode_steps[OF assms(1)] obtain r m e4 e5 e6 where
    e4: "e4 ''from_id'' = Some (J (get_or_none m ''from_id''))"
      "e4 ''group_id'' = Some (J (get_or_none r ''group_id''))"
      "e4 ''from_me'' = Some (J (JBool False))"
    and s5: "bot_peer_flags e4 = Inr e5" and s6: "bot_from_me int_str e5 = Inr e6"
    and s7: "bot_attachments_ids fmt (e6(''to_me'' \<mapsto> J (JBool True))) = Inr bev"
    by blast
  from bot_attachments_ids_shape[OF s7] obtain v where
    b: "bev = e6(''to_me'' \<mapsto> J (JBool True), ''attachments_ids'' \<mapsto> v)" by blast
  have k5: "e5 k = e4 k" if "k \<notin> {''from_chat'', ''from_user'', ''from_group''}" for k
    using bot_peer_flags_shape[OF s5] that by (auto split: if_splits)
  have fi5: "e5 ''from_id'' = Some (J (get_or_none m ''from_id''))"
    using k5[of "''from_id''"] e4 by simp
  have gi5: "e5 ''group_id'' = Some (J (get_or_none r ''group_id''))"
    using k5[of "''group_id''"] e4 by simp
  have fm5: "e5 ''from_me'' = Some (J (JBool False))"
    using k5[of "''from_me''"] e4 by simp
  let ?g = "J (get_or_none r ''group_id'')" and ?f = "J (get_or_none m ''from_id'')"
  let ?B = "?g \<noteq> J JNull \<and> ?f \<noteq> J JNull \<and> (\<exists>n. py_int int_str ?g = Inr n \<and> val_eq ?f (- n))"
  from bot_from_me_shape[OF s6] gi5 fi5
  have "e6 = e5(''from_me'' \<mapsto> J (JBool True)) \<and> ?B \<or> e6 = e5 \<and> \<not> ?B"
    by auto
  then have fm6: "e6 ''from_me'' = Some (J (JBool ?B))"
    and fi6: "e6 ''from_id'' = Some ?f" and gi6: "e6 ''group_id'' = Some ?g"
    using fm5 fi5 gi5 by auto
  show ?thesis
    unfolding b using fm6 fi6 gi6 by simp
qed

lemma bot_group_id:
  assumes "BotMessageEvent fmt int_str ts_ok raw = Inr bev"
  shows "\<exists>d. raw = JObj d \<and> bev ''group_id'' = Some (J (get_or_none d ''group_id''))"
proof -
  from bot_decode_steps[OF assms(1)] obtain r m e4 e5 e6 where r: "dict_of raw = Inr r"
    and e4: "e4 ''group_id'' = Some (J (get_or_none r ''group_id''))"
    and s5: "bot_peer_flags e4 = Inr e5" and s6: "bot_from_me int_str e5 = Inr e6"
    and s7: "bot_attachments_ids fmt (e6(''to_me'' \<mapsto> J (JBool True))) = Inr bev"
    by blast
  from r have raw: "raw = JObj r" by (cases raw) simp_all
  from bot_attachments_ids_shape[OF s7] obtain v where
    b: "bev = e6(''to_me'' \<mapsto> J (JBool True), ''attachments_ids'' \<mapsto> v)" by blast
  have "e5 ''group_id'' = e4 ''group_id''"
    using bot_peer_flags_shape[OF s5] by (auto split: if_splits)
  moreover have "e6 ''group_id'' = e5 ''group_id''"
    using bot_from_me_shape[OF s6] by auto
  ultimately have "bev ''group_id'' = Some (J (get_or_none r ''group_id''))"
    using e4 b by simp
  with raw show ?thesis by blast
qed

section \<open>Properties of the decoders\<close>

lemma flag_value_bit: "flag_value x = 2 ^ flag_bit x"
  by (cases x) simp_all

lemma all_message_flags_complete: "set all_message_flags = UNIV"
proof -
  have "x \<in> set all_message_flags" for x
    by (cases x) (simp_all add: all_message_flags_def)
  then show ?thesis by blast
qed

lemma and_exp_neq_0: "((f::int) AND 2 ^ k \<noteq> 0) = bit f k"
  by (simp add: and_exp_eq_0_iff_not_bit)

lemma and_exp_eq_exp: "((f::int) AND 2 ^ k = 2 ^ k) = bit f k"
proof
  assume "f AND 2 ^ k = 2 ^ k"
  then have "bit (f AND 2 ^ k) k = bit (2 ^ k :: int) k" by simp
  then show "bit f k" by (simp add: bit_and_iff bit_exp_iff)
next
  assume "bit f k"
  then show "f AND 2 ^ k = 2 ^ k"
    by (intro bit_eqI) (auto simp: bit_and_iff bit_exp_iff)
qed

lemma bit_fold_or: "bit (fold (OR) ys (a::int)) n = (bit a n \<or> (\<exists>y\<in>set ys. bit y n))"
  by (induction ys arbitrary: a) (auto simp: bit_or_iff)

lemma bit_or_all: "bit (or_all ys) n = (\<exists>y\<in>set ys. bit y n)"
  by (simp add: or_all_def bit_fold_or)

lemma decomposed_set:
  "set (filter (\<lambda>x. f AND flag_value x \<noteq> 0) all_message_flags)
     = {x. f AND flag_value x = flag_value x}"
  by (auto simp: all_message_flags_complete flag_value_bit and_exp_neq_0 and_exp_eq_exp)

lemma or_decomposed:
  assumes "set xs = {x. f AND flag_value x = flag_value x}"
  shows "or_all (map flag_value xs) = f AND or_all (map flag_value all_message_flags)"
proof (rule bit_eqI)
  fix n
  have "bit (or_all (map flag_value xs)) n = (\<exists>x. bit f (flag_bit x) \<and> n = flag_bit x)"
    using assms by (auto simp: bit_or_all flag_value_bit and_exp_eq_exp bit_exp_iff)
  also have "\<dots> = (bit f n \<and> (\<exists>x. n = flag_bit x))"
    by auto
  also have "\<dots> = bit (f AND or_all (map flag_value all_message_flags)) n"
    by (auto simp: bit_and_iff bit_or_all all_message_flags_complete flag_value_bit bit_exp_iff)
  finally show "bit (or_all (map flag_value xs)) n
      = bit (f AND or_all (map flag_value all_message_flags)) n" .
qed

lemma dict_get_nonempty: "dict_get d k = Some v \<Longrightarrow> d \<noteq> []"
  by (auto simp: dict_get_def)

lemma get_or_none_Some [simp]: "dict_get d k = Some v \<Longrightarrow> get_or_none d k = v"
  by (simp add: get_or_none_def)

lemma size_entries_no_url:
  "\<forall>s\<in>set ss. \<exists>d. s = JObj d \<and> \<not> truthy (get_or_none d ''url'') \<Longrightarrow> size_entries ss = Inr []"
  by (induction ss) auto

lemma iterate_or_default_list: "iterate (or_default (JList ss) (JList [])) = Inr ss"
  by (cases ss) (simp_all add: or_default_def)

lemma map_one_photo_no_url:
  assumes "dict_get att ''type'' = Some (JStr ''photo'')"
    and "dict_get att ''photo'' = Some (JObj ph)"
    and "dict_get ph ''sizes'' = Some (JList ss)"
    and "\<forall>s\<in>set ss. \<exists>d. s = JObj d \<and> \<not> truthy (get_or_none d ''url'')"
  shows "map_one (JObj att) = Inr []"
  using assms dict_get_nonempty[OF assms(3)]
  by (simp add: map_one_def or_default_def[of "JObj ph"] iterate_or_default_list
        size_entries_no_url)

lemma from_messages_getById_found:
  assumes "e ''message_id'' = Some m" and "e ''group_id'' = Some g"
    and "messages_getById a m (Some g) = Inr (JObj r)
         \<or> (\<exists>x. messages_getById a m (Some g) = Inl x) \<and> messages_getById a m None = Inr (JObj r)"
    and "dict_get r ''items'' = Some (JList (JObj item # others))"
    and "dict_get item ''attachments'' = Some (JList (x # xs))"
  shows "from_messages_getById a e = Inr (JList (x # xs))"
  using assms dict_get_nonempty[OF assms(4)]
  by (auto simp: from_messages_getById_def or_default_def Let_def)

lemma inline_tier_none:
  "dict_get ex (attach_key i) = None \<or> dict_get ex (attach_type_key i) = None
     \<Longrightarrow> inline_tier a fmt ex i norm = norm"
  by (subst inline_tier.simps) (auto split: option.splits)

subsection \<open>Claims about the decoders\<close>

text \<open>
  C5. \<^verbatim>\<open>_parse_message_flags\<close> (called at lines 607 and 608 for the two kinds of
  \<^verbatim>\<open>PARSE_MESSAGE_FLAGS_EVENTS\<close>) stores, for a flags value that is the integer \<open>f\<close>,
  exactly the set of the members of \<^verbatim>\<open>VkMessageFlag\<close> whose bit value is set in \<open>f\<close>;
  and the bitwise OR of the values of that set, taken in any order, is \<open>f\<close> restricted
  to the bits of the enumeration. The sign of \<open>f\<close> plays no part.
\<close>

theorem parse_message_flags_decomposes:
  assumes "e ''flags'' = Some fl" and "val_as_int fl = Some f"
  shows "parse_message_flags e =
           Inr (e(''message_flags'' \<mapsto> MessageFlags {x. f AND flag_value x = flag_value x}))
         \<and> (\<forall>xs. set xs = {x. f AND flag_value x = flag_value x} \<longrightarrow>
               or_all (map flag_value xs) = f AND or_all (map flag_value all_message_flags))"
  using assms
  by (simp add: parse_message_flags_def getattr_def decomposed_set[simplified] or_decomposed)

theorem parse_message_flags_decomposes_witness:
  "flagged_event ''flags'' = Some (J (JInt 3)) \<and> val_as_int (J (JInt 3)) = Some 3
   \<and> parse_message_flags flagged_event =
       Inr (flagged_event(''message_flags'' \<mapsto> MessageFlags {UNREAD, OUTBOX}))
   \<and> or_all (map flag_value [OUTBOX, UNREAD]) = 3 AND or_all (map flag_value all_message_flags)"
proof -
  have h: "flagged_event ''flags'' = Some (J (JInt 3))" "val_as_int (J (JInt 3)) = Some 3"
    by (simp_all add: flagged_event_def)
  have "set (filter (\<lambda>x. (3::int) AND flag_value x \<noteq> 0) all_message_flags) = {UNREAD, OUTBOX}"
    by (simp add: all_message_flags_def)
  then have s: "{x. (3::int) AND flag_value x = flag_value x} = {UNREAD, OUTBOX}"
    by (simp only: decomposed_set)
  from parse_message_flags_decomposes[of flagged_event "J (JInt 3)" 3] h s
  have "parse_message_flags flagged_event =
       Inr (flagged_event(''message_flags'' \<mapsto> MessageFlags {UNREAD, OUTBOX}))"
    and a: "\<forall>xs. set xs = {UNREAD, OUTBOX} \<longrightarrow>
       or_all (map flag_value xs) = 3 AND or_all (map flag_value all_message_flags)"
    by simp_all
  moreover have "set [OUTBOX, UNREAD] = {UNREAD, OUTBOX}"
    by auto
  with a have "or_all (map flag_value [OUTBOX, UNREAD])
      = 3 AND or_all (map flag_value all_message_flags)"
    by blast
  ultimately show ?thesis using h by blast
qed

text \<open>
  C6. When the leading element \<open>x\<close> of a raw array is no value of \<^verbatim>\<open>VkEventType\<close>,
  the constructor raises nothing and returns an event whose \<^verbatim>\<open>type\<close> is \<open>x\<close> itself
  and whose \<^verbatim>\<open>raw\<close> is the input array; every other attribute has the value the
  constructor starts from whatever the array is, so none of the array's further elements
  has been decoded.
\<close>

theorem unknown_type_code_kept_raw:
  assumes "VkEventType_call (J x) = None"
  shows "\<exists>ev. MessageEvent int_str ts_ok (JList (x # rest)) = Inr ev
           \<and> ev = (init_attrs (JList (x # rest)))(''type'' \<mapsto> J x)
           \<and> ev ''type'' = Some (J x)
           \<and> ev ''raw'' = Some (J (JList (x # rest)))
           \<and> (\<forall>k. k \<noteq> ''type'' \<and> k \<noteq> ''raw'' \<longrightarrow> ev k = init_attrs JNull k)"
proof -
  let ?e = "(init_attrs (JList (x # rest)))(''type'' \<mapsto> J x)"
  have nt: "\<And>ms. \<not> type_in (J x) ms"
    using assms type_in_call by blast
  have a: "assign_fields (JList (x # rest)) (init_attrs (JList (x # rest))) = Inr ?e"
    using assms by (simp add: assign_fields_def)
  have ty: "getattr ?e ''type'' = Inr (J x)"
    by (simp add: getattr_def)
  have ev: "getattr ?e ''extra_values'' = Inr (J JNull)"
    by (simp add: getattr_def init_attrs_def)
  have tm: "getattr ?e ''timestamp'' = Inr (J JNull)"
    by (simp add: getattr_def init_attrs_def)
  have s: "spray_extra_values ?e = Inr ?e"
    by (simp add: spray_extra_values_def ev)
  have p: "peer_step int_str ?e = Inr ?e"
    by (simp add: peer_step_def ty nt)
  have f: "flags_step ?e = Inr ?e"
    by (simp add: flags_step_def ty nt)
  have k: "kind_step int_str ?e = Inr ?e"
    by (simp add: kind_step_def ty nt)
  have d: "datetime_step ts_ok ?e = Inr ?e"
    by (simp add: datetime_step_def tm)
  have m: "MessageEvent int_str ts_ok (JList (x # rest)) = Inr ?e"
    unfolding MessageEvent_def a andthen_Inr s p f k d ..
  have r: "?e ''raw'' = Some (J (JList (x # rest)))"
    by (simp add: init_attrs_def)
  have o: "?e k = init_attrs JNull k" if "k \<noteq> ''type''" "k \<noteq> ''raw''" for k
    using that by (simp add: init_attrs_def)
  from m r o show ?thesis by simp
qed

theorem unknown_type_code_kept_raw_witness:
  "VkEventType_call (J (JInt 999)) = None
   \<and> (\<exists>ev. MessageEvent no_int any_ts (JList [JInt 999, JInt 5, JStr ''x'']) = Inr ev
         \<and> ev ''type'' = Some (J (JInt 999))
         \<and> ev ''raw'' = Some (J (JList [JInt 999, JInt 5, JStr ''x'']))
         \<and> ev ''message_id'' = Some (J JNull) \<and> ev ''flags'' = Some (J JNull)
         \<and> ev ''peer_id'' = Some (J JNull) \<and> ev ''text'' = Some (J JNull)
         \<and> ev ''user_id'' = None)"
proof -
  have h: "VkEventType_call (J (JInt 999)) = None"
    by (simp add: VkEventType_call_def all_event_types_def)
  from unknown_type_code_kept_raw[OF h, of no_int any_ts "[JInt 5, JStr ''x'']"]
  obtain ev where m: "MessageEvent no_int any_ts (JList [JInt 999, JInt 5, JStr ''x'']) = Inr ev"
    and t: "ev ''type'' = Some (J (JInt 999))"
    and r: "ev ''raw'' = Some (J (JList [JInt 999, JInt 5, JStr ''x'']))"
    and o: "\<And>k. k \<noteq> ''type'' \<Longrightarrow> k \<noteq> ''raw'' \<Longrightarrow> ev k = init_attrs JNull k"
    by blast
  have "ev ''message_id'' = Some (J JNull)" "ev ''flags'' = Some (J JNull)"
      "ev ''peer_id'' = Some (J JNull)" "ev ''text'' = Some (J JNull)" "ev ''user_id'' = None"
    by (simp_all add: o init_attrs_def)
  with h m t r show ?thesis by blast
qed

text \<open>
  C10 (as stated, refuted). Two steps of the resolution stand outside every
  \<^verbatim>\<open>try\<close>. The comprehension of line 871 calls \<^verbatim>\<open>get\<close> on each size entry of a
  looked-up photo, so one entry that is no dict (here \<^verbatim>\<open>null\<close>) ends the whole call
  with \<^verbatim>\<open>AttributeError\<close>. Line 892 subscripts the extra values with a string once
  both membership tests of line 891 have passed, and they pass for a string that
  contains both names: the event that the constructor builds from extra values with
  the key \<^verbatim>\<open>extra_values\<close> ends the call with \<^verbatim>\<open>TypeError\<close>.
\<close>

theorem resolution_fails_counterexample:
  "normalized_attachments null_size_api plain looked_up_event = Inl AttributeError
   \<and> (case MessageEvent no_int any_ts stringly_update of
         Inr ev \<Rightarrow> ev ''extra_values'' = Some (J (JStr ''attach1_type''))
           \<and> normalized_attachments sample_api plain ev = Inl TypeError
       | Inl _ \<Rightarrow> False)"
  by code_simp

text \<open>
  C10 (amended), for an event whose extra values are falsy or a dict and a looked-up
  photo whose size entries are all dicts. When the message lookup (scoped to the group,
  or retried without the group after the scoped call raised) returns a message whose only
  attachment is a photo none of whose size entries has a truthy \<^verbatim>\<open>url\<close>, the first tier
  maps it to nothing and the result is that of the inline-token loop started at index 1
  over the event's extra values (an empty dict when they are falsy); and when the pair
  \<^verbatim>\<open>attach1\<close> / \<^verbatim>\<open>attach1_type\<close> is not there, the result is the empty list,
  returned and not raised. The loop itself is a total function: it swallows every
  exception of the per-item lookups.
\<close>

theorem urlless_photo_falls_back:
  assumes "e ''message_id'' = Some m" and "e ''group_id'' = Some g"
    and "messages_getById a m (Some g) = Inr (JObj r)
         \<or> (\<exists>x. messages_getById a m (Some g) = Inl x) \<and> messages_getById a m None = Inr (JObj r)"
    and "dict_get r ''items'' = Some (JList (JObj item # others))"
    and "dict_get item ''attachments'' = Some (JList [JObj att])"
    and "dict_get att ''type'' = Some (JStr ''photo'')"
    and "dict_get att ''photo'' = Some (JObj ph)"
    and "dict_get ph ''sizes'' = Some (JList ss)"
    and "\<forall>s\<in>set ss. \<exists>d. s = JObj d \<and> \<not> truthy (get_or_none d ''url'')"
    and "e ''extra_values'' = Some (J ev)" and "dict_of (or_default ev (JObj [])) = Inr ex"
  shows "map_atts (JList [JObj att]) = Inr []
       \<and> normalized_attachments a fmt e = Inr (inline_tier a fmt ex 1 [])
       \<and> (dict_get ex (attach_key 1) = None \<or> dict_get ex (attach_type_key 1) = None
            \<longrightarrow> normalized_attachments a fmt e = Inr [])"
proof -
  have f: "from_messages_getById a e = Inr (JList [JObj att])"
    using assms(1-5) by (rule from_messages_getById_found)
  have m: "map_atts (JList [JObj att]) = Inr []"
    using map_one_photo_no_url[OF assms(6-9)]
    by (simp add: map_atts_def or_default_def)
  have t: "normalized_attachments a fmt e = Inr (inline_tier a fmt ex 1 [])"
  proof (cases "truthy ev")
    case True
    with assms(11) have "ev = JObj ex"
      by (cases ev) (simp_all add: or_default_def)
    with True assms(10) show ?thesis
      by (simp add: normalized_attachments_def f m getattr_def)
  next
    case False
    with assms(11) have "ex = []"
      by (simp add: or_default_def)
    with False assms(10) show ?thesis
      by (simp add: normalized_attachments_def f m getattr_def)
  qed
  show ?thesis
    using m t inline_tier_none[of ex 1 a fmt "[]"] by simp
qed

theorem urlless_photo_falls_back_witness:
  "looked_up_event ''message_id'' = Some (J (JInt 7))
   \<and> looked_up_event ''group_id'' = Some (J JNull)
   \<and> messages_getById sample_api (J (JInt 7)) (Some (J JNull)) = Inl (OtherError ''group'')
   \<and> messages_getById sample_api (J (JInt 7)) None = Inr urlless_photo
   \<and> looked_up_event ''extra_values'' = Some (J JNull)
   \<and> normalized_attachments sample_api plain looked_up_event = Inr []"
proof -
  have h: "looked_up_event ''message_id'' = Some (J (JInt 7))"
      "looked_up_event ''group_id'' = Some (J JNull)"
      "looked_up_event ''extra_values'' = Some (J JNull)"
    by (simp_all add: looked_up_event_def init_attrs_def)
  have l: "messages_getById sample_api (J (JInt 7)) (Some (J JNull)) = Inl (OtherError ''group'')"
      "messages_getById sample_api (J (JInt 7)) None =
         Inr (JObj [(''items'', JList [JObj [(''attachments'', JList [JObj
          [(''type'', JStr ''photo''),
           (''photo'', JObj [(''sizes'', JList [JObj [(''type'', JStr ''m'')]])])]])]])])"
    by (simp_all add: sample_api_def urlless_photo_def)
  have c: "messages_getById sample_api (J (JInt 7)) (Some (J JNull))
        = Inr (JObj [(''items'', JList [JObj [(''attachments'', JList [JObj
          [(''type'', JStr ''photo''),
           (''photo'', JObj [(''sizes'', JList [JObj [(''type'', JStr ''m'')]])])]])]])])
      \<or> (\<exists>x. messages_getById sample_api (J (JInt 7)) (Some (J JNull)) = Inl x)
        \<and> messages_getById sample_api (J (JInt 7)) None
            = Inr (JObj [(''items'', JList [JObj [(''attachments'', JList [JObj
          [(''type'', JStr ''photo''),
           (''photo'', JObj [(''sizes'', JList [JObj [(''type'', JStr ''m'')]])])]])]])])"
    using l by simp
  have d: "dict_get [(''items'', JList [JObj [(''attachments'', JList [JObj
          [(''type'', JStr ''photo''),
           (''photo'', JObj [(''sizes'', JList [JObj [(''type'', JStr ''m'')]])])]])]])] ''items''
        = Some (JList (JObj [(''attachments'', JList [JObj
          [(''type'', JStr ''photo''),
           (''photo'', JObj [(''sizes'', JList [JObj [(''type'', JStr ''m'')]])])]])] # []))"
      "dict_get [(''attachments'', JList [JObj
          [(''type'', JStr ''photo''),
           (''photo'', JObj [(''sizes'', JList [JObj [(''type'', JStr ''m'')]])])]])] ''attachments''
        = Some (JList [JObj [(''type'', JStr ''photo''),
           (''photo'', JObj [(''sizes'', JList [JObj [(''type'', JStr ''m'')]])])]])"
      "dict_get [(''type'', JStr ''photo''),
           (''photo'', JObj [(''sizes'', JList [JObj [(''type'', JStr ''m'')]])])] ''type''
        = Some (JStr ''photo'')"
      "dict_get [(''type'', JStr ''photo''),
           (''photo'', JObj [(''sizes'', JList [JObj [(''type'', JStr ''m'')]])])] ''photo''
        = Some (JObj [(''sizes'', JList [JObj [(''type'', JStr ''m'')]])])"
      "dict_get [(''sizes'', JList [JObj [(''type'', JStr ''m'')]])] ''sizes''
        = Some (JList [JObj [(''type'', JStr ''m'')]])"
      "\<forall>s\<in>set [JObj [(''type'', JStr ''m'')]]. \<exists>d. s = JObj d \<and> \<not> truthy (get_or_none d ''url'')"
      "dict_of (or_default JNull (JObj [])) = Inr []"
    by (simp_all add: dict_get_def get_or_none_def or_default_def)
  from urlless_photo_falls_back[OF h(1) h(2) c d(1) d(2) d(3) d(4) d(5) d(6) h(3) d(7), of plain]
  have "dict_get [] (attach_key 1) = None \<or> dict_get [] (attach_type_key 1) = None
      \<longrightarrow> normalized_attachments sample_api plain looked_up_event = Inr []"
    by blast
  then have "normalized_attachments sample_api plain looked_up_event = Inr []"
    by (simp add: dict_get_def)
  with h l show ?thesis by (simp add: urlless_photo_def)
qed

subsection \<open>Claims about the classification of decoded events\<close>

lemma message_new_call: "VkEventType_call (J (JInt 4)) = Some MESSAGE_NEW"
  by (simp add: VkEventType_call_def all_event_types_def)

lemma message_new_has_peer:
  "''peer_id'' \<in> set (EVENT_ATTRS_MAPPING MESSAGE_NEW) \<or> MESSAGE_NEW = NOTIFICATION_SETTINGS_UPDATE"
  by (simp add: MESSAGE_EXTRA_FIELDS_def)

lemma notification_call:
  "VkEventType_call (J (JInt 114)) = Some NOTIFICATION_SETTINGS_UPDATE"
  by (simp add: VkEventType_call_def all_event_types_def)

lemma notification_update_decoded:
  "(case MessageEvent no_int any_ts notification_update of
      Inr ev \<Rightarrow> ev ''peer_id'' = Some (J (JInt 2000000005))
    | Inl _ \<Rightarrow> False)"
  by code_simp

lemma chat_update_decoded:
  "(case MessageEvent no_int any_ts chat_update of
      Inr ev \<Rightarrow> ev ''peer_id'' = Some (J (JInt 2000000007)) \<and> ev ''flags'' = Some (J (JInt 3))
    | Inl _ \<Rightarrow> False)"
  by code_simp

lemma group_update_decoded:
  "(case MessageEvent no_int any_ts group_update of
      Inr ev \<Rightarrow> ev ''peer_id'' = Some (J (JInt (- 5))) \<and> ev ''flags'' = Some (J (JInt 0))
    | Inl _ \<Rightarrow> False)"
  by code_simp

lemma threshold_update_decoded:
  "(case MessageEvent no_int any_ts threshold_update of
      Inr ev \<Rightarrow> ev ''peer_id'' = Some (J (JInt 2000000000)) \<and> ev ''flags'' = Some (J (JInt 0))
    | Inl _ \<Rightarrow> False)"
  by code_simp

lemma callback_decoded:
  "(case BotMessageEvent plain no_int any_ts (callback 1 2000000007) of
      Inr ev \<Rightarrow> ev ''peer_id'' = Some (J (JInt 2000000007))
    | Inl _ \<Rightarrow> False)"
  by code_simp

lemma threshold_callback_decoded:
  "(case BotMessageEvent plain no_int any_ts (callback 1 2000000000) of
      Inr ev \<Rightarrow> ev ''peer_id'' = Some (J (JInt 2000000000))
        \<and> ev ''from_chat'' = Some (J (JBool True)) \<and> ev ''from_user'' = Some (J (JBool False))
    | Inl _ \<Rightarrow> False)"
  by code_simp

lemma callback_fields_decoded:
  "(case BotMessageEvent plain no_int any_ts (callback 1 2000000007) of
      Inr ev \<Rightarrow> ev ''group_id'' = Some (J (JInt 5)) \<and> ev ''from_id'' = Some (J (JInt 1))
    | Inl _ \<Rightarrow> False)"
  by code_simp

lemma threshold_classified_differently:
  "(case MessageEvent no_int any_ts threshold_update of
      Inr ev \<Rightarrow>
        (case BotMessageEvent plain no_int any_ts (callback 1 2000000000) of
           Inr bev \<Rightarrow> ev ''peer_id'' = Some (J (JInt 2000000000))
             \<and> bev ''peer_id'' = Some (J (JInt 2000000000))
             \<and> ev ''from_user'' = Some (J (JBool True)) \<and> ev ''from_chat'' = Some (J (JBool False))
             \<and> bev ''from_user'' = Some (J (JBool False)) \<and> bev ''from_chat'' = Some (J (JBool True))
         | Inl _ \<Rightarrow> False)
    | Inl _ \<Rightarrow> False)"
  by code_simp

text \<open>
  C4 (as stated, refuted). The array decoder can classify one event twice.
  \<^verbatim>\<open>_dict_to_attr\<close> copies every key of the extra values onto the event before
  \<^verbatim>\<open>_parse_peer_id\<close> runs, and \<^verbatim>\<open>_parse_peer_id\<close> only ever sets a flag to
  \<^verbatim>\<open>True\<close>: an update for the peer \<open>-5\<close> whose extra values have the key
  \<^verbatim>\<open>from_user\<close> is decoded as from a group and from a user at once.
\<close>

theorem peer_id_classified_counterexample:
  "(case MessageEvent no_int any_ts sprayed_update of
      Inr ev \<Rightarrow> ev ''peer_id'' = Some (J (JInt (- 5)))
        \<and> ev ''from_group'' = Some (J (JBool True)) \<and> ev ''from_user'' = Some (J (JBool True))
    | Inl _ \<Rightarrow> False)"
  by code_simp

text \<open>
  C4 (amended), for arrays whose dict elements have no key \<^verbatim>\<open>type\<close>,
  \<^verbatim>\<open>from_user\<close>, \<^verbatim>\<open>from_chat\<close>, \<^verbatim>\<open>from_group\<close> or \<^verbatim>\<open>__dict__\<close> (the
  last replaces every attribute of the event at once). For every decoded array event of
  a kind that carries a peer id, which are the kinds whose field list has \<^verbatim>\<open>peer_id\<close>
  and the kind 114 whose \<^verbatim>\<open>values\<close> dict is copied onto the event, with \<open>p\<close> the
  integer of the decoded peer id: \<open>p < 0\<close> gives a group event with group id \<open>|p|\<close>;
  otherwise \<open>p > CHAT_START_ID\<close> gives a chat event with chat id \<open>p - CHAT_START_ID\<close>;
  otherwise the event is a user event with user id the peer id. In each case the other
  two flags are \<^verbatim>\<open>False\<close>.
\<close>

theorem peer_id_classified:
  assumes "MessageEvent int_str ts_ok (JList (x # rest)) = Inr ev"
    and "VkEventType_call (J x) = Some t"
    and "''peer_id'' \<in> set (EVENT_ATTRS_MAPPING t) \<or> t = NOTIFICATION_SETTINGS_UPDATE"
    and "set (element_keys (JList (x # rest)))
           \<inter> {''type'', ''from_user'', ''from_chat'', ''from_group'', ''__dict__''} = {}"
    and "ev ''peer_id'' = Some pv" and "val_as_int pv = Some p"
  shows "(p < 0 \<longrightarrow>
            ev ''from_group'' = Some (J (JBool True)) \<and> ev ''from_chat'' = Some (J (JBool False))
            \<and> ev ''from_user'' = Some (J (JBool False)) \<and> ev ''group_id'' = Some (J (JInt (abs p))))
       \<and> (0 \<le> p \<and> p > CHAT_START_ID \<longrightarrow>
            ev ''from_chat'' = Some (J (JBool True)) \<and> ev ''from_group'' = Some (J (JBool False))
            \<and> ev ''from_user'' = Some (J (JBool False))
            \<and> ev ''chat_id'' = Some (J (JInt (p - CHAT_START_ID))))
       \<and> (0 \<le> p \<and> p \<le> CHAT_START_ID \<longrightarrow>
            ev ''from_user'' = Some (J (JBool True)) \<and> ev ''from_chat'' = Some (J (JBool False))
            \<and> ev ''from_group'' = Some (J (JBool False)) \<and> ev ''user_id'' = Some pv)"
  using assms by (rule array_peer_classification)

theorem peer_id_classified_witness:
  "(\<exists>ev. MessageEvent no_int any_ts group_update = Inr ev
        \<and> ev ''peer_id'' = Some (J (JInt (- 5)))
        \<and> ev ''from_group'' = Some (J (JBool True)) \<and> ev ''from_chat'' = Some (J (JBool False))
        \<and> ev ''from_user'' = Some (J (JBool False)) \<and> ev ''group_id'' = Some (J (JInt 5)))
   \<and> (\<exists>ev. MessageEvent no_int any_ts chat_update = Inr ev
        \<and> ev ''peer_id'' = Some (J (JInt 2000000007))
        \<and> ev ''from_chat'' = Some (J (JBool True)) \<and> ev ''from_group'' = Some (J (JBool False))
        \<and> ev ''from_user'' = Some (J (JBool False)) \<and> ev ''chat_id'' = Some (J (JInt 7)))
   \<and> (\<exists>ev. MessageEvent no_int any_ts threshold_update = Inr ev
        \<and> ev ''peer_id'' = Some (J (JInt 2000000000))
        \<and> ev ''from_user'' = Some (J (JBool True)) \<and> ev ''from_chat'' = Some (J (JBool False))
        \<and> ev ''from_group'' = Some (J (JBool False))
        \<and> ev ''user_id'' = Some (J (JInt 2000000000)))
   \<and> (\<exists>ev. MessageEvent no_int any_ts notification_update = Inr ev
        \<and> ev ''peer_id'' = Some (J (JInt 2000000005))
        \<and> ev ''from_chat'' = Some (J (JBool True)) \<and> ev ''from_group'' = Some (J (JBool False))
        \<and> ev ''from_user'' = Some (J (JBool False)) \<and> ev ''chat_id'' = Some (J (JInt 5)))"
proof (intro conjI)
  from group_update_decoded obtain ev where d: "MessageEvent no_int any_ts group_update = Inr ev"
    and p: "ev ''peer_id'' = Some (J (JInt (- 5)))"
    by (cases "MessageEvent no_int any_ts group_update") simp_all
  have k: "set (element_keys (JList (JInt 4 # [JInt 1, JInt 0, JInt (- 5), JInt 0, JStr ''hi''])))
           \<inter> {''type'', ''from_user'', ''from_chat'', ''from_group'', ''__dict__''} = {}"
    by (simp add: element_keys_def)
  have i: "val_as_int (J (JInt (- 5))) = Some (- 5)" by simp
  from peer_id_classified[OF d[unfolded group_update_def] message_new_call message_new_has_peer
      k p i] d p
  show "\<exists>ev. MessageEvent no_int any_ts group_update = Inr ev
        \<and> ev ''peer_id'' = Some (J (JInt (- 5)))
        \<and> ev ''from_group'' = Some (J (JBool True)) \<and> ev ''from_chat'' = Some (J (JBool False))
        \<and> ev ''from_user'' = Some (J (JBool False)) \<and> ev ''group_id'' = Some (J (JInt 5))"
    by simp
next
  from chat_update_decoded obtain ev where d: "MessageEvent no_int any_ts chat_update = Inr ev"
    and p: "ev ''peer_id'' = Some (J (JInt 2000000007))"
    by (cases "MessageEvent no_int any_ts chat_update") simp_all
  have k: "set (element_keys (JList (JInt 4 # [JInt 1, JInt 3, JInt 2000000007, JInt 0, JStr ''hi''])))
           \<inter> {''type'', ''from_user'', ''from_chat'', ''from_group'', ''__dict__''} = {}"
    by (simp add: element_keys_def)
  have i: "val_as_int (J (JInt 2000000007)) = Some 2000000007" by simp
  from peer_id_classified[OF d[unfolded chat_update_def] message_new_call message_new_has_peer
      k p i] d p
  show "\<exists>ev. MessageEvent no_int any_ts chat_update = Inr ev
        \<and> ev ''peer_id'' = Some (J (JInt 2000000007))
        \<and> ev ''from_chat'' = Some (J (JBool True)) \<and> ev ''from_group'' = Some (J (JBool False))
        \<and> ev ''from_user'' = Some (J (JBool False)) \<and> ev ''chat_id'' = Some (J (JInt 7))"
    by (simp add: CHAT_START_ID_def)
next
  from threshold_update_decoded obtain ev
    where d: "MessageEvent no_int any_ts threshold_update = Inr ev"
    and p: "ev ''peer_id'' = Some (J (JInt 2000000000))"
    by (cases "MessageEvent no_int any_ts threshold_update") simp_all
  have k: "set (element_keys (JList (JInt 4 # [JInt 1, JInt 0, JInt 2000000000, JInt 0, JStr ''hi''])))
           \<inter> {''type'', ''from_user'', ''from_chat'', ''from_group'', ''__dict__''} = {}"
    by (simp add: element_keys_def)
  have i: "val_as_int (J (JInt 2000000000)) = Some 2000000000" by simp
  from peer_id_classified[OF d[unfolded threshold_update_def] message_new_call
      message_new_has_peer k p i] d p
  show "\<exists>ev. MessageEvent no_int any_ts threshold_update = Inr ev
        \<and> ev ''peer_id'' = Some (J (JInt 2000000000))
        \<and> ev ''from_user'' = Some (J (JBool True)) \<and> ev ''from_chat'' = Some (J (JBool False))
        \<and> ev ''from_group'' = Some (J (JBool False))
        \<and> ev ''user_id'' = Some (J (JInt 2000000000))"
    by (simp add: CHAT_START_ID_def)
next
  from notification_update_decoded obtain ev
    where d: "MessageEvent no_int any_ts notification_update = Inr ev"
    and p: "ev ''peer_id'' = Some (J (JInt 2000000005))"
    by (cases "MessageEvent no_int any_ts notification_update") simp_all
  have k: "set (element_keys (JList (JInt 114 #
             [JObj [(''peer_id'', JInt 2000000005), (''sound'', JInt 1),
                    (''disabled_until'', JInt 0)]])))
           \<inter> {''type'', ''from_user'', ''from_chat'', ''from_group'', ''__dict__''} = {}"
    by (simp add: element_keys_def)
  have i: "val_as_int (J (JInt 2000000005)) = Some 2000000005" by simp
  have n: "''peer_id'' \<in> set (EVENT_ATTRS_MAPPING NOTIFICATION_SETTINGS_UPDATE)
           \<or> NOTIFICATION_SETTINGS_UPDATE = NOTIFICATION_SETTINGS_UPDATE"
    by simp
  from peer_id_classified[OF d[unfolded notification_update_def] notification_call n k p i] d p
  show "\<exists>ev. MessageEvent no_int any_ts notification_update = Inr ev
        \<and> ev ''peer_id'' = Some (J (JInt 2000000005))
        \<and> ev ''from_chat'' = Some (J (JBool True)) \<and> ev ''from_group'' = Some (J (JBool False))
        \<and> ev ''from_user'' = Some (J (JBool False)) \<and> ev ''chat_id'' = Some (J (JInt 5))"
    by (simp add: CHAT_START_ID_def)
qed


text \<open>
  C7 (as stated, refuted). The two decoders do not derive the same chat id: for the peer
  \<open>2000000007\<close> the array decoder sets \<^verbatim>\<open>chat_id\<close> to 7, and the webhook decoder,
  which has no assignment to \<^verbatim>\<open>chat_id\<close> at all, leaves the attribute unset.
\<close>

theorem decoders_chat_id_counterexample:
  "(case MessageEvent no_int any_ts chat_update of
      Inr ev \<Rightarrow>
        (case BotMessageEvent plain no_int any_ts (callback 1 2000000007) of
           Inr bev \<Rightarrow> ev ''peer_id'' = Some (J (JInt 2000000007))
             \<and> bev ''peer_id'' = Some (J (JInt 2000000007))
             \<and> ev ''chat_id'' = Some (J (JInt 7)) \<and> bev ''chat_id'' = None
         | Inl _ \<Rightarrow> False)
    | Inl _ \<Rightarrow> False)"
  by code_simp

text \<open>
  C7 (amended), for the three flags and away from the two peer ids where the comparisons
  differ. When the array decoder (on an array as in C4) and the webhook decoder decode the
  same integer peer id \<open>p\<close>, with \<open>p\<close> neither 0 nor \<open>CHAT_START_ID\<close>, the two events
  have the same \<^verbatim>\<open>from_user\<close>, \<^verbatim>\<open>from_chat\<close> and \<^verbatim>\<open>from_group\<close>. Only the
  array decoder derives an id from the peer id: the group id \<open>|p|\<close>, the chat id
  \<open>p - CHAT_START_ID\<close>, or the user id \<open>p\<close>. The webhook event has neither
  \<^verbatim>\<open>chat_id\<close> nor \<^verbatim>\<open>user_id\<close>, and its \<^verbatim>\<open>group_id\<close> is the field
  \<^verbatim>\<open>group_id\<close> of the callback, whatever the peer.
\<close>

theorem decoders_classify_alike:
  assumes "MessageEvent int_str ts_ok (JList (x # rest)) = Inr ev"
    and "VkEventType_call (J x) = Some t"
    and "''peer_id'' \<in> set (EVENT_ATTRS_MAPPING t) \<or> t = NOTIFICATION_SETTINGS_UPDATE"
    and "set (element_keys (JList (x # rest)))
           \<inter> {''type'', ''from_user'', ''from_chat'', ''from_group'', ''__dict__''} = {}"
    and "BotMessageEvent fmt int_str' ts_ok' raw = Inr bev"
    and "ev ''peer_id'' = Some pv" and "bev ''peer_id'' = Some pv'"
    and "val_as_int pv = Some p" and "val_as_int pv' = Some p"
    and "p \<noteq> 0" and "p \<noteq> CHAT_START_ID"
  shows "bev ''from_user'' = ev ''from_user'' \<and> bev ''from_chat'' = ev ''from_chat''
       \<and> bev ''from_group'' = ev ''from_group''
       \<and> bev ''chat_id'' = None \<and> bev ''user_id'' = None
       \<and> (\<exists>d. raw = JObj d \<and> bev ''group_id'' = Some (J (get_or_none d ''group_id'')))
       \<and> (p < 0 \<longrightarrow> ev ''group_id'' = Some (J (JInt (abs p))))
       \<and> (p > CHAT_START_ID \<longrightarrow> ev ''chat_id'' = Some (J (JInt (p - CHAT_START_ID))))
       \<and> (0 < p \<and> p < CHAT_START_ID \<longrightarrow> ev ''user_id'' = Some pv)"
proof -
  note a = array_peer_classification[OF assms(1) assms(2) assms(3) assms(4) assms(6) assms(8)]
  note b = bot_peer_classification[OF assms(5) assms(7) assms(9)]
  note g = bot_group_id[OF assms(5)]
  consider "p < 0" | "p > CHAT_START_ID" | "0 < p" "p < CHAT_START_ID"
    using assms(10) assms(11) by linarith
  then have "bev ''from_user'' = ev ''from_user'' \<and> bev ''from_chat'' = ev ''from_chat''
       \<and> bev ''from_group'' = ev ''from_group''
       \<and> bev ''chat_id'' = None \<and> bev ''user_id'' = None
       \<and> (p < 0 \<longrightarrow> ev ''group_id'' = Some (J (JInt (abs p))))
       \<and> (p > CHAT_START_ID \<longrightarrow> ev ''chat_id'' = Some (J (JInt (p - CHAT_START_ID))))
       \<and> (0 < p \<and> p < CHAT_START_ID \<longrightarrow> ev ''user_id'' = Some pv)"
  proof cases
    case 1
    then have "\<not> p \<ge> 2000000000" "\<not> (0 < p \<and> p < 2000000000)" "\<not> p > CHAT_START_ID"
      by (simp_all add: CHAT_START_ID_def)
    with 1 a b show ?thesis by simp
  next
    case 2
    then have "p \<ge> 2000000000" "\<not> (0 < p \<and> p < 2000000000)" "\<not> p < 0" "0 \<le> p"
        "\<not> p < CHAT_START_ID"
      by (simp_all add: CHAT_START_ID_def)
    with 2 a b show ?thesis by simp
  next
    case 3
    then have "\<not> p \<ge> 2000000000" "0 < p \<and> p < 2000000000" "\<not> p < 0" "0 \<le> p"
      "p \<le> CHAT_START_ID" "\<not> p > CHAT_START_ID"
      by (simp_all add: CHAT_START_ID_def)
    with 3 a b show ?thesis by simp
  qed
  with g show ?thesis by simp
qed

theorem decoders_classify_alike_witness:
  "\<exists>ev bev. MessageEvent no_int any_ts chat_update = Inr ev
      \<and> BotMessageEvent plain no_int any_ts (callback 1 2000000007) = Inr bev
      \<and> ev ''peer_id'' = Some (J (JInt 2000000007))
      \<and> bev ''peer_id'' = Some (J (JInt 2000000007))
      \<and> bev ''from_user'' = ev ''from_user'' \<and> bev ''from_chat'' = ev ''from_chat''
      \<and> bev ''from_group'' = ev ''from_group''
      \<and> bev ''chat_id'' = None \<and> bev ''user_id'' = None
      \<and> bev ''group_id'' = Some (J (JInt 5))
      \<and> ev ''chat_id'' = Some (J (JInt 7))"
proof -
  from chat_update_decoded obtain ev where d: "MessageEvent no_int any_ts chat_update = Inr ev"
    and p: "ev ''peer_id'' = Some (J (JInt 2000000007))"
    by (cases "MessageEvent no_int any_ts chat_update") simp_all
  from callback_decoded obtain bev
    where bd: "BotMessageEvent plain no_int any_ts (callback 1 2000000007) = Inr bev"
    and bp: "bev ''peer_id'' = Some (J (JInt 2000000007))"
    by (cases "BotMessageEvent plain no_int any_ts (callback 1 2000000007)") simp_all
  have k: "set (element_keys (JList (JInt 4 # [JInt 1, JInt 3, JInt 2000000007, JInt 0, JStr ''hi''])))
           \<inter> {''type'', ''from_user'', ''from_chat'', ''from_group'', ''__dict__''} = {}"
    by (simp add: element_keys_def)
  have i: "val_as_int (J (JInt 2000000007)) = Some 2000000007" by simp
  have n: "(2000000007::int) \<noteq> 0" "(2000000007::int) \<noteq> CHAT_START_ID"
    by (simp_all add: CHAT_START_ID_def)
  from decoders_classify_alike[OF d[unfolded chat_update_def] message_new_call
      message_new_has_peer k bd p bp i i n]
  have "bev ''from_user'' = ev ''from_user'' \<and> bev ''from_chat'' = ev ''from_chat''
       \<and> bev ''from_group'' = ev ''from_group''
       \<and> bev ''chat_id'' = None \<and> bev ''user_id'' = None
       \<and> bev ''group_id'' = Some (J (JInt 5))
       \<and> ev ''chat_id'' = Some (J (JInt 7))"
    by (simp add: CHAT_START_ID_def callback_def get_or_none_def dict_get_def)
  with d bd p bp show ?thesis by blast
qed

text \<open>
  C8 (as stated, refuted). The webhook decoder sets \<^verbatim>\<open>to_me\<close> unconditionally, after
  it has set \<^verbatim>\<open>from_me\<close> for a message whose sender is the community itself: the
  callback of group 5 for a message from \<open>-5\<close> is decoded with both flags \<^verbatim>\<open>True\<close>.
\<close>

theorem from_me_to_me_counterexample:
  "(case BotMessageEvent plain no_int any_ts (callback (- 5) 1) of
      Inr bev \<Rightarrow> bev ''type'' = Some (J (JStr ''message_new''))
        \<and> bev ''from_me'' = Some (J (JBool True)) \<and> bev ''to_me'' = Some (J (JBool True))
    | Inl _ \<Rightarrow> False)"
  by code_simp

text \<open>
  C8 (amended), each decoder with its own rule. For every decoded \<^verbatim>\<open>MESSAGE_NEW\<close>
  array event (the array's dict elements having no key \<^verbatim>\<open>type\<close>, \<^verbatim>\<open>from_me\<close>,
  \<^verbatim>\<open>to_me\<close> or \<^verbatim>\<open>__dict__\<close>) with integer flags \<open>f\<close>: \<^verbatim>\<open>from_me\<close> is whether
  the \<^verbatim>\<open>OUTBOX\<close> bit of \<open>f\<close> is set and \<^verbatim>\<open>to_me\<close> is whether it is clear, so
  exactly one of the two holds. For every decoded webhook event: \<^verbatim>\<open>to_me\<close> is
  \<^verbatim>\<open>True\<close>, and \<^verbatim>\<open>from_me\<close> is whether group id and sender are both present and
  the sender equals minus the group id; the flags value plays no part.
\<close>

theorem from_me_to_me:
  "(MessageEvent int_str ts_ok (JList (x # rest)) = Inr ev \<longrightarrow>
    VkEventType_call (J x) = Some MESSAGE_NEW \<longrightarrow>
    set (element_keys (JList (x # rest))) \<inter> {''type'', ''from_me'', ''to_me'', ''__dict__''} = {} \<longrightarrow>
    ev ''flags'' = Some fv \<longrightarrow> val_as_int fv = Some f \<longrightarrow>
      ev ''from_me'' = Some (J (JBool (f AND flag_value OUTBOX \<noteq> 0)))
      \<and> ev ''to_me'' = Some (J (JBool (f AND flag_value OUTBOX = 0))))
   \<and> (BotMessageEvent fmt int_str' ts_ok' raw = Inr bev \<longrightarrow>
      bev ''to_me'' = Some (J (JBool True))
      \<and> (\<exists>g s. bev ''group_id'' = Some g \<and> bev ''from_id'' = Some s
            \<and> bev ''from_me'' = Some (J (JBool
                 (g \<noteq> J JNull \<and> s \<noteq> J JNull
                  \<and> (\<exists>n. py_int int_str' g = Inr n \<and> val_eq s (- n)))))))"
proof (intro conjI impI)
  assume "MessageEvent int_str ts_ok (JList (x # rest)) = Inr ev"
    and "VkEventType_call (J x) = Some MESSAGE_NEW"
    and "set (element_keys (JList (x # rest))) \<inter> {''type'', ''from_me'', ''to_me'', ''__dict__''} = {}"
    and "ev ''flags'' = Some fv" and "val_as_int fv = Some f"
  then have r: "ev ''from_me'' = Some (J (JBool (f AND flag_value OUTBOX \<noteq> 0)))
       \<and> ev ''to_me'' = Some (J (JBool (f AND flag_value OUTBOX = 0)))"
    by (rule array_direction)
  from r show "ev ''from_me'' = Some (J (JBool (f AND flag_value OUTBOX \<noteq> 0)))" ..
  from r show "ev ''to_me'' = Some (J (JBool (f AND flag_value OUTBOX = 0)))" ..
next
  assume b: "BotMessageEvent fmt int_str' ts_ok' raw = Inr bev"
  from bot_direction[OF b] show "bev ''to_me'' = Some (J (JBool True))" ..
  from bot_direction[OF b] show "\<exists>g s. bev ''group_id'' = Some g \<and> bev ''from_id'' = Some s
            \<and> bev ''from_me'' = Some (J (JBool
                 (g \<noteq> J JNull \<and> s \<noteq> J JNull
                  \<and> (\<exists>n. py_int int_str' g = Inr n \<and> val_eq s (- n)))))" ..
qed

theorem from_me_to_me_witness:
  "(\<exists>ev. MessageEvent no_int any_ts chat_update = Inr ev
       \<and> ev ''flags'' = Some (J (JInt 3))
       \<and> ev ''from_me'' = Some (J (JBool True)) \<and> ev ''to_me'' = Some (J (JBool False)))
   \<and> (\<exists>ev. MessageEvent no_int any_ts group_update = Inr ev
       \<and> ev ''flags'' = Some (J (JInt 0))
       \<and> ev ''from_me'' = Some (J (JBool False)) \<and> ev ''to_me'' = Some (J (JBool True)))
   \<and> (\<exists>bev. BotMessageEvent plain no_int any_ts (callback 1 2000000007) = Inr bev
       \<and> bev ''to_me'' = Some (J (JBool True)) \<and> bev ''from_me'' = Some (J (JBool False)))"
proof (intro conjI)
  from chat_update_decoded obtain ev where d: "MessageEvent no_int any_ts chat_update = Inr ev"
    and fl: "ev ''flags'' = Some (J (JInt 3))"
    by (cases "MessageEvent no_int any_ts chat_update") simp_all
  have k: "set (element_keys (JList (JInt 4 # [JInt 1, JInt 3, JInt 2000000007, JInt 0, JStr ''hi''])))
           \<inter> {''type'', ''from_me'', ''to_me'', ''__dict__''} = {}"
    by (simp add: element_keys_def)
  have i: "val_as_int (J (JInt 3)) = Some 3" by simp
  from from_me_to_me[THEN conjunct1, rule_format,
      OF d[unfolded chat_update_def] message_new_call k fl i]
  have "ev ''from_me'' = Some (J (JBool True)) \<and> ev ''to_me'' = Some (J (JBool False))"
    by simp
  with d fl show "\<exists>ev. MessageEvent no_int any_ts chat_update = Inr ev
       \<and> ev ''flags'' = Some (J (JInt 3))
       \<and> ev ''from_me'' = Some (J (JBool True)) \<and> ev ''to_me'' = Some (J (JBool False))"
    by blast
next
  from group_update_decoded obtain ev where d: "MessageEvent no_int any_ts group_update = Inr ev"
    and fl: "ev ''flags'' = Some (J (JInt 0))"
    by (cases "MessageEvent no_int any_ts group_update") simp_all
  have k: "set (element_keys (JList (JInt 4 # [JInt 1, JInt 0, JInt (- 5), JInt 0, JStr ''hi''])))
           \<inter> {''type'', ''from_me'', ''to_me'', ''__dict__''} = {}"
    by (simp add: element_keys_def)
  have i: "val_as_int (J (JInt 0)) = Some 0" by simp
  from from_me_to_me[THEN conjunct1, rule_format,
      OF d[unfolded group_update_def] message_new_call k fl i]
  have "ev ''from_me'' = Some (J (JBool False)) \<and> ev ''to_me'' = Some (J (JBool True))"
    by simp
  with d fl show "\<exists>ev. MessageEvent no_int any_ts group_update = Inr ev
       \<and> ev ''flags'' = Some (J (JInt 0))
       \<and> ev ''from_me'' = Some (J (JBool False)) \<and> ev ''to_me'' = Some (J (JBool True))"
    by blast
next
  from callback_fields_decoded obtain bev
    where bd: "BotMessageEvent plain no_int any_ts (callback 1 2000000007) = Inr bev"
    and g: "bev ''group_id'' = Some (J (JInt 5))" and s: "bev ''from_id'' = Some (J (JInt 1))"
    by (cases "BotMessageEvent plain no_int any_ts (callback 1 2000000007)") simp_all
  from from_me_to_me[THEN conjunct2, rule_format, OF bd] g s
  have "bev ''to_me'' = Some (J (JBool True)) \<and> bev ''from_me'' = Some (J (JBool False))"
    by (auto simp: val_eq_def)
  with bd show "\<exists>bev. BotMessageEvent plain no_int any_ts (callback 1 2000000007) = Inr bev
       \<and> bev ''to_me'' = Some (J (JBool True)) \<and> bev ''from_me'' = Some (J (JBool False))"
    by blast
qed

end
